theory Spec2Isabelle
  imports Main "HOL-Library.Word"
begin

section \<open>JavaScript strings\<close>

text \<open>
  A JavaScript string is a sequence of UTF-16 code units. The functions below are the
  string built-ins the server calls: \<^verbatim>\<open>split(",")\<close>, \<^verbatim>\<open>trim()\<close>,
  \<^verbatim>\<open>replace(/re/g, c)\<close> on a character class, \<^verbatim>\<open>toLowerCase()\<close> and
  the rendering of a number inside a template literal.
\<close>

type_synonym jschar = "16 word"
type_synonym jsstring = "jschar list"

definition js :: "string \<Rightarrow> jsstring" where
  "js s = map of_char s"

text \<open>
  \<^verbatim>\<open>String.prototype.trim\<close> strips WhiteSpace and LineTerminator code units:
  TAB, LF, VT, FF, CR, SP, NBSP, U+1680, U+2000..U+200A, U+2028, U+2029, U+202F, U+205F,
  U+3000 and U+FEFF.
\<close>

definition isWhiteSpace :: "jschar \<Rightarrow> bool" where
  "isWhiteSpace c =
     (c = 0x09 \<or> c = 0x0A \<or> c = 0x0B \<or> c = 0x0C \<or> c = 0x0D \<or> c = 0x20 \<or> c = 0xA0
      \<or> c = 0x1680 \<or> (0x2000 \<le> c \<and> c \<le> 0x200A) \<or> c = 0x2028 \<or> c = 0x2029
      \<or> c = 0x202F \<or> c = 0x205F \<or> c = 0x3000 \<or> c = 0xFEFF)"

definition trim :: "jsstring \<Rightarrow> jsstring" where
  "trim s = rev (dropWhile isWhiteSpace (rev (dropWhile isWhiteSpace s)))"

text \<open>
  \<^verbatim>\<open>s.split(sep)\<close> for a separator of one code unit: the pieces between the
  separators, empty pieces kept; the empty string splits into one empty piece.
\<close>

fun split_on :: "jschar \<Rightarrow> jsstring \<Rightarrow> jsstring list" where
  "split_on sep [] = [[]]"
| "split_on sep (c # cs) =
     (if c = sep then [] # split_on sep cs
      else (c # hd (split_on sep cs)) # tl (split_on sep cs))"

definition isAlnum :: "jschar \<Rightarrow> bool" where
  "isAlnum c = ((0x61 \<le> c \<and> c \<le> 0x7A) \<or> (0x41 \<le> c \<and> c \<le> 0x5A) \<or> (0x30 \<le> c \<and> c \<le> 0x39))"

text \<open>
  \<^verbatim>\<open>toLowerCase()\<close> on the ASCII letters. Code units outside ASCII are left as
  they are: their case mapping is not modelled. In \<^verbatim>\<open>sanitizeFilename\<close> the
  argument holds letters, digits and underscores only, where this is exact. So it is
  for the comparisons of \<^verbatim>\<open>switch (provider.toLowerCase())\<close>: the only code unit
  outside ASCII whose lower case is an ASCII letter is the Kelvin sign (lower case
  \<^verbatim>\<open>k\<close>), and no provider name holds a \<^verbatim>\<open>k\<close>.
\<close>

definition lowerChar :: "jschar \<Rightarrow> jschar" where
  "lowerChar c = (if 0x41 \<le> c \<and> c \<le> 0x5A then c + 0x20 else c)"

definition toLowerCase :: "jsstring \<Rightarrow> jsstring" where
  "toLowerCase s = map lowerChar s"

text \<open>A non-negative integer inside a template literal: its decimal digits.\<close>

fun showNat :: "nat \<Rightarrow> jsstring" where
  "showNat n =
     (if n < 10 then [of_nat (48 + n)]
      else showNat (n div 10) @ [of_nat (48 + n mod 10)])"

declare showNat.simps [simp del]

section \<open>Prompt and file name\<close>

text \<open>
  \<^verbatim>\<open>
  function buildPrompt(word, style, background) {
    const styles = { realistic: "...", cartoon: "...", abstract: "...", minimal: "..." };
    const stylePrompt = styles[style] || styles.ghibli;
    return `${background} background, ${stylePrompt}, ${word}`;
  }
  \<close>
  A property read on the object literal yields one of its four own entries, a member
  inherited from \<^verbatim>\<open>Object.prototype\<close> (for the keys \<^verbatim>\<open>constructor\<close>,
  \<^verbatim>\<open>toString\<close>, ...), or \<^verbatim>\<open>undefined\<close>. The inherited members are functions
  and objects of the runtime; the text a template literal renders for them is the
  runtime's, so the prototype is a parameter \<open>proto\<close>: \<open>proto k = Some t\<close> when
  \<^verbatim>\<open>Object.prototype\<close> has a member \<open>k\<close>, rendered as \<open>t\<close>.
\<close>

datatype jsvalue = Undefined | Str jsstring | Inherited jsstring

definition styles :: "(jsstring \<times> jsstring) list" where
  "styles =
     [(js ''realistic'', js ''photorealistic, high detail, professional photography, ''),
      (js ''cartoon'', js ''cartoon style, vibrant colors, exaggerated features, ''),
      (js ''abstract'', js ''abstract art, geometric shapes, expressive, ''),
      (js ''minimal'', js ''minimalist, clean lines, simple composition'')]"

definition getProperty :: "(jsstring \<rightharpoonup> jsstring) \<Rightarrow> jsstring \<Rightarrow> jsvalue" where
  "getProperty proto k =
     (case map_of styles k of
        Some v \<Rightarrow> Str v
      | None \<Rightarrow> (case proto k of Some t \<Rightarrow> Inherited t | None \<Rightarrow> Undefined))"

definition truthy :: "jsvalue \<Rightarrow> bool" where
  "truthy v = (case v of Undefined \<Rightarrow> False | Str s \<Rightarrow> s \<noteq> [] | Inherited t \<Rightarrow> True)"

definition toString :: "jsvalue \<Rightarrow> jsstring" where
  "toString v = (case v of Undefined \<Rightarrow> js ''undefined'' | Str s \<Rightarrow> s | Inherited t \<Rightarrow> t)"

definition stylePrompt :: "(jsstring \<rightharpoonup> jsstring) \<Rightarrow> jsstring \<Rightarrow> jsvalue" where
  "stylePrompt proto style =
     (if truthy (getProperty proto style) then getProperty proto style
      else getProperty proto (js ''ghibli''))"

definition buildPrompt :: "(jsstring \<rightharpoonup> jsstring) \<Rightarrow> jsstring \<Rightarrow> jsstring \<Rightarrow> jsstring \<Rightarrow> jsstring" where
  "buildPrompt proto word style background =
     background @ js '' background, '' @ toString (stylePrompt proto style) @ js '', '' @ word"

text \<open>
  \<^verbatim>\<open>
  function sanitizeFilename(word) {
    return word.trim().replace(/[^a-zA-Z0-9]/g, '_').toLowerCase();
  }
  \<close>
\<close>

definition sanitizeFilename :: "jsstring \<Rightarrow> jsstring" where
  "sanitizeFilename word =
     toLowerCase (map (\<lambda>c. if isAlnum c then c else 0x5F) (trim word))"

section \<open>Data model\<close>

text \<open>
  \<^verbatim>\<open>Number\<close> is the runtime's floating-point parser and is not modelled: a
  number is an integer or some other number (a fraction, \<^verbatim>\<open>NaN\<close>, an infinity),
  and the number parsed from a string is a parameter. The variables \<^verbatim>\<open>width\<close>
  and \<^verbatim>\<open>height\<close> are bound by destructuring an array and are
  \<^verbatim>\<open>undefined\<close> when the array is too short: they are \<open>jsnumber option\<close>,
  \<open>None\<close> for \<^verbatim>\<open>undefined\<close>.
\<close>

datatype jsnumber = Integer int | NonInteger

type_synonym bytes = "8 word list"

text \<open>An error object: \<^verbatim>\<open>error.name\<close> and \<^verbatim>\<open>error.message\<close>.\<close>

datatype js_error = JsError (err_name: jsstring) (err_message: jsstring)

definition Error :: "jsstring \<Rightarrow> js_error" where
  "Error m = JsError (js ''Error'') m"

definition TypeError :: "jsstring \<Rightarrow> js_error" where
  "TypeError m = JsError (js ''TypeError'') m"

text \<open>The entries of \<^verbatim>\<open>jobInfo.results\<close> (and of the synchronous path's \<^verbatim>\<open>results\<close>).\<close>

record item_result =
  url :: jsstring
  alt :: jsstring
  width :: "jsnumber option"
  height :: "jsnumber option"
  filename :: jsstring
  word :: jsstring

datatype status = Started | Generating | Completed

text \<open>The generation parameters, after the schema's defaults.\<close>

record options =
  provider :: jsstring
  style :: jsstring
  background :: jsstring
  size' :: jsstring
  quality :: jsstring

text \<open>
  \<^verbatim>\<open>jobInfo\<close>. The properties \<^verbatim>\<open>endTime\<close> and \<^verbatim>\<open>currentWord\<close> are
  absent from the object literal of \<^verbatim>\<open>generateImagesAsync\<close>: they are \<open>None\<close>
  until assigned, and \<^verbatim>\<open>delete jobInfo.currentWord\<close> makes the latter \<open>None\<close> again.
\<close>

record job_info = options +
  id' :: jsstring
  status :: status
  totalWords :: nat
  completedWords :: nat
  results :: "item_result list"
  startTime :: jsstring
  endTime :: "jsstring option"
  currentWord :: "jsstring option"

text \<open>\<^verbatim>\<open>config\<close>: the directories and, per provider, the endpoint and the key read from the process environment.\<close>

record config =
  imageDir :: jsstring
  jobsDir :: jsstring
  dalle3_endpoint :: jsstring
  dalle3_apiKey :: "jsstring option"
  stability_endpoint :: jsstring
  stability_apiKey :: "jsstring option"

text \<open>
  The \<^verbatim>\<open>arguments\<close> of a \<^verbatim>\<open>generateImages\<close> tool call as the caller
  sends them. The tool handler passes them to \<^verbatim>\<open>generateImages\<close> unchecked:
  they are any JSON value, or \<^verbatim>\<open>undefined\<close>. Of a property the schema reads
  whether it is absent (or \<^verbatim>\<open>undefined\<close>), a string, a boolean, or a value of
  another type (a number, \<^verbatim>\<open>null\<close>, an array, an object); \<open>NotObject\<close>
  is an input that is no object at all.
\<close>

datatype jsarg = Absent | StringArg jsstring | BooleanArg bool | OtherArg

record arguments =
  in_words :: jsarg
  in_provider :: jsarg
  in_style :: jsarg
  in_background :: jsarg
  in_size :: jsarg
  in_quality :: jsarg
  in_async :: jsarg

datatype tool_input = NotObject | Object arguments

text \<open>
  The runtime around the server: \<^verbatim>\<open>config\<close>, the members of
  \<^verbatim>\<open>Object.prototype\<close> as a template literal renders them, the error a request
  rejects with when its \<^verbatim>\<open>AbortController\<close> aborts it, \<^verbatim>\<open>Buffer.toString()\<close>,
  \<^verbatim>\<open>Number\<close> on a string, the message of the TypeError raised by
  \<^verbatim>\<open>undefined.toString()\<close>, and the message of the ZodError the schema library
  raises for an input it rejects (its list of issues, rendered as JSON).
\<close>

record env =
  cfg :: config
  proto :: "jsstring \<rightharpoonup> jsstring"
  abortError :: js_error
  bufferToString :: "bytes \<Rightarrow> jsstring"
  toNumber :: "jsstring \<Rightarrow> jsnumber"
  toStringOfUndefined :: jsstring
  zodMessage :: "tool_input \<Rightarrow> jsstring"

text \<open>\<^verbatim>\<open>!apiKey\<close>: the key is undefined or the empty string.\<close>

definition missing :: "jsstring option \<Rightarrow> bool" where
  "missing k = (case k of None \<Rightarrow> True | Some s \<Rightarrow> s = [])"

text \<open>\<^verbatim>\<open>response.ok\<close>\<close>

definition ok :: "nat \<Rightarrow> bool" where
  "ok st = (200 \<le> st \<and> st \<le> 299)"

section \<open>The background runner\<close>

text \<open>
  \<^verbatim>\<open>generateImagesInBackground(jobId, wordList, provider, style, background, size, quality)\<close>
  is an \<^verbatim>\<open>async\<close> function: it runs without interruption from one \<^verbatim>\<open>await\<close>
  to the next, and any other code of the process (a \<^verbatim>\<open>checkStatus\<close> call, another
  job's runner) runs only while it is suspended at an \<^verbatim>\<open>await\<close> or after it has
  returned. The model is a machine with one state per statement that touches
  \<^verbatim>\<open>jobInfo\<close> and one per \<^verbatim>\<open>await\<close>.

  A \<open>batch\<close> holds the constants both generation paths compute before their loop:
  the generation parameters, the \<^verbatim>\<open>timestamp\<close> and the pair of
  \<^verbatim>\<open>width\<close> and \<^verbatim>\<open>height\<close>. A \<open>task\<close> holds what one call of the background runner
  keeps fixed: the batch, its other arguments, and the clock reading it will store as
  \<^verbatim>\<open>endTime\<close>.
\<close>

record batch = options +
  timestamp :: jsstring
  dims :: "jsnumber option \<times> jsnumber option"

record task = batch +
  jobId :: jsstring
  wordList :: "jsstring list"
  endClock :: jsstring

text \<open>The \<^verbatim>\<open>await\<close>s of one loop iteration, with the values the code after them still needs.\<close>

datatype await_point =
    DalleFetch
  | DalleErrJson nat
  | DalleJson
  | DalleDownload jsstring
  | DalleArrayBuffer
  | DalleWriteFile bytes
  | StabPostForm
  | StabWriteFile bytes

text \<open>
  What an awaited promise settles to, as far as the code reads it:
  \<^item> \<open>Rejected e\<close>: the promise rejects with \<open>e\<close>;
  \<^item> \<open>Response st\<close>: \<^verbatim>\<open>fetch\<close> resolves with HTTP status \<open>st\<close>;
  \<^item> \<open>ErrorJson m\<close>: the error body is parsed and \<^verbatim>\<open>err.error?.message\<close> is \<open>m\<close>
    (\<open>None\<close> for \<^verbatim>\<open>undefined\<close> and the other falsy values that are no string; a
    truthy value that is no string counts as the string \<^verbatim>\<open>new Error\<close> makes of it);
  \<^item> \<open>ImageUrl u\<close>: the body is parsed and \<^verbatim>\<open>data.data[0].url\<close> is \<open>u\<close>;
  \<^item> \<open>BadShape e\<close>: the body is parsed and reading the property raises the TypeError \<open>e\<close>;
  \<^item> \<open>ArrayBuffer b\<close>, \<open>Written\<close>: the image bytes; the file is written;
  \<^item> \<open>AxiosResponse st b\<close>: \<^verbatim>\<open>axios.postForm\<close> resolves (\<^verbatim>\<open>validateStatus: undefined\<close>:
    for every status) with status \<open>st\<close> and body \<open>b\<close>;
  \<^item> \<open>Text s\<close>, \<open>Artifact b\<close>, \<open>NoImageData\<close>: used by the synchronous path only.
\<close>

datatype reply =
    Rejected js_error
  | Response nat
  | ErrorJson "jsstring option"
  | ImageUrl jsstring
  | BadShape js_error
  | ArrayBuffer bytes
  | Written
  | AxiosResponse nat bytes
  | Text jsstring
  | Artifact bytes
  | NoImageData

text \<open>
  An event of the event loop that resumes a suspended runner: the awaited promise
  settles, or the timer of \<^verbatim>\<open>setTimeout(() => controller.abort(), ms)\<close> fires.
\<close>

datatype event = Settled reply | TimerFired

text \<open>How the code after an \<^verbatim>\<open>await\<close> leaves the \<^verbatim>\<open>try\<close> block, or where it suspends next.\<close>

datatype outcome = Next await_point | Throw js_error | Done

text \<open>
  Where the runner is, with the loop index \<open>i\<close> and \<^verbatim>\<open>word = wordList[i]\<close>:
  \<^item> \<open>LoopTest i\<close>: about to test \<^verbatim>\<open>i < wordList.length\<close>;
  \<^item> \<open>SetGenerating i w\<close>: about to assign \<^verbatim>\<open>jobInfo.status = 'generating'\<close>;
  \<^item> \<open>SetCurrentWord i w\<close>: about to assign \<^verbatim>\<open>jobInfo.currentWord = word\<close>;
  \<^item> \<open>Dispatch i w\<close>: entering the \<^verbatim>\<open>try\<close> block, at the \<^verbatim>\<open>switch\<close>;
  \<^item> \<open>Await i w a\<close>: suspended at the \<^verbatim>\<open>await\<close> \<open>a\<close>;
  \<^item> \<open>PushSuccess i w\<close>: the file is written, about to push the success entry;
  \<^item> \<open>Catch i w err\<close>: in the \<^verbatim>\<open>catch (error)\<close> clause, about to push the failure entry;
  \<^item> \<open>SetCompletedWords i\<close>: about to assign \<^verbatim>\<open>jobInfo.completedWords = i + 1\<close>;
  \<^item> \<open>SetStatusCompleted\<close>, \<open>SetEndTime\<close>, \<open>DeleteCurrentWord\<close>: the three statements
    after the loop;
  \<^item> \<open>Returned\<close>: the function has returned.
\<close>

datatype pc =
    LoopTest nat
  | SetGenerating nat jsstring
  | SetCurrentWord nat jsstring
  | Dispatch nat jsstring
  | Await nat jsstring await_point
  | PushSuccess nat jsstring
  | Catch nat jsstring js_error
  | SetCompletedWords nat
  | SetStatusCompleted
  | SetEndTime
  | DeleteCurrentWord
  | Returned

record runner =
  job :: job_info
  pc :: pc

text \<open>
  \<^verbatim>\<open>
  const sanitizedWord = sanitizeFilename(word);
  const filename = `${sanitizedWord}_${timestamp}.png`;
  const filepath = path.join(config.imageDir, filename);
  \<close>
  \<^verbatim>\<open>timestamp\<close> is \<^verbatim>\<open>new Date().toISOString().replace(/[:.]/g, '-')\<close>, computed
  once before the loop. \<^verbatim>\<open>path.join\<close> of the (normalised) directory and a file name
  without separators puts one separator between them.
\<close>

definition makeTimestamp :: "jsstring \<Rightarrow> jsstring" where
  "makeTimestamp isoString = map (\<lambda>c. if c = 0x3A \<or> c = 0x2E then 0x2D else c) isoString"

definition filenameOf :: "'a batch_scheme \<Rightarrow> jsstring \<Rightarrow> jsstring" where
  "filenameOf t w = sanitizeFilename w @ js ''_'' @ timestamp t @ js ''.png''"

definition filepathOf :: "env \<Rightarrow> 'a batch_scheme \<Rightarrow> jsstring \<Rightarrow> jsstring" where
  "filepathOf e t w = imageDir (cfg e) @ js ''/'' @ filenameOf t w"

definition promptOf :: "env \<Rightarrow> 'a batch_scheme \<Rightarrow> jsstring \<Rightarrow> jsstring" where
  "promptOf e t w = buildPrompt (proto e) w (style t) (background t)"

text \<open>The two object literals pushed onto \<^verbatim>\<open>jobInfo.results\<close>.\<close>

definition successResult :: "env \<Rightarrow> 'a batch_scheme \<Rightarrow> jsstring \<Rightarrow> item_result" where
  "successResult e t w =
     \<lparr>url = js ''file://'' @ filepathOf e t w,
      alt = style t @ js '' image of '' @ w,
      width = fst (dims t), height = snd (dims t),
      filename = filenameOf t w, word = w\<rparr>"

definition failureResult :: "jsstring \<Rightarrow> js_error \<Rightarrow> item_result" where
  "failureResult w err =
     \<lparr>url = [],
      alt = js ''Failed to generate image for '' @ w @ js '': '' @ err_message err,
      width = Some (Integer 0), height = Some (Integer 0),
      filename = [], word = w\<rparr>"

text \<open>
  The \<^verbatim>\<open>catch\<close> of the Stability branch's inner \<^verbatim>\<open>try\<close>: an error named
  \<^verbatim>\<open>AbortError\<close> is replaced, every other error is thrown again.
\<close>

definition stabilityCatch :: "js_error \<Rightarrow> js_error" where
  "stabilityCatch err =
     (if err_name err = js ''AbortError''
      then Error (js ''Stability API request timed out after 90 seconds'')
      else err)"

text \<open>
  The code between one \<^verbatim>\<open>await\<close> and the next, for the reply the \<^verbatim>\<open>await\<close>
  yields. \<open>None\<close>: the awaited promise does not settle to a reply of this shape.
  At \<open>DalleErrJson\<close> the promise is \<^verbatim>\<open>response.json().catch(() => ({}))\<close>: a
  rejection becomes the empty object, whose \<^verbatim>\<open>error?.message\<close> is undefined.
\<close>

definition httpMessage :: "jsstring option \<Rightarrow> nat \<Rightarrow> jsstring" where
  "httpMessage m st =
     (case m of
        Some x \<Rightarrow> if x \<noteq> [] then x else js ''HTTP '' @ showNat st
      | None \<Rightarrow> js ''HTTP '' @ showNat st)"

definition resume :: "env \<Rightarrow> await_point \<Rightarrow> reply \<Rightarrow> outcome option" where
  "resume e a r =
     (case a of
        DalleFetch \<Rightarrow>
          (case r of
             Rejected err \<Rightarrow> Some (Throw err)
           | Response st \<Rightarrow> Some (if \<not> ok st then Next (DalleErrJson st) else Next DalleJson)
           | _ \<Rightarrow> None)
      | DalleErrJson st \<Rightarrow>
          (case r of
             Rejected err \<Rightarrow> Some (Throw (Error (httpMessage None st)))
           | ErrorJson m \<Rightarrow> Some (Throw (Error (httpMessage m st)))
           | BadShape err \<Rightarrow> Some (Throw err)
           | _ \<Rightarrow> None)
      | DalleJson \<Rightarrow>
          (case r of
             Rejected err \<Rightarrow> Some (Throw err)
           | ImageUrl u \<Rightarrow> Some (Next (DalleDownload u))
           | BadShape err \<Rightarrow> Some (Throw err)
           | _ \<Rightarrow> None)
      | DalleDownload u \<Rightarrow>
          (case r of
             Rejected err \<Rightarrow> Some (Throw err)
           | Response st \<Rightarrow>
               Some (if \<not> ok st then Throw (Error (js ''Download failed'')) else Next DalleArrayBuffer)
           | _ \<Rightarrow> None)
      | DalleArrayBuffer \<Rightarrow>
          (case r of
             Rejected err \<Rightarrow> Some (Throw err)
           | ArrayBuffer b \<Rightarrow> Some (Next (DalleWriteFile b))
           | _ \<Rightarrow> None)
      | DalleWriteFile b \<Rightarrow>
          (case r of
             Rejected err \<Rightarrow> Some (Throw err)
           | Written \<Rightarrow> Some Done
           | _ \<Rightarrow> None)
      | StabPostForm \<Rightarrow>
          (case r of
             Rejected err \<Rightarrow> Some (Throw (stabilityCatch err))
           | AxiosResponse st b \<Rightarrow>
               Some (if st = 200 then Next (StabWriteFile b)
                     else Throw (stabilityCatch (Error (js ''Stability API error '' @ showNat st
                                   @ js '': '' @ bufferToString e b))))
           | _ \<Rightarrow> None)
      | StabWriteFile b \<Rightarrow>
          (case r of
             Rejected err \<Rightarrow> Some (Throw (stabilityCatch err))
           | Written \<Rightarrow> Some Done
           | _ \<Rightarrow> None))"

text \<open>
  The timer armed while the runner is suspended at an \<^verbatim>\<open>await\<close>, in milliseconds.
  Only the Stability branch creates an \<^verbatim>\<open>AbortController\<close>; it calls
  \<^verbatim>\<open>clearTimeout\<close> as soon as \<^verbatim>\<open>axios.postForm\<close> has settled.
\<close>

fun armed :: "await_point \<Rightarrow> nat option" where
  "armed StabPostForm = Some 90000"
| "armed _ = None"

text \<open>
  \<^verbatim>\<open>switch (provider.toLowerCase())\<close> up to the first \<^verbatim>\<open>await\<close> of the chosen
  branch, or to the \<^verbatim>\<open>throw\<close> that leaves it.
\<close>

definition switch :: "env \<Rightarrow> task \<Rightarrow> outcome" where
  "switch e t =
     (let p = toLowerCase (provider t) in
      if p = js ''dalle3'' \<or> p = js ''dall-e-3'' then
        (if missing (dalle3_apiKey (cfg e)) then Throw (Error (js ''Missing OPENAI_API_KEY''))
         else Next DalleFetch)
      else if p = js ''stability'' then
        (if missing (stability_apiKey (cfg e)) then Throw (Error (js ''Missing STABILITY_API_KEY''))
         else Next StabPostForm)
      else Throw (Error (js ''Unsupported provider: '' @ provider t)))"

text \<open>Where the loop body goes on after the \<^verbatim>\<open>try\<close> block's code: the next \<^verbatim>\<open>await\<close>, the \<^verbatim>\<open>catch\<close> clause, or the push of the success entry.\<close>

fun continue :: "nat \<Rightarrow> jsstring \<Rightarrow> outcome \<Rightarrow> pc" where
  "continue i w (Next a) = Await i w a"
| "continue i w (Throw err) = Catch i w err"
| "continue i w Done = PushSuccess i w"

text \<open>
  One statement of the runner. \<open>None\<close> at an \<^verbatim>\<open>await\<close> (the runner is suspended)
  and after the function has returned.
\<close>

definition micro :: "env \<Rightarrow> task \<Rightarrow> runner \<Rightarrow> runner option" where
  "micro e t s =
     (case pc s of
        LoopTest i \<Rightarrow>
          if i < length (wordList t) then Some (s\<lparr>pc := SetGenerating i (wordList t ! i)\<rparr>)
          else Some (s\<lparr>pc := SetStatusCompleted\<rparr>)
      | SetGenerating i w \<Rightarrow>
          Some (s\<lparr>job := (job s)\<lparr>status := Generating\<rparr>, pc := SetCurrentWord i w\<rparr>)
      | SetCurrentWord i w \<Rightarrow>
          Some (s\<lparr>job := (job s)\<lparr>currentWord := Some w\<rparr>, pc := Dispatch i w\<rparr>)
      | Dispatch i w \<Rightarrow> Some (s\<lparr>pc := continue i w (switch e t)\<rparr>)
      | Await i w a \<Rightarrow> None
      | PushSuccess i w \<Rightarrow>
          Some (s\<lparr>job := (job s)\<lparr>results := results (job s) @ [successResult e t w]\<rparr>,
                  pc := SetCompletedWords i\<rparr>)
      | Catch i w err \<Rightarrow>
          Some (s\<lparr>job := (job s)\<lparr>results := results (job s) @ [failureResult w err]\<rparr>,
                  pc := SetCompletedWords i\<rparr>)
      | SetCompletedWords i \<Rightarrow>
          Some (s\<lparr>job := (job s)\<lparr>completedWords := i + 1\<rparr>, pc := LoopTest (i + 1)\<rparr>)
      | SetStatusCompleted \<Rightarrow>
          Some (s\<lparr>job := (job s)\<lparr>status := Completed\<rparr>, pc := SetEndTime\<rparr>)
      | SetEndTime \<Rightarrow>
          Some (s\<lparr>job := (job s)\<lparr>endTime := Some (endClock t)\<rparr>, pc := DeleteCurrentWord\<rparr>)
      | DeleteCurrentWord \<Rightarrow>
          Some (s\<lparr>job := (job s)\<lparr>currentWord := None\<rparr>, pc := Returned\<rparr>)
      | Returned \<Rightarrow> None)"

text \<open>
  An event resumes a suspended runner. The timer can fire only while it is armed; the
  aborted request then rejects with the runtime's abort error.
\<close>

definition replyOf :: "env \<Rightarrow> await_point \<Rightarrow> event \<Rightarrow> reply option" where
  "replyOf e a ev =
     (case ev of
        Settled r \<Rightarrow> Some r
      | TimerFired \<Rightarrow> (case armed a of Some ms \<Rightarrow> Some (Rejected (abortError e)) | None \<Rightarrow> None))"

definition deliver :: "env \<Rightarrow> event \<Rightarrow> runner \<Rightarrow> runner option" where
  "deliver e ev s =
     (case pc s of
        Await i w a \<Rightarrow>
          (case replyOf e a ev of
             None \<Rightarrow> None
           | Some r \<Rightarrow>
               (case resume e a r of
                  None \<Rightarrow> None
                | Some out \<Rightarrow> Some (s\<lparr>pc := continue i w out\<rparr>)))
      | _ \<Rightarrow> None)"

definition observable :: "runner \<Rightarrow> bool" where
  "observable s = (case pc s of Await i w a \<Rightarrow> True | Returned \<Rightarrow> True | _ \<Rightarrow> False)"

text \<open>
  The record \<^verbatim>\<open>generateImagesAsync\<close> stores in the registry before it calls the
  runner, and the runner's first state: the loop is entered with \<^verbatim>\<open>i = 0\<close>.
\<close>

definition newJob :: "task \<Rightarrow> jsstring \<Rightarrow> job_info" where
  "newJob t start =
     \<lparr>provider = provider t, style = style t, background = background t,
      size' = size' t, quality = quality t,
      id' = jobId t, status = Started, totalWords = length (wordList t),
      completedWords = 0, results = [], startTime = start,
      endTime = None, currentWord = None\<rparr>"

definition initial :: "task \<Rightarrow> jsstring \<Rightarrow> runner" where
  "initial t start = \<lparr>job = newJob t start, pc = LoopTest 0\<rparr>"

text \<open>One move of the runner: a statement, or an event that resumes it.\<close>

definition move :: "env \<Rightarrow> task \<Rightarrow> runner \<Rightarrow> runner \<Rightarrow> bool" where
  "move e t s s' = (micro e t s = Some s' \<or> (\<exists>ev. deliver e ev s = Some s'))"

text \<open>The states of the runner of one job, over all behaviours of the providers and the file system.\<close>

inductive reach :: "env \<Rightarrow> task \<Rightarrow> jsstring \<Rightarrow> runner \<Rightarrow> bool" for e t start where
  reach_initial: "reach e t start (initial t start)"
| reach_micro: "reach e t start s \<Longrightarrow> micro e t s = Some s' \<Longrightarrow> reach e t start s'"
| reach_deliver: "reach e t start s \<Longrightarrow> deliver e ev s = Some s' \<Longrightarrow> reach e t start s'"

text \<open>\<open>k\<close> statements in a row, none of them an \<^verbatim>\<open>await\<close>.\<close>

fun micros :: "env \<Rightarrow> task \<Rightarrow> nat \<Rightarrow> runner \<Rightarrow> runner option" where
  "micros e t 0 s = Some s"
| "micros e t (Suc k) s = (case micro e t s of None \<Rightarrow> None | Some s' \<Rightarrow> micros e t k s')"

text \<open>
  The run from one \<^verbatim>\<open>await\<close> to the next: statements are executed until the runner
  suspends or returns. \<open>rank\<close> bounds the statements left before that.
\<close>

fun rank :: "nat \<Rightarrow> pc \<Rightarrow> nat" where
  "rank n (LoopTest i) = 10 * (n - i) + 4"
| "rank n (SetGenerating i w) = 10 * (n - Suc i) + 9"
| "rank n (SetCurrentWord i w) = 10 * (n - Suc i) + 8"
| "rank n (Dispatch i w) = 10 * (n - Suc i) + 7"
| "rank n (Await i w a) = 10 * (n - Suc i) + 6"
| "rank n (PushSuccess i w) = 10 * (n - Suc i) + 6"
| "rank n (Catch i w err) = 10 * (n - Suc i) + 6"
| "rank n (SetCompletedWords i) = 10 * (n - Suc i) + 5"
| "rank n SetStatusCompleted = 3"
| "rank n SetEndTime = 2"
| "rank n DeleteCurrentWord = 1"
| "rank n Returned = 0"

function runToAwait :: "env \<Rightarrow> task \<Rightarrow> runner \<Rightarrow> runner" where
  "runToAwait e t s = (case micro e t s of None \<Rightarrow> s | Some s' \<Rightarrow> runToAwait e t s')"
  by pat_completeness auto
termination
proof (relation "measure (\<lambda>(e, t, s). rank (length (wordList t)) (pc s))")
  show "wf (measure (\<lambda>(e, t, s). rank (length (wordList t)) (pc s)))"
    by simp
next
  fix e :: env and t :: task and s s' :: runner
  assume "micro e t s = Some s'"
  then have "rank (length (wordList t)) (pc s') < rank (length (wordList t)) (pc s)"
    by (cases "pc s"; cases "switch e t") (auto simp: micro_def split: if_splits)
  then show "((e, t, s'), (e, t, s)) \<in> measure (\<lambda>(e, t, s). rank (length (wordList t)) (pc s))"
    by simp
qed

declare runToAwait.simps [simp del]

text \<open>
  One turn of the event loop for this runner: the event resumes it and it runs to its
  next \<^verbatim>\<open>await\<close>. An event that does not resume it leaves it as it is.
\<close>

definition onEvent :: "env \<Rightarrow> task \<Rightarrow> event \<Rightarrow> runner \<Rightarrow> runner" where
  "onEvent e t ev s = (case deliver e ev s of None \<Rightarrow> s | Some s' \<Rightarrow> runToAwait e t s')"

fun onEvents :: "env \<Rightarrow> task \<Rightarrow> event list \<Rightarrow> runner \<Rightarrow> runner" where
  "onEvents e t [] s = s"
| "onEvents e t (ev # evs) s = onEvents e t evs (onEvent e t ev s)"

text \<open>
  The request in flight while the runner is suspended: what the awaited call was given.
\<close>

datatype request =
    FetchGenerations jsstring jsstring jsstring jsstring jsstring
  | ReadJson
  | FetchImage jsstring
  | ReadArrayBuffer
  | WriteFile jsstring bytes
  | PostForm jsstring jsstring jsstring "jsnumber option" "jsnumber option"

definition bearer :: "jsstring option \<Rightarrow> jsstring" where
  "bearer k = js ''Bearer '' @ (case k of None \<Rightarrow> js ''undefined'' | Some s \<Rightarrow> s)"

definition request :: "env \<Rightarrow> task \<Rightarrow> jsstring \<Rightarrow> await_point \<Rightarrow> request" where
  "request e t w a =
     (case a of
        DalleFetch \<Rightarrow>
          FetchGenerations (dalle3_endpoint (cfg e)) (bearer (dalle3_apiKey (cfg e)))
            (promptOf e t w) (size' t) (quality t)
      | DalleErrJson st \<Rightarrow> ReadJson
      | DalleJson \<Rightarrow> ReadJson
      | DalleDownload u \<Rightarrow> FetchImage u
      | DalleArrayBuffer \<Rightarrow> ReadArrayBuffer
      | DalleWriteFile b \<Rightarrow> WriteFile (filepathOf e t w) b
      | StabPostForm \<Rightarrow>
          PostForm (js ''https://api.stability.ai/v2beta/stable-image/generate/ultra'')
            (bearer (stability_apiKey (cfg e))) (promptOf e t w) (fst (dims t)) (snd (dims t))
      | StabWriteFile b \<Rightarrow> WriteFile (filepathOf e t w) b)"

section \<open>The synchronous path\<close>

text \<open>
  \<^verbatim>\<open>generateImagesSync\<close> has its own copy of the provider branches. Nothing outside
  the call sees its \<^verbatim>\<open>results\<close> before it returns, so each loop iteration is
  modelled as a whole: it consumes the events that settle its \<^verbatim>\<open>await\<close>s from a
  script and yields the entry it pushes. An iteration whose \<^verbatim>\<open>await\<close> is never
  settled (the script ends) never ends: the result is \<open>None\<close>.
\<close>

datatype sync_point =
    SyncDalleFetch
  | SyncDalleErrJson nat
  | SyncDalleJson
  | SyncDalleDownload jsstring
  | SyncDalleArrayBuffer
  | SyncDalleWriteFile bytes
  | SyncStabFetch
  | SyncStabErrText nat
  | SyncStabJson
  | SyncStabWriteFile bytes

datatype sync_outcome = SyncNext sync_point | SyncThrow js_error | SyncDone

text \<open>The \<^verbatim>\<open>catch\<close> of the DALL-E branch's inner \<^verbatim>\<open>try\<close> (synchronous path only).\<close>

definition dalleCatch :: "js_error \<Rightarrow> js_error" where
  "dalleCatch err =
     (if err_name err = js ''AbortError''
      then Error (js ''DALL-E request timed out after 60 seconds'')
      else err)"

definition syncResume :: "sync_point \<Rightarrow> reply \<Rightarrow> sync_outcome option" where
  "syncResume a r =
     (case a of
        SyncDalleFetch \<Rightarrow>
          (case r of
             Rejected err \<Rightarrow> Some (SyncThrow (dalleCatch err))
           | Response st \<Rightarrow>
               Some (if \<not> ok st then SyncNext (SyncDalleErrJson st) else SyncNext SyncDalleJson)
           | _ \<Rightarrow> None)
      | SyncDalleErrJson st \<Rightarrow>
          (case r of
             Rejected err \<Rightarrow> Some (SyncThrow (dalleCatch (Error (httpMessage None st))))
           | ErrorJson m \<Rightarrow> Some (SyncThrow (dalleCatch (Error (httpMessage m st))))
           | BadShape err \<Rightarrow> Some (SyncThrow (dalleCatch err))
           | _ \<Rightarrow> None)
      | SyncDalleJson \<Rightarrow>
          (case r of
             Rejected err \<Rightarrow> Some (SyncThrow (dalleCatch err))
           | ImageUrl u \<Rightarrow> Some (SyncNext (SyncDalleDownload u))
           | BadShape err \<Rightarrow> Some (SyncThrow (dalleCatch err))
           | _ \<Rightarrow> None)
      | SyncDalleDownload u \<Rightarrow>
          (case r of
             Rejected err \<Rightarrow> Some (SyncThrow (dalleCatch err))
           | Response st \<Rightarrow>
               Some (if \<not> ok st then SyncThrow (dalleCatch (Error (js ''Download failed'')))
                     else SyncNext SyncDalleArrayBuffer)
           | _ \<Rightarrow> None)
      | SyncDalleArrayBuffer \<Rightarrow>
          (case r of
             Rejected err \<Rightarrow> Some (SyncThrow (dalleCatch err))
           | ArrayBuffer b \<Rightarrow> Some (SyncNext (SyncDalleWriteFile b))
           | _ \<Rightarrow> None)
      | SyncDalleWriteFile b \<Rightarrow>
          (case r of
             Rejected err \<Rightarrow> Some (SyncThrow (dalleCatch err))
           | Written \<Rightarrow> Some SyncDone
           | _ \<Rightarrow> None)
      | SyncStabFetch \<Rightarrow>
          (case r of
             Rejected err \<Rightarrow> Some (SyncThrow (stabilityCatch err))
           | Response st \<Rightarrow>
               Some (if \<not> ok st then SyncNext (SyncStabErrText st) else SyncNext SyncStabJson)
           | _ \<Rightarrow> None)
      | SyncStabErrText st \<Rightarrow>
          (case r of
             Rejected err \<Rightarrow> Some (SyncThrow (stabilityCatch err))
           | Text x \<Rightarrow>
               Some (SyncThrow (stabilityCatch
                 (Error (js ''Stability API error '' @ showNat st @ js '': '' @ x))))
           | _ \<Rightarrow> None)
      | SyncStabJson \<Rightarrow>
          (case r of
             Rejected err \<Rightarrow> Some (SyncThrow (stabilityCatch err))
           | Artifact b \<Rightarrow> Some (SyncNext (SyncStabWriteFile b))
           | NoImageData \<Rightarrow>
               Some (SyncThrow (stabilityCatch
                 (Error (js ''No image data returned from Stability API''))))
           | BadShape err \<Rightarrow> Some (SyncThrow (stabilityCatch err))
           | _ \<Rightarrow> None)
      | SyncStabWriteFile b \<Rightarrow>
          (case r of
             Rejected err \<Rightarrow> Some (SyncThrow (stabilityCatch err))
           | Written \<Rightarrow> Some SyncDone
           | _ \<Rightarrow> None))"

text \<open>
  Both branches of the synchronous path arm a timer before their \<^verbatim>\<open>fetch\<close> and
  clear it when the \<^verbatim>\<open>fetch\<close> has settled.
\<close>

fun syncArmed :: "sync_point \<Rightarrow> nat option" where
  "syncArmed SyncDalleFetch = Some 60000"
| "syncArmed SyncStabFetch = Some 90000"
| "syncArmed _ = None"

definition syncReplyOf :: "env \<Rightarrow> sync_point \<Rightarrow> event \<Rightarrow> reply option" where
  "syncReplyOf e a ev =
     (case ev of
        Settled r \<Rightarrow> Some r
      | TimerFired \<Rightarrow> (case syncArmed a of Some ms \<Rightarrow> Some (Rejected (abortError e)) | None \<Rightarrow> None))"

text \<open>
  \<^verbatim>\<open>switch (provider.toLowerCase())\<close> of the synchronous path, up to the first
  \<^verbatim>\<open>await\<close> of the chosen branch. Before its \<^verbatim>\<open>fetch\<close> the Stability
  branch builds the form fields with \<^verbatim>\<open>width.toString()\<close> and
  \<^verbatim>\<open>height.toString()\<close>, outside the inner \<^verbatim>\<open>try\<close>: when one of the
  two is \<^verbatim>\<open>undefined\<close> the call raises a TypeError and no request is made.
\<close>

definition syncSwitch :: "env \<Rightarrow> 'a batch_scheme \<Rightarrow> sync_outcome" where
  "syncSwitch e t =
     (let p = toLowerCase (provider t) in
      if p = js ''dalle3'' \<or> p = js ''dall-e-3'' then
        (if missing (dalle3_apiKey (cfg e)) then SyncThrow (Error (js ''Missing OPENAI_API_KEY''))
         else SyncNext SyncDalleFetch)
      else if p = js ''stability'' then
        (if missing (stability_apiKey (cfg e)) then SyncThrow (Error (js ''Missing STABILITY_API_KEY''))
         else if fst (dims t) = None \<or> snd (dims t) = None
           then SyncThrow (TypeError (toStringOfUndefined e))
         else SyncNext SyncStabFetch)
      else SyncThrow (Error (js ''Unsupported provider: '' @ provider t)))"

text \<open>
  The \<^verbatim>\<open>await\<close>s of one iteration, from the point \<open>a\<close> on: \<open>Some (None, evs')\<close> when
  the \<^verbatim>\<open>try\<close> block ends normally, \<open>Some (Some err, evs')\<close> when it throws \<open>err\<close>,
  with the events left over; \<open>None\<close> when the script ends first.
\<close>

fun syncAwait :: "env \<Rightarrow> sync_point \<Rightarrow> event list \<Rightarrow> (js_error option \<times> event list) option" where
  "syncAwait e a [] = None"
| "syncAwait e a (ev # evs) =
     (case syncReplyOf e a ev of
        None \<Rightarrow> syncAwait e a evs
      | Some r \<Rightarrow>
          (case syncResume a r of
             None \<Rightarrow> syncAwait e a evs
           | Some (SyncNext a') \<Rightarrow> syncAwait e a' evs
           | Some (SyncThrow err) \<Rightarrow> Some (Some err, evs)
           | Some SyncDone \<Rightarrow> Some (None, evs)))"

fun syncLoop :: "env \<Rightarrow> batch \<Rightarrow> jsstring list \<Rightarrow> event list \<Rightarrow> item_result list
    \<Rightarrow> item_result list option" where
  "syncLoop e t [] evs res = Some res"
| "syncLoop e t (w # ws) evs res =
     (case syncSwitch e t of
        SyncThrow err \<Rightarrow> syncLoop e t ws evs (res @ [failureResult w err])
      | SyncDone \<Rightarrow> syncLoop e t ws evs (res @ [successResult e t w])
      | SyncNext a \<Rightarrow>
          (case syncAwait e a evs of
             None \<Rightarrow> None
           | Some (None, evs') \<Rightarrow> syncLoop e t ws evs' (res @ [successResult e t w])
           | Some (Some err, evs') \<Rightarrow> syncLoop e t ws evs' (res @ [failureResult w err])))"

section \<open>The tools\<close>

text \<open>
  \<^verbatim>\<open>
  const generateImagesSchema = z.object({
    words: z.string(),
    provider: z.string().default("dalle3"),
    style: z.string().default("realistic"),
    background: z.string().default("white"),
    size: z.string().default("1024x1024"),
    quality: z.string().default("standard"),
    async: z.boolean().default(true)
  });
  \<close>
  \<^verbatim>\<open>generateImagesSchema.parse(input)\<close> returns the declared properties, a default
  in place of an absent one, when the input is an object whose \<^verbatim>\<open>words\<close> is a
  string and whose other declared properties are absent or of their declared type.
  Otherwise it throws a ZodError. (The schema library is not part of the repository:
  this is its documented behaviour for \<^verbatim>\<open>z.string()\<close>, \<^verbatim>\<open>z.boolean()\<close>
  and \<^verbatim>\<open>.default()\<close>; the error's \<^verbatim>\<open>name\<close> is \<^verbatim>\<open>ZodError\<close>.)
\<close>

record parsed = options +
  words :: jsstring
  async :: bool

definition ZodError :: "env \<Rightarrow> tool_input \<Rightarrow> js_error" where
  "ZodError e inp = JsError (js ''ZodError'') (zodMessage e inp)"

text \<open>
  What \<^verbatim>\<open>z.string()\<close>, \<^verbatim>\<open>z.string().default(d)\<close> and
  \<^verbatim>\<open>z.boolean().default(d)\<close> make of a property: \<open>None\<close> when they reject it.
\<close>

definition zString :: "jsarg \<Rightarrow> jsstring option" where
  "zString v = (case v of StringArg x \<Rightarrow> Some x | _ \<Rightarrow> None)"

definition zStringDefault :: "jsstring \<Rightarrow> jsarg \<Rightarrow> jsstring option" where
  "zStringDefault d v = (case v of Absent \<Rightarrow> Some d | _ \<Rightarrow> zString v)"

definition zBooleanDefault :: "bool \<Rightarrow> jsarg \<Rightarrow> bool option" where
  "zBooleanDefault d v = (case v of Absent \<Rightarrow> Some d | BooleanArg x \<Rightarrow> Some x | _ \<Rightarrow> None)"

definition schemaParse :: "env \<Rightarrow> tool_input \<Rightarrow> js_error + parsed" where
  "schemaParse e inp =
     (case inp of
        NotObject \<Rightarrow> Inl (ZodError e inp)
      | Object a \<Rightarrow>
          (case (zString (in_words a),
                 zStringDefault (js ''dalle3'') (in_provider a),
                 zStringDefault (js ''realistic'') (in_style a),
                 zStringDefault (js ''white'') (in_background a),
                 zStringDefault (js ''1024x1024'') (in_size a),
                 zStringDefault (js ''standard'') (in_quality a),
                 zBooleanDefault True (in_async a)) of
             (Some ws, Some p, Some st, Some bg, Some sz, Some q, Some asy) \<Rightarrow>
               Inr \<lparr>provider = p, style = st, background = bg, size' = sz, quality = q,
                    words = ws, async = asy\<rparr>
           | _ \<Rightarrow> Inl (ZodError e inp)))"

text \<open>
  \<^verbatim>\<open>
  const wordList = words.split(",").map(w => w.trim()).filter(w => w.length > 0);
  if (wordList.length === 0) { throw new Error("No valid words provided."); }
  \<close>
\<close>

definition makeWordList :: "jsstring \<Rightarrow> jsstring list" where
  "makeWordList ws = filter (\<lambda>w. length w > 0) (map trim (split_on 0x2C ws))"

definition noValidWords :: js_error where
  "noValidWords = Error (js ''No valid words provided.'')"

text \<open>
  What the process reads from outside during one \<^verbatim>\<open>generateImages\<close> call: whether
  \<^verbatim>\<open>fs.access\<close> and \<^verbatim>\<open>fs.mkdir\<close> reject for the two directories (\<open>None\<close>: they
  resolve), \<^verbatim>\<open>Date.now()\<close>, the text of
  \<^verbatim>\<open>Math.random().toString(36).substring(2)\<close>, and the readings of
  \<^verbatim>\<open>new Date().toISOString()\<close> for \<^verbatim>\<open>startTime\<close>, for the batch timestamp and
  for \<^verbatim>\<open>endTime\<close>.
\<close>

record call =
  accessImageDir :: "js_error option"
  mkdirImageDir :: "js_error option"
  accessJobsDir :: "js_error option"
  mkdirJobsDir :: "js_error option"
  dateNow :: nat
  random :: jsstring
  isoStart :: jsstring
  isoBatch :: jsstring
  isoEnd :: jsstring

text \<open>
  \<^verbatim>\<open>
  try { await fs.access(dir); } catch { await fs.mkdir(dir, { recursive: true }); }
  \<close>
\<close>

definition ensureDirectory :: "js_error option \<Rightarrow> js_error option \<Rightarrow> js_error option" where
  "ensureDirectory access mkdir = (case access of None \<Rightarrow> None | Some err \<Rightarrow> mkdir)"

text \<open>
  The registry \<^verbatim>\<open>activeJobs\<close>. The Map holds the \<^verbatim>\<open>jobInfo\<close> objects and the
  runner of each job holds the same object; the model keeps the record together with
  the task and the state of the runner that owns it. (When \<^verbatim>\<open>activeJobs.set\<close>
  replaces the entry of an identifier that was drawn twice, the first record is no
  longer in the Map, and neither is it in the model.)
\<close>

record world =
  activeJobs :: "jsstring \<rightharpoonup> task \<times> runner"

record started_response =
  resp_jobId :: jsstring
  resp_status :: status
  resp_message :: jsstring
  resp_totalWords :: nat

text \<open>
  \<^verbatim>\<open>const [width, height] = size.split('x').map(Number);\<close>
\<close>

definition element :: "'a list \<Rightarrow> nat \<Rightarrow> 'a option" where
  "element xs k = (if k < length xs then Some (xs ! k) else None)"

definition parseDims :: "env \<Rightarrow> jsstring \<Rightarrow> jsnumber option \<times> jsnumber option" where
  "parseDims e sz = (let ns = map (toNumber e) (split_on 0x78 sz) in (element ns 0, element ns 1))"

definition makeTask :: "env \<Rightarrow> call \<Rightarrow> 'a options_scheme \<Rightarrow> jsstring list \<Rightarrow> task" where
  "makeTask e c opts wl =
     \<lparr>provider = provider opts, style = style opts, background = background opts,
      size' = size' opts, quality = quality opts,
      timestamp = makeTimestamp (isoBatch c), dims = parseDims e (size' opts),
      jobId = js ''job_'' @ showNat (dateNow c) @ js ''_'' @ random c,
      wordList = wl, endClock = isoEnd c\<rparr>"

text \<open>
  \<^verbatim>\<open>generateImagesAsync\<close>: the result it returns or the error it throws, and the
  registry afterwards. The call of \<^verbatim>\<open>generateImagesInBackground\<close> is not awaited:
  the runner runs to its first \<^verbatim>\<open>await\<close> (or to its end) inside the call, and goes
  on with the events of the event loop afterwards.
\<close>

definition generateImagesAsync :: "env \<Rightarrow> call \<Rightarrow> tool_input \<Rightarrow> world \<Rightarrow> (js_error + started_response) \<times> world" where
  "generateImagesAsync e c inp w =
     (case schemaParse e inp of
        Inl err \<Rightarrow> (Inl err, w)
      | Inr opts \<Rightarrow>
         (let wl = makeWordList (words opts) in
          if length wl = 0 then (Inl noValidWords, w)
          else case ensureDirectory (accessImageDir c) (mkdirImageDir c) of
            Some err \<Rightarrow> (Inl err, w)
          | None \<Rightarrow>
             (case ensureDirectory (accessJobsDir c) (mkdirJobsDir c) of
                Some err \<Rightarrow> (Inl err, w)
              | None \<Rightarrow>
                  (let t = makeTask e c opts wl;
                       r = runToAwait e t (initial t (isoStart c))
                   in (Inr \<lparr>resp_jobId = jobId t, resp_status = Started,
                             resp_message = js ''Started generating '' @ showNat (length wl)
                               @ js '' images using '' @ provider opts
                               @ js ''. Use checkStatus with jobId to monitor progress.'',
                             resp_totalWords = length wl\<rparr>,
                       w\<lparr>activeJobs := (activeJobs w)(jobId t \<mapsto> (t, r))\<rparr>)))))"

definition makeBatch :: "env \<Rightarrow> call \<Rightarrow> 'a options_scheme \<Rightarrow> batch" where
  "makeBatch e c opts =
     \<lparr>provider = provider opts, style = style opts, background = background opts,
      size' = size' opts, quality = quality opts,
      timestamp = makeTimestamp (isoBatch c), dims = parseDims e (size' opts)\<rparr>"

text \<open>
  \<^verbatim>\<open>generateImagesSync\<close>, given the events that settle its \<^verbatim>\<open>await\<close>s: \<open>None\<close>
  when it never returns.
\<close>

definition generateImagesSync :: "env \<Rightarrow> call \<Rightarrow> tool_input \<Rightarrow> event list \<Rightarrow> (js_error + item_result list) option" where
  "generateImagesSync e c inp evs =
     (case schemaParse e inp of
        Inl err \<Rightarrow> Some (Inl err)
      | Inr opts \<Rightarrow>
         (let wl = makeWordList (words opts) in
          if length wl = 0 then Some (Inl noValidWords)
          else case ensureDirectory (accessImageDir c) (mkdirImageDir c) of
            Some err \<Rightarrow> Some (Inl err)
          | None \<Rightarrow>
              (case syncLoop e (makeBatch e c opts) wl evs [] of
                 None \<Rightarrow> None
               | Some res \<Rightarrow> Some (Inr res))))"

datatype generated = JobStarted started_response | Images "item_result list"

text \<open>
  \<^verbatim>\<open>generateImages\<close> parses the input itself, to read \<^verbatim>\<open>async\<close>, and
  passes the input, not the parsed object, on to the path it chooses. \<open>None\<close>: the
  call never returns.
\<close>

definition generateImages :: "env \<Rightarrow> call \<Rightarrow> tool_input \<Rightarrow> event list \<Rightarrow> world \<Rightarrow> (js_error + generated) option \<times> world" where
  "generateImages e c inp evs w =
     (case schemaParse e inp of
        Inl err \<Rightarrow> (Some (Inl err), w)
      | Inr opts \<Rightarrow>
          if async opts then
            (case generateImagesAsync e c inp w of
               (Inl err, w') \<Rightarrow> (Some (Inl err), w')
             | (Inr r, w') \<Rightarrow> (Some (Inr (JobStarted r)), w'))
          else
            (case generateImagesSync e c inp evs of
               None \<Rightarrow> (None, w)
             | Some (Inl err) \<Rightarrow> (Some (Inl err), w)
             | Some (Inr res) \<Rightarrow> (Some (Inr (Images res)), w)))"

text \<open>
  \<^verbatim>\<open>checkStatus\<close>: the response object. The properties added under a condition are
  \<open>None\<close> when they are not added. \<^verbatim>\<open>r.url\<close> is truthy when the string is not empty.
\<close>

record status_view =
  view_jobId :: jsstring
  view_status :: status
  view_totalWords :: nat
  view_completedWords :: nat
  view_progress :: jsstring
  view_startTime :: jsstring
  view_currentWord :: "jsstring option"
  view_endTime :: "jsstring option"
  view_results :: "item_result list option"
  view_successCount :: "nat option"
  view_failureCount :: "nat option"

definition statusView :: "job_info \<Rightarrow> status_view" where
  "statusView j =
     \<lparr>view_jobId = id' j,
      view_status = status j,
      view_totalWords = totalWords j,
      view_completedWords = completedWords j,
      view_progress = showNat (completedWords j) @ js ''/'' @ showNat (totalWords j),
      view_startTime = startTime j,
      view_currentWord =
        (case currentWord j of None \<Rightarrow> None | Some cw \<Rightarrow> if cw \<noteq> [] then Some cw else None),
      view_endTime = (if status j = Completed then endTime j else None),
      view_results = (if status j = Completed then Some (results j) else None),
      view_successCount =
        (if status j = Completed then Some (length (filter (\<lambda>r. url r \<noteq> []) (results j))) else None),
      view_failureCount =
        (if status j = Completed then Some (length (filter (\<lambda>r. \<not> url r \<noteq> []) (results j))) else None)\<rparr>"

definition checkStatus :: "jsstring \<Rightarrow> world \<Rightarrow> (js_error + status_view) \<times> world" where
  "checkStatus jid w =
     (case activeJobs w jid of
        None \<Rightarrow> (Inl (Error (js ''Job not found: '' @ jid)), w)
      | Some (t, r) \<Rightarrow> (Inr (statusView (job r)), w))"

text \<open>
  The worlds the server can be in between two turns of the event loop: it starts with
  an empty registry; a \<^verbatim>\<open>generateImages\<close> call runs; an event resumes the runner of
  a registered job, which runs to its next \<^verbatim>\<open>await\<close>. (\<^verbatim>\<open>checkStatus\<close> leaves the
  world as it is.)
\<close>

inductive serverReach :: "env \<Rightarrow> world \<Rightarrow> bool" for e where
  server_start: "serverReach e \<lparr>activeJobs = Map.empty\<rparr>"
| server_generate: "serverReach e w \<Longrightarrow> serverReach e (snd (generateImages e c inp evs w))"
| server_event:
    "serverReach e w \<Longrightarrow> activeJobs w jid = Some (t, r)
     \<Longrightarrow> serverReach e (w\<lparr>activeJobs := (activeJobs w)(jid \<mapsto> (t, onEvent e t ev r))\<rparr>)"

section \<open>The invariant of the runner\<close>

text \<open>
  An entry of \<^verbatim>\<open>results\<close> is the success entry or a failure entry of its word.
  \<open>done_upto e t j k c\<close>: the record \<open>j\<close> holds the entries of the first \<open>k\<close> words,
  in order, and its counter is \<open>c\<close>. \<open>inv\<close> says, for each statement of the runner, what
  the record holds when the runner is about to execute it.
\<close>

definition entryOk :: "env \<Rightarrow> task \<Rightarrow> item_result \<Rightarrow> jsstring \<Rightarrow> bool" where
  "entryOk e t r w = (r = successResult e t w \<or> (\<exists>err. r = failureResult w err))"

definition done_upto :: "env \<Rightarrow> task \<Rightarrow> job_info \<Rightarrow> nat \<Rightarrow> nat \<Rightarrow> bool" where
  "done_upto e t j k c =
     (totalWords j = length (wordList t) \<and> k \<le> length (wordList t) \<and> completedWords j = c
      \<and> list_all2 (entryOk e t) (results j) (take k (wordList t)))"

definition inv :: "env \<Rightarrow> task \<Rightarrow> runner \<Rightarrow> bool" where
  "inv e t s =
     (let j = job s; ws = wordList t; n = length ws in
      case pc s of
        LoopTest i \<Rightarrow> done_upto e t j i i \<and> status j = (if i = 0 then Started else Generating) \<and> endTime j = None
      | SetGenerating i w \<Rightarrow> done_upto e t j i i \<and> i < n \<and> w = ws ! i
            \<and> status j = (if i = 0 then Started else Generating) \<and> endTime j = None
      | SetCurrentWord i w \<Rightarrow> done_upto e t j i i \<and> i < n \<and> w = ws ! i \<and> status j = Generating \<and> endTime j = None
      | Dispatch i w \<Rightarrow> done_upto e t j i i \<and> i < n \<and> w = ws ! i \<and> status j = Generating \<and> endTime j = None
            \<and> currentWord j = Some w
      | Await i w a \<Rightarrow> done_upto e t j i i \<and> i < n \<and> w = ws ! i \<and> status j = Generating \<and> endTime j = None
            \<and> currentWord j = Some w
      | PushSuccess i w \<Rightarrow> done_upto e t j i i \<and> i < n \<and> w = ws ! i \<and> status j = Generating \<and> endTime j = None
            \<and> currentWord j = Some w
      | Catch i w err \<Rightarrow> done_upto e t j i i \<and> i < n \<and> w = ws ! i \<and> status j = Generating \<and> endTime j = None
            \<and> currentWord j = Some w
      | SetCompletedWords i \<Rightarrow> done_upto e t j (i + 1) i \<and> i < n \<and> status j = Generating \<and> endTime j = None
      | SetStatusCompleted \<Rightarrow> done_upto e t j n n \<and> status j = (if n = 0 then Started else Generating) \<and> endTime j = None
      | SetEndTime \<Rightarrow> done_upto e t j n n \<and> status j = Completed \<and> endTime j = None
      | DeleteCurrentWord \<Rightarrow> done_upto e t j n n \<and> status j = Completed \<and> endTime j = Some (endClock t)
      | Returned \<Rightarrow> done_upto e t j n n \<and> status j = Completed \<and> endTime j = Some (endClock t)
            \<and> currentWord j = None)"

text \<open>What holds of every entry of the registry between two turns of the event loop.\<close>

definition registered :: "env \<Rightarrow> jsstring \<Rightarrow> task \<Rightarrow> runner \<Rightarrow> bool" where
  "registered e jid t r =
     ((\<exists>start. reach e t start r) \<and> observable r \<and> wordList t \<noteq> [] \<and> jobId t = jid)"

text \<open>
  A bound on the events that can still resume the runner: at most five \<^verbatim>\<open>await\<close>s
  per word (the DALL-E branch), \<open>depth\<close> of them from a given \<^verbatim>\<open>await\<close> on.
  A script of events is \<open>responsive\<close> when each event resumes the runner, unless the
  runner has returned.
\<close>

fun depth :: "await_point \<Rightarrow> nat" where
  "depth DalleFetch = 5"
| "depth (DalleErrJson st) = 1"
| "depth DalleJson = 4"
| "depth (DalleDownload u) = 3"
| "depth DalleArrayBuffer = 2"
| "depth (DalleWriteFile b) = 1"
| "depth StabPostForm = 2"
| "depth (StabWriteFile b) = 1"

fun todo :: "nat \<Rightarrow> pc \<Rightarrow> nat" where
  "todo n (LoopTest i) = 5 * (n - i)"
| "todo n (SetGenerating i w) = 5 * (n - Suc i) + 5"
| "todo n (SetCurrentWord i w) = 5 * (n - Suc i) + 5"
| "todo n (Dispatch i w) = 5 * (n - Suc i) + 5"
| "todo n (Await i w a) = 5 * (n - Suc i) + depth a"
| "todo n (PushSuccess i w) = 5 * (n - Suc i)"
| "todo n (Catch i w err) = 5 * (n - Suc i)"
| "todo n (SetCompletedWords i) = 5 * (n - Suc i)"
| "todo n SetStatusCompleted = 0"
| "todo n SetEndTime = 0"
| "todo n DeleteCurrentWord = 0"
| "todo n Returned = 0"

fun responsive :: "env \<Rightarrow> task \<Rightarrow> event list \<Rightarrow> runner \<Rightarrow> bool" where
  "responsive e t [] s = True"
| "responsive e t (ev # evs) s =
     ((pc s = Returned \<or> deliver e ev s \<noteq> None) \<and> responsive e t evs (onEvent e t ev s))"

section \<open>An example run\<close>

text \<open>
  A job for the words \<^verbatim>\<open>"cat, dog"\<close> with the Stability provider, on a server
  that has a Stability key and no OpenAI key: the request for the first word is
  rejected (\<open>exampleSecond\<close>), the second image is generated and written
  (\<open>exampleLast\<close>); \<open>exampleClosing\<close> is the state of that run at the assignment of
  Completed.
\<close>

definition exampleEnv :: env where
  "exampleEnv =
     \<lparr>cfg = \<lparr>imageDir = js ''/srv/generated-images'', jobsDir = js ''/srv/jobs'',
             dalle3_endpoint = js ''https://api.openai.com/v1/images/generations'',
             dalle3_apiKey = None,
             stability_endpoint = js ''https://api.stability.ai/v2beta/stable-image/generate/sd3'',
             stability_apiKey = Some (js ''sk-test'')\<rparr>,
      proto = Map.empty,
      abortError = JsError (js ''CanceledError'') (js ''canceled''),
      bufferToString = map ucast,
      toNumber = (\<lambda>s. if s = js ''1024'' then Integer 1024 else NonInteger),
      toStringOfUndefined = js ''Cannot read properties of undefined (reading 'toString')'',
      zodMessage = (\<lambda>inp. js ''invalid input'')\<rparr>"

definition exampleCall :: call where
  "exampleCall =
     \<lparr>accessImageDir = None, mkdirImageDir = None, accessJobsDir = None, mkdirJobsDir = None,
      dateNow = 1767225600000, random = js ''k3x9q'',
      isoStart = js ''2026-01-01T00:00:00.000Z'',
      isoBatch = js ''2026-01-01T00:00:00.001Z'',
      isoEnd = js ''2026-01-01T00:01:00.000Z''\<rparr>"

definition exampleArguments :: arguments where
  "exampleArguments =
     \<lparr>in_words = StringArg (js ''cat, dog''), in_provider = StringArg (js ''stability''),
      in_style = Absent, in_background = Absent, in_size = Absent, in_quality = Absent,
      in_async = Absent\<rparr>"

definition exampleInput :: tool_input where
  "exampleInput = Object exampleArguments"

definition exampleParsed :: parsed where
  "exampleParsed =
     \<lparr>provider = js ''stability'', style = js ''realistic'', background = js ''white'',
      size' = js ''1024x1024'', quality = js ''standard'',
      words = js ''cat, dog'', async = True\<rparr>"

definition exampleTask :: task where
  "exampleTask =
     \<lparr>provider = js ''stability'', style = js ''realistic'', background = js ''white'',
      size' = js ''1024x1024'', quality = js ''standard'',
      timestamp = js ''2026-01-01T00-00-00-001Z'', dims = (Some (Integer 1024), Some (Integer 1024)),
      jobId = js ''job_1767225600000_k3x9q'', wordList = [js ''cat'', js ''dog''],
      endClock = js ''2026-01-01T00:01:00.000Z''\<rparr>"

definition exampleStart :: jsstring where
  "exampleStart = js ''2026-01-01T00:00:00.000Z''"

definition networkError :: js_error where
  "networkError = JsError (js ''Error'') (js ''socket hang up'')"

definition exampleFirst :: runner where
  "exampleFirst = runToAwait exampleEnv exampleTask (initial exampleTask exampleStart)"

definition exampleSecond :: runner where
  "exampleSecond = onEvent exampleEnv exampleTask (Settled (Rejected networkError)) exampleFirst"

definition exampleLast :: runner where
  "exampleLast = onEvents exampleEnv exampleTask
      [Settled (AxiosResponse 200 [0x89, 0x50]), Settled Written] exampleSecond"

definition exampleClosing :: runner where
  "exampleClosing =
     \<lparr>job = (newJob exampleTask exampleStart)\<lparr>status := Generating, currentWord := Some (js ''dog''),
              results := [failureResult (js ''cat'') networkError,
                          successResult exampleEnv exampleTask (js ''dog'')],
              completedWords := 2\<rparr>,
      pc = SetStatusCompleted\<rparr>"

definition exampleWorld :: world where
  "exampleWorld = snd (generateImages exampleEnv exampleCall exampleInput [] \<lparr>activeJobs = Map.empty\<rparr>)"

text \<open>
  Variants of the example: the same job for the DALL-E provider (\<open>dalleTask\<close>; on
  \<open>dalleEnv\<close> the OpenAI key is set), a script of events for the first run, an input
  without words, a call during which the image directory can neither be accessed nor
  created, the registry after the first run has completed, and a job for the words
  \<^verbatim>\<open>"cat, cat"\<close> whose two images are both generated.
\<close>

definition dalleTask :: task where
  "dalleTask = exampleTask\<lparr>provider := js ''dalle3''\<rparr>"

definition exampleScript :: "event list" where
  "exampleScript =
     [Settled (Rejected networkError), Settled (AxiosResponse 200 [0x89, 0x50]), Settled Written,
      TimerFired, TimerFired, TimerFired, TimerFired]"

definition blankInput :: tool_input where
  "blankInput = Object (exampleArguments\<lparr>in_words := StringArg (js '' , ,'')\<rparr>)"

definition failingCall :: call where
  "failingCall = exampleCall\<lparr>accessImageDir := Some (JsError (js ''Error'') (js ''ENOENT: no such file or directory'')),
                              mkdirImageDir := Some (JsError (js ''Error'') (js ''EACCES: permission denied''))\<rparr>"

definition completedWorld :: world where
  "completedWorld = \<lparr>activeJobs = [jobId exampleTask \<mapsto> (exampleTask, exampleLast)]\<rparr>"

definition dalleEnv :: env where
  "dalleEnv = exampleEnv\<lparr>cfg := (cfg exampleEnv)\<lparr>dalle3_apiKey := Some (js ''sk-test'')\<rparr>\<rparr>"

definition catTask :: task where
  "catTask = exampleTask\<lparr>wordList := [js ''cat'', js ''cat'']\<rparr>"

text \<open>
  More variants: the first state of the DALL-E job on \<open>dalleEnv\<close>; a server without
  any key; a runtime whose aborted requests reject with an error named
  \<^verbatim>\<open>AbortError\<close>; a job for a provider the server does not know; the error body
  of a refused DALL-E request; and inputs whose \<^verbatim>\<open>provider\<close> is a number, with a
  word, and without a word on the synchronous path.
\<close>

definition dalleFirst :: runner where
  "dalleFirst = runToAwait dalleEnv dalleTask (initial dalleTask exampleStart)"

definition bareEnv :: env where
  "bareEnv = exampleEnv\<lparr>cfg := (cfg exampleEnv)\<lparr>stability_apiKey := None\<rparr>\<rparr>"

definition abortEnv :: env where
  "abortEnv = exampleEnv\<lparr>abortError := JsError (js ''AbortError'') (js ''This operation was aborted'')\<rparr>"

definition otherTask :: task where
  "otherTask = exampleTask\<lparr>provider := js ''Midjourney''\<rparr>"

definition quotaMessage :: jsstring where
  "quotaMessage = js ''Billing hard limit has been reached''"

definition numberProviderInput :: tool_input where
  "numberProviderInput =
     Object \<lparr>in_words = StringArg (js ''cat''), in_provider = OtherArg,
             in_style = Absent, in_background = Absent, in_size = Absent, in_quality = Absent,
             in_async = Absent\<rparr>"

definition blankNumberProviderInput :: tool_input where
  "blankNumberProviderInput =
     Object \<lparr>in_words = StringArg (js '' , ,''), in_provider = OtherArg,
             in_style = Absent, in_background = Absent, in_size = Absent, in_quality = Absent,
             in_async = BooleanArg False\<rparr>"

definition exampleResponse :: started_response where
  "exampleResponse =
     \<lparr>resp_jobId = js ''job_1767225600000_k3x9q'', resp_status = Started,
      resp_message = js ''Started generating 2 images using stability. Use checkStatus with jobId to monitor progress.'',
      resp_totalWords = 2\<rparr>"

definition nullBodyError :: js_error where
  "nullBodyError = TypeError (js ''Cannot read properties of null (reading 'error')'')"

definition catLast :: runner where
  "catLast = onEvents exampleEnv catTask
      [Settled (AxiosResponse 200 [1]), Settled Written, Settled (AxiosResponse 200 [2]), Settled Written]
      (runToAwait exampleEnv catTask (initial catTask exampleStart))"

section \<open>Properties of the runner\<close>

lemma inv_initial: "inv e t (initial t start)"
  by (simp add: inv_def initial_def newJob_def done_upto_def)

lemma entryOk_success: "entryOk e t (successResult e t w) w"
  by (simp add: entryOk_def)

lemma entryOk_failure: "entryOk e t (failureResult w err) w"
  by (auto simp: entryOk_def)

lemma done_upto_push:
  "done_upto e t j i i \<Longrightarrow> i < length (wordList t) \<Longrightarrow> entryOk e t r (wordList t ! i)
   \<Longrightarrow> done_upto e t (j\<lparr>results := results j @ [r]\<rparr>) (Suc i) i"
  by (simp add: done_upto_def take_Suc_conv_app_nth list_all2_appendI)

lemma done_upto_fields [simp]:
  "done_upto e t (j\<lparr>status := x\<rparr>) k c = done_upto e t j k c"
  "done_upto e t (j\<lparr>currentWord := y\<rparr>) k c = done_upto e t j k c"
  "done_upto e t (j\<lparr>endTime := z\<rparr>) k c = done_upto e t j k c"
  by (simp_all add: done_upto_def)

lemma done_upto_completed:
  "done_upto e t j (Suc i) i \<Longrightarrow> done_upto e t (j\<lparr>completedWords := Suc i\<rparr>) (Suc i) (Suc i)"
  by (simp add: done_upto_def)

lemma done_upto_all:
  "done_upto e t j i i \<Longrightarrow> \<not> i < length (wordList t) \<Longrightarrow> i = length (wordList t)"
  by (simp add: done_upto_def)

lemma inv_continue:
  "inv e t (s\<lparr>pc := Dispatch i w\<rparr>) \<Longrightarrow> inv e t (s\<lparr>pc := continue i w out\<rparr>)"
  by (cases out) (simp_all add: inv_def)

lemma inv_micro: "inv e t s \<Longrightarrow> micro e t s = Some s' \<Longrightarrow> inv e t s'"
proof (cases "pc s")
  case (LoopTest i)
  assume "inv e t s" "micro e t s = Some s'"
  with LoopTest show ?thesis
  proof (cases "i < length (wordList t)")
    case True
    with \<open>inv e t s\<close> \<open>micro e t s = Some s'\<close> LoopTest show ?thesis
      by (auto simp: micro_def inv_def Let_def)
  next
    case False
    from \<open>inv e t s\<close> LoopTest have "done_upto e t (job s) i i" by (simp add: inv_def Let_def)
    with False have "i = length (wordList t)" by (rule done_upto_all[rotated])
    with \<open>inv e t s\<close> \<open>micro e t s = Some s'\<close> LoopTest show ?thesis
      by (auto simp: micro_def inv_def Let_def)
  qed
next
  case (Dispatch i w)
  assume a: "inv e t s" "micro e t s = Some s'"
  from a(1) Dispatch have "inv e t (s\<lparr>pc := Dispatch i w\<rparr>)" by (simp add: inv_def)
  then have "inv e t (s\<lparr>pc := continue i w (switch e t)\<rparr>)" by (rule inv_continue)
  with a(2) Dispatch show ?thesis by (simp add: micro_def)
next
  case (PushSuccess i w)
  assume a: "inv e t s" "micro e t s = Some s'"
  with PushSuccess show ?thesis
    by (auto simp: micro_def inv_def Let_def entryOk_success entryOk_failure intro!: done_upto_push)
next
  case (Catch i w err)
  assume a: "inv e t s" "micro e t s = Some s'"
  with Catch show ?thesis
    by (auto simp: micro_def inv_def Let_def entryOk_success entryOk_failure intro!: done_upto_push)
next
  case (SetCompletedWords i)
  assume a: "inv e t s" "micro e t s = Some s'"
  with SetCompletedWords show ?thesis
    by (auto simp: micro_def inv_def Let_def dest: done_upto_completed)
qed (auto simp: micro_def inv_def Let_def)

lemma inv_deliver: "inv e t s \<Longrightarrow> deliver e ev s = Some s' \<Longrightarrow> inv e t s'"
proof (cases "pc s")
  case (Await i w a)
  assume a: "inv e t s" "deliver e ev s = Some s'"
  from a(2) Await obtain out where s': "s' = s\<lparr>pc := continue i w out\<rparr>"
    by (auto simp: deliver_def split: option.splits)
  from a(1) Await have "inv e t (s\<lparr>pc := Dispatch i w\<rparr>)" by (simp add: inv_def)
  then show ?thesis unfolding s' by (rule inv_continue)
qed (auto simp: deliver_def)

lemma reach_inv: "reach e t start s \<Longrightarrow> inv e t s"
  by (induction rule: reach.induct) (auto intro: inv_initial inv_micro inv_deliver)

lemma micro_None_iff: "micro e t s = None \<longleftrightarrow> observable s"
  by (cases "pc s") (auto simp: micro_def observable_def)

lemma done_upto_length: "done_upto e t j k c \<Longrightarrow> length (results j) = k"
  by (auto simp: done_upto_def dest: list_all2_lengthD)

lemma entryOk_word: "entryOk e t r w \<Longrightarrow> word r = w"
  by (auto simp: entryOk_def successResult_def failureResult_def)

lemma list_all2_entryOk_words: "list_all2 (entryOk e t) rs ws \<Longrightarrow> map word rs = ws"
  by (induction rule: list_all2_induct) (auto dest: entryOk_word)

lemma done_upto_words: "done_upto e t j k c \<Longrightarrow> map word (results j) = take k (wordList t)"
  by (auto simp: done_upto_def dest: list_all2_entryOk_words)

lemma inv_observable:
  assumes "inv e t s" "observable s"
  shows "completedWords (job s) = length (results (job s))"
    and "completedWords (job s) \<le> totalWords (job s)"
    and "totalWords (job s) = length (wordList t)"
  using assms
  by (cases "pc s"; auto simp: inv_def observable_def Let_def done_upto_def dest: list_all2_lengthD)+

lemma deliver_job: "deliver e ev s = Some s' \<Longrightarrow> job s' = job s"
  by (cases "pc s") (auto simp: deliver_def split: option.splits)

lemma micro_completedWords:
  "inv e t s \<Longrightarrow> micro e t s = Some s' \<Longrightarrow> completedWords (job s) \<le> completedWords (job s')"
  by (cases "pc s") (auto simp: micro_def inv_def Let_def done_upto_def split: if_splits)

lemma move_completedWords:
  "inv e t s \<Longrightarrow> move e t s s' \<Longrightarrow> completedWords (job s) \<le> completedWords (job s')"
  by (auto simp: move_def dest: micro_completedWords deliver_job)

lemma reach_runToAwait: "reach e t start s \<Longrightarrow> reach e t start (runToAwait e t s)"
proof (induction e t s rule: runToAwait.induct)
  case (1 e t s)
  show ?case
  proof (cases "micro e t s")
    case None
    with "1.prems" show ?thesis by (simp add: runToAwait.simps[of e t s])
  next
    case (Some s')
    with "1.prems" have "reach e t start s'" by (auto intro: reach_micro)
    with Some "1.IH" show ?thesis by (simp add: runToAwait.simps[of e t s])
  qed
qed

lemma observable_runToAwait: "observable (runToAwait e t s)"
proof (induction e t s rule: runToAwait.induct)
  case (1 e t s)
  show ?case
  proof (cases "micro e t s")
    case None
    then have "runToAwait e t s = s" by (simp add: runToAwait.simps[of e t s])
    moreover from None have "observable s" by (simp add: micro_None_iff)
    ultimately show ?thesis by simp
  next
    case (Some s')
    with "1.IH" show ?thesis by (simp add: runToAwait.simps[of e t s])
  qed
qed

lemma runToAwait_completedWords:
  "inv e t s \<Longrightarrow> completedWords (job s) \<le> completedWords (job (runToAwait e t s))"
proof (induction e t s rule: runToAwait.induct)
  case (1 e t s)
  show ?case
  proof (cases "micro e t s")
    case None
    then show ?thesis by (simp add: runToAwait.simps[of e t s])
  next
    case (Some s')
    with "1.prems" have "inv e t s'" "completedWords (job s) \<le> completedWords (job s')"
      by (auto intro: inv_micro micro_completedWords)
    with Some "1.IH" show ?thesis by (auto simp: runToAwait.simps[of e t s])
  qed
qed

lemma reach_onEvent:
  "reach e t start s \<Longrightarrow> reach e t start (onEvent e t ev s)"
  by (auto simp: onEvent_def split: option.splits intro: reach_runToAwait reach_deliver)

lemma observable_onEvent:
  "observable s \<Longrightarrow> observable (onEvent e t ev s)"
  by (auto simp: onEvent_def split: option.splits intro: observable_runToAwait)

lemma onEvent_completedWords:
  "inv e t s \<Longrightarrow> completedWords (job s) \<le> completedWords (job (onEvent e t ev s))"
  by (auto simp: onEvent_def split: option.splits
      dest!: runToAwait_completedWords[OF inv_deliver] dest: deliver_job)

lemma generateImagesAsync_world:
  "snd (generateImagesAsync e c inp w) = w
   \<or> (\<exists>t start. snd (generateImagesAsync e c inp w)
          = w\<lparr>activeJobs := (activeJobs w)(jobId t \<mapsto> (t, runToAwait e t (initial t start)))\<rparr>
        \<and> wordList t \<noteq> [])"
proof (cases "schemaParse e inp")
  case (Inl err)
  then show ?thesis by (simp add: generateImagesAsync_def)
next
  case (Inr opts)
  show ?thesis
  proof (cases "makeWordList (words opts) \<noteq> []
      \<and> ensureDirectory (accessImageDir c) (mkdirImageDir c) = None
      \<and> ensureDirectory (accessJobsDir c) (mkdirJobsDir c) = None")
    case True
    let ?t = "makeTask e c opts (makeWordList (words opts))"
    have "wordList ?t = makeWordList (words opts)" by (simp add: makeTask_def)
    with True Inr have "snd (generateImagesAsync e c inp w)
            = w\<lparr>activeJobs := (activeJobs w)(jobId ?t \<mapsto> (?t, runToAwait e ?t (initial ?t (isoStart c))))\<rparr>
          \<and> wordList ?t \<noteq> []"
      by (simp add: generateImagesAsync_def Let_def)
    then show ?thesis by blast
  next
    case False
    with Inr have "snd (generateImagesAsync e c inp w) = w"
      by (auto simp: generateImagesAsync_def Let_def split: option.splits)
    then show ?thesis by simp
  qed
qed

lemma generateImages_snd:
  "snd (generateImages e c inp evs w) = w
   \<or> snd (generateImages e c inp evs w) = snd (generateImagesAsync e c inp w)"
  by (auto simp: generateImages_def split: sum.splits prod.splits option.splits)

lemma generateImages_world:
  "snd (generateImages e c inp evs w) = w
   \<or> (\<exists>t start. snd (generateImages e c inp evs w)
          = w\<lparr>activeJobs := (activeJobs w)(jobId t \<mapsto> (t, runToAwait e t (initial t start)))\<rparr>
        \<and> wordList t \<noteq> [])"
  using generateImagesAsync_world[of e c inp w] generateImages_snd[of e c inp evs w]
  by (elim disjE) simp_all

lemma serverReach_registered:
  "serverReach e w \<Longrightarrow> activeJobs w jid = Some (t, r) \<Longrightarrow> registered e jid t r"
proof (induction arbitrary: jid t r rule: serverReach.induct)
  case server_start
  then show ?case by simp
next
  case (server_generate w c inp evs)
  from generateImages_world[of e c inp evs w] show ?case
  proof
    assume "snd (generateImages e c inp evs w) = w"
    with server_generate show ?thesis by simp
  next
    assume "\<exists>t start. snd (generateImages e c inp evs w)
          = w\<lparr>activeJobs := (activeJobs w)(jobId t \<mapsto> (t, runToAwait e t (initial t start)))\<rparr>
        \<and> wordList t \<noteq> []"
    then obtain t' start where w': "snd (generateImages e c inp evs w)
          = w\<lparr>activeJobs := (activeJobs w)(jobId t' \<mapsto> (t', runToAwait e t' (initial t' start)))\<rparr>"
      and ne: "wordList t' \<noteq> []" by blast
    show ?thesis
    proof (cases "jid = jobId t'")
      case True
      with server_generate.prems w' have "t = t'" "r = runToAwait e t' (initial t' start)" by auto
      with True ne show ?thesis
        by (auto simp: registered_def intro: observable_runToAwait reach_runToAwait reach_initial)
    next
      case False
      with server_generate.prems w' have "activeJobs w jid = Some (t, r)" by auto
      then show ?thesis by (rule server_generate.IH)
    qed
  qed
next
  case (server_event w jid' t' r' ev)
  show ?case
  proof (cases "jid = jid'")
    case True
    with server_event.prems have "t = t'" "r = onEvent e t' ev r'" by auto
    moreover from server_event.hyps(2) have "registered e jid' t' r'" by (rule server_event.IH)
    ultimately show ?thesis using True
      by (auto simp: registered_def intro: reach_onEvent observable_onEvent)
  next
    case False
    with server_event.prems have "activeJobs w jid = Some (t, r)" by auto
    then show ?thesis by (rule server_event.IH)
  qed
qed

lemma micro_status:
  "inv e t s \<Longrightarrow> wordList t \<noteq> [] \<Longrightarrow> micro e t s = Some s' \<Longrightarrow>
   status (job s') = status (job s)
   \<or> (status (job s) = Started \<and> status (job s') = Generating)
   \<or> (status (job s) = Generating \<and> status (job s') = Completed)"
  by (cases "pc s") (auto simp: micro_def inv_def Let_def split: if_splits)

lemma move_status:
  "inv e t s \<Longrightarrow> wordList t \<noteq> [] \<Longrightarrow> move e t s s' \<Longrightarrow>
   status (job s') = status (job s)
   \<or> (status (job s) = Started \<and> status (job s') = Generating)
   \<or> (status (job s) = Generating \<and> status (job s') = Completed)"
  by (auto simp: move_def dest: micro_status deliver_job)

lemma inv_observable_status:
  assumes "inv e t s" "observable s" "wordList t \<noteq> []"
  shows "status (job s) = Completed \<longleftrightarrow> completedWords (job s) = totalWords (job s)"
    and "endTime (job s) \<noteq> None \<longleftrightarrow> status (job s) = Completed"
    and "status (job s) = Completed \<longrightarrow> currentWord (job s) = None"
    and "status (job s) \<noteq> Started"
  using assms
  by (cases "pc s"; auto simp: inv_def observable_def Let_def done_upto_def)+

lemma micro_endTime:
  "inv e t s \<Longrightarrow> micro e t s = Some s' \<Longrightarrow>
   endTime (job s') = endTime (job s)
   \<or> (pc s = SetEndTime \<and> status (job s) = Completed \<and> endTime (job s) = None
       \<and> endTime (job s') = Some (endClock t))"
  by (cases "pc s") (auto simp: micro_def inv_def Let_def split: if_splits)

lemma move_endTime:
  "inv e t s \<Longrightarrow> move e t s s' \<Longrightarrow>
   endTime (job s') = endTime (job s)
   \<or> (pc s = SetEndTime \<and> status (job s) = Completed \<and> endTime (job s) = None
       \<and> endTime (job s') = Some (endClock t))"
  by (auto simp: move_def dest: micro_endTime deliver_job)

lemma micros_completion:
  "pc s = SetStatusCompleted \<Longrightarrow>
   micros e t 3 s = Some (s\<lparr>job := (job s)\<lparr>status := Completed, endTime := Some (endClock t),
                                           currentWord := None\<rparr>, pc := Returned\<rparr>)"
  by (simp add: numeral_3_eq_3 micro_def)

lemma registered_Completed:
  "registered e jid t r \<Longrightarrow> status (job r) = Completed \<Longrightarrow> onEvent e t ev r = r"
proof -
  assume g: "registered e jid t r" and c: "status (job r) = Completed"
  from g obtain start where "reach e t start r" and o: "observable r"
    by (auto simp: registered_def)
  then have "inv e t r" by (auto dest: reach_inv)
  with o c have "pc r = Returned"
    by (cases "pc r") (auto simp: inv_def Let_def observable_def)
  then show ?thesis by (simp add: onEvent_def deliver_def)
qed

text \<open>
  Claim C4. For the runner of a job with a non-empty word list: every move leaves
  \<^verbatim>\<open>status\<close> as it is or takes it from Started to Generating or from Generating
  to Completed; at every point where other code can run, \<^verbatim>\<open>status\<close> is Completed
  exactly when \<^verbatim>\<open>completedWords\<close> equals \<^verbatim>\<open>totalWords\<close>, \<^verbatim>\<open>endTime\<close> is
  set exactly when \<^verbatim>\<open>status\<close> is Completed, and \<^verbatim>\<open>currentWord\<close> is absent
  then. \<^verbatim>\<open>endTime\<close> is written by one statement only, from unset, right after
  \<^verbatim>\<open>status\<close> became Completed; from the assignment of Completed the runner sets
  \<^verbatim>\<open>endTime\<close>, deletes \<^verbatim>\<open>currentWord\<close> and returns without suspending. Every
  registered job has a non-empty word list, so all of this holds of it between two
  turns of the event loop; there its \<^verbatim>\<open>status\<close> is never Started, and once it is
  Completed no event changes the record.
\<close>

theorem status_lifecycle:
  "(reach e t start s \<and> wordList t \<noteq> [] \<and> move e t s s' \<longrightarrow>
        status (job s') = status (job s)
      \<or> (status (job s) = Started \<and> status (job s') = Generating)
      \<or> (status (job s) = Generating \<and> status (job s') = Completed))
   \<and> (reach e t start s \<and> wordList t \<noteq> [] \<and> observable s \<longrightarrow>
        (status (job s) = Completed \<longleftrightarrow> completedWords (job s) = totalWords (job s))
      \<and> (endTime (job s) \<noteq> None \<longleftrightarrow> status (job s) = Completed)
      \<and> (status (job s) = Completed \<longrightarrow> currentWord (job s) = None))
   \<and> (reach e t start s \<and> move e t s s' \<longrightarrow>
        endTime (job s') = endTime (job s)
      \<or> (pc s = SetEndTime \<and> status (job s) = Completed \<and> endTime (job s) = None
          \<and> endTime (job s') = Some (endClock t)))
   \<and> (pc s = SetStatusCompleted \<longrightarrow>
        micros e t 3 s = Some (s\<lparr>job := (job s)\<lparr>status := Completed,
            endTime := Some (endClock t), currentWord := None\<rparr>, pc := Returned\<rparr>))
   \<and> (serverReach e w \<and> activeJobs w jid = Some (t, r) \<longrightarrow>
        wordList t \<noteq> [] \<and> status (job r) \<noteq> Started
      \<and> (status (job r) = Completed \<longleftrightarrow> completedWords (job r) = totalWords (job r))
      \<and> (endTime (job r) \<noteq> None \<longleftrightarrow> status (job r) = Completed)
      \<and> (status (job r) = Completed \<longrightarrow>
            currentWord (job r) = None \<and> onEvent e t ev r = r))"
proof -
  have a: "status (job s') = status (job s)
      \<or> (status (job s) = Started \<and> status (job s') = Generating)
      \<or> (status (job s) = Generating \<and> status (job s') = Completed)"
    if "reach e t start s" "wordList t \<noteq> []" "move e t s s'"
    using that by (auto dest!: reach_inv dest: move_status)
  have b: "(status (job s) = Completed \<longleftrightarrow> completedWords (job s) = totalWords (job s))
      \<and> (endTime (job s) \<noteq> None \<longleftrightarrow> status (job s) = Completed)
      \<and> (status (job s) = Completed \<longrightarrow> currentWord (job s) = None)"
    if "reach e t start s" "wordList t \<noteq> []" "observable s"
    using inv_observable_status[OF reach_inv[OF that(1)] that(3) that(2)] by blast
  have c: "endTime (job s') = endTime (job s)
      \<or> (pc s = SetEndTime \<and> status (job s) = Completed \<and> endTime (job s) = None
          \<and> endTime (job s') = Some (endClock t))"
    if "reach e t start s" "move e t s s'"
    using that by (auto dest!: reach_inv dest: move_endTime)
  have d: "wordList t \<noteq> [] \<and> status (job r) \<noteq> Started
      \<and> (status (job r) = Completed \<longleftrightarrow> completedWords (job r) = totalWords (job r))
      \<and> (endTime (job r) \<noteq> None \<longleftrightarrow> status (job r) = Completed)
      \<and> (status (job r) = Completed \<longrightarrow> currentWord (job r) = None \<and> onEvent e t ev r = r)"
    if "serverReach e w" "activeJobs w jid = Some (t, r)"
  proof -
    from that have g: "registered e jid t r" by (rule serverReach_registered)
    then obtain start' where "reach e t start' r" and o: "observable r" and ne: "wordList t \<noteq> []"
      by (auto simp: registered_def)
    then have "inv e t r" by (auto dest: reach_inv)
    from inv_observable_status[OF this o ne] ne registered_Completed[OF g, of ev]
    show ?thesis by blast
  qed
  from a b c d micros_completion[of s e t] show ?thesis by blast
qed

lemma micro_results:
  "micro e t s = Some s' \<Longrightarrow>
   results (job s') = results (job s)
   \<or> (\<exists>i w. pc s = PushSuccess i w \<and> results (job s') = results (job s) @ [successResult e t w])
   \<or> (\<exists>i w err. pc s = Catch i w err \<and> results (job s') = results (job s) @ [failureResult w err])"
  by (cases "pc s") (auto simp: micro_def split: if_splits)

lemma move_results:
  "move e t s s' \<Longrightarrow>
   results (job s') = results (job s)
   \<or> (\<exists>i w. pc s = PushSuccess i w \<and> results (job s') = results (job s) @ [successResult e t w])
   \<or> (\<exists>i w err. pc s = Catch i w err \<and> results (job s') = results (job s) @ [failureResult w err])"
  by (auto simp: move_def dest: micro_results deliver_job)

lemma done_upto_prefix:
  "done_upto e t j k c \<Longrightarrow> map word (results j) = take (length (results j)) (wordList t)"
  using done_upto_words[of e t j k c] done_upto_length[of e t j k c] by simp

lemma inv_done_upto: "inv e t s \<Longrightarrow> \<exists>k c. done_upto e t (job s) k c"
  by (cases "pc s") (auto simp: inv_def Let_def)

lemma inv_results_prefix:
  "inv e t s \<Longrightarrow> map word (results (job s)) = take (length (results (job s))) (wordList t)"
  by (auto dest!: inv_done_upto dest: done_upto_prefix)

lemma inv_completed_results:
  "inv e t s \<Longrightarrow> status (job s) = Completed \<Longrightarrow> map word (results (job s)) = wordList t"
  by (cases "pc s") (auto simp: inv_def Let_def dest: done_upto_words split: if_splits)

lemma inv_iteration:
  "inv e t s \<Longrightarrow> pc s = LoopTest i \<Longrightarrow> length (results (job s)) = i \<and> i \<le> length (wordList t)"
  by (auto simp: inv_def Let_def done_upto_def dest: list_all2_lengthD)

text \<open>
  Claim C2. In every state of the runner the words of the entries of \<^verbatim>\<open>results\<close>
  are a prefix of the word list, in input order; when the loop is about to test
  \<^verbatim>\<open>i\<close> there are exactly \<^verbatim>\<open>i\<close> entries; a move appends nothing or exactly
  one entry (the success entry or a failure entry of the current word); and once
  \<^verbatim>\<open>status\<close> is Completed there are as many entries as words and the \<open>k\<close>-th entry
  carries the \<open>k\<close>-th word. For every registered job that is Completed, the word list
  is not empty and \<^verbatim>\<open>results\<close> has \<^verbatim>\<open>totalWords\<close> entries, whose words are the
  word list.
\<close>

theorem one_result_per_word:
  "(reach e t start s \<longrightarrow>
        map word (results (job s)) = take (length (results (job s))) (wordList t)
      \<and> (pc s = LoopTest i \<longrightarrow> length (results (job s)) = i \<and> i \<le> length (wordList t))
      \<and> (move e t s s' \<longrightarrow>
            results (job s') = results (job s)
          \<or> (\<exists>i w. pc s = PushSuccess i w \<and> results (job s') = results (job s) @ [successResult e t w])
          \<or> (\<exists>i w err. pc s = Catch i w err \<and> results (job s') = results (job s) @ [failureResult w err]))
      \<and> (status (job s) = Completed \<longrightarrow>
            length (results (job s)) = length (wordList t)
          \<and> (\<forall>k < length (wordList t). word (results (job s) ! k) = wordList t ! k)))
   \<and> (serverReach e w \<and> activeJobs w jid = Some (t, r) \<and> status (job r) = Completed \<longrightarrow>
        wordList t \<noteq> [] \<and> length (results (job r)) = length (wordList t)
      \<and> length (results (job r)) = totalWords (job r)
      \<and> map word (results (job r)) = wordList t)"
proof -
  have c: "length (results (job s)) = length (wordList t)
          \<and> (\<forall>k < length (wordList t). word (results (job s) ! k) = wordList t ! k)"
    if i: "inv e t s" and "status (job s) = Completed" for s
  proof -
    from that have m: "map word (results (job s)) = wordList t" by (rule inv_completed_results)
    then have l: "length (results (job s)) = length (wordList t)" by (metis length_map)
    have "\<forall>k < length (wordList t). word (results (job s) ! k) = wordList t ! k"
      using m l by (metis nth_map)
    with l show ?thesis by simp
  qed
  have a: "map word (results (job s)) = take (length (results (job s))) (wordList t)
      \<and> (pc s = LoopTest i \<longrightarrow> length (results (job s)) = i \<and> i \<le> length (wordList t))
      \<and> (move e t s s' \<longrightarrow>
            results (job s') = results (job s)
          \<or> (\<exists>i w. pc s = PushSuccess i w \<and> results (job s') = results (job s) @ [successResult e t w])
          \<or> (\<exists>i w err. pc s = Catch i w err \<and> results (job s') = results (job s) @ [failureResult w err]))
      \<and> (status (job s) = Completed \<longrightarrow>
            length (results (job s)) = length (wordList t)
          \<and> (\<forall>k < length (wordList t). word (results (job s) ! k) = wordList t ! k))"
    if "reach e t start s"
  proof -
    note i = reach_inv[OF that]
    show ?thesis
      using inv_results_prefix[OF i] inv_iteration[OF i, of i] move_results[of e t s s'] c[OF i]
      by blast
  qed
  have b: "wordList t \<noteq> [] \<and> length (results (job r)) = length (wordList t)
      \<and> length (results (job r)) = totalWords (job r)
      \<and> map word (results (job r)) = wordList t"
    if "serverReach e w" "activeJobs w jid = Some (t, r)" "status (job r) = Completed"
  proof -
    from that(1,2) have "registered e jid t r" by (rule serverReach_registered)
    then obtain start' where "reach e t start' r" and o: "observable r" and ne: "wordList t \<noteq> []"
      by (auto simp: registered_def)
    then have i: "inv e t r" by (auto dest: reach_inv)
    from c[OF i that(3)] inv_completed_results[OF i that(3)] inv_observable(3)[OF i o] ne
    show ?thesis by simp
  qed
  from a b show ?thesis by blast
qed

lemma reach_micros: "reach e t start s \<Longrightarrow> micros e t k s = Some s' \<Longrightarrow> reach e t start s'"
  by (induction k arbitrary: s) (auto split: option.splits intro: reach_micro)

text \<open>
  Claim C3. At every point where other code can run (the runner is suspended at an
  \<^verbatim>\<open>await\<close> or has returned), \<^verbatim>\<open>completedWords\<close> equals the length of
  \<^verbatim>\<open>results\<close> and lies between 0 and \<^verbatim>\<open>totalWords\<close>; no move of the runner
  decreases \<^verbatim>\<open>completedWords\<close>; and the same holds of every registered job between
  two turns of the event loop, a turn of its runner not decreasing the counter.
\<close>

theorem completedWords_tracks_results:
  "(reach e t start s \<and> observable s \<longrightarrow>
        completedWords (job s) = length (results (job s))
      \<and> 0 \<le> completedWords (job s) \<and> completedWords (job s) \<le> totalWords (job s))
   \<and> (reach e t start s \<and> move e t s s' \<longrightarrow> completedWords (job s) \<le> completedWords (job s'))
   \<and> (serverReach e w \<and> activeJobs w jid = Some (t, r) \<longrightarrow>
        completedWords (job r) = length (results (job r))
      \<and> completedWords (job r) \<le> totalWords (job r)
      \<and> completedWords (job r) \<le> completedWords (job (onEvent e t ev r)))"
proof -
  have "completedWords (job r) = length (results (job r))
      \<and> completedWords (job r) \<le> totalWords (job r)
      \<and> completedWords (job r) \<le> completedWords (job (onEvent e t ev r))"
    if "serverReach e w" "activeJobs w jid = Some (t, r)"
  proof -
    from that have "registered e jid t r" by (rule serverReach_registered)
    then obtain start' where "reach e t start' r" "observable r"
      by (auto simp: registered_def)
    then show ?thesis
      using reach_inv[of e t start' r] inv_observable[of e t r] onEvent_completedWords[of e t r ev]
      by simp
  qed
  then show ?thesis
    using reach_inv[of e t start s] inv_observable[of e t s] move_completedWords[of e t s s']
    by auto
qed

lemma deliver_contained:
  "pc s = Await i w a \<Longrightarrow> deliver e ev s = Some s' \<Longrightarrow>
   job s' = job s
   \<and> ((\<exists>a'. pc s' = Await i w a') \<or> pc s' = PushSuccess i w \<or> (\<exists>err. pc s' = Catch i w err))"
  by (auto simp: deliver_def split: option.splits outcome.splits) (case_tac x2a; simp)+

lemma Error_not_abort: "err_name (Error m) \<noteq> js ''AbortError''"
  by (simp add: Error_def js_def)

lemma deliver_rejected:
  "pc s = Await i w a \<Longrightarrow>
   deliver e (Settled (Rejected err)) s =
     Some (s\<lparr>pc := Catch i w
       (case a of
          DalleErrJson st \<Rightarrow> Error (js ''HTTP '' @ showNat st)
        | StabPostForm \<Rightarrow>
            (if err_name err = js ''AbortError''
             then Error (js ''Stability API request timed out after 90 seconds'') else err)
        | StabWriteFile b \<Rightarrow>
            (if err_name err = js ''AbortError''
             then Error (js ''Stability API request timed out after 90 seconds'') else err)
        | _ \<Rightarrow> err)\<rparr>)"
  by (cases a) (simp_all add: deliver_def replyOf_def resume_def httpMessage_def stabilityCatch_def)

lemma deliver_timer:
  "pc s = Await i w a \<Longrightarrow> armed a = Some ms \<Longrightarrow>
   a = StabPostForm \<and> ms = 90000
   \<and> deliver e TimerFired s =
       Some (s\<lparr>pc := Catch i w
         (if err_name (abortError e) = js ''AbortError''
          then Error (js ''Stability API request timed out after 90 seconds'')
          else abortError e)\<rparr>)"
  by (cases a) (simp_all add: deliver_def replyOf_def resume_def stabilityCatch_def)

lemma deliver_not_ok:
  "pc s = Await i w DalleFetch \<Longrightarrow> st < 200 \<or> 299 < st \<Longrightarrow>
     deliver e (Settled (Response st)) s = Some (s\<lparr>pc := Await i w (DalleErrJson st)\<rparr>)"
  "pc s = Await i w (DalleDownload u) \<Longrightarrow> st < 200 \<or> 299 < st \<Longrightarrow>
     deliver e (Settled (Response st)) s = Some (s\<lparr>pc := Catch i w (Error (js ''Download failed''))\<rparr>)"
  "pc s = Await i w StabPostForm \<Longrightarrow> st \<noteq> 200 \<Longrightarrow>
     deliver e (Settled (AxiosResponse st b)) s =
       Some (s\<lparr>pc := Catch i w (Error (js ''Stability API error '' @ showNat st @ js '': ''
                                     @ bufferToString e b))\<rparr>)"
  by (auto simp: deliver_def replyOf_def resume_def ok_def stabilityCatch_def Error_not_abort)

lemma deliver_error_body:
  "pc s = Await i w (DalleErrJson st) \<Longrightarrow> m \<noteq> [] \<Longrightarrow>
     deliver e (Settled (ErrorJson (Some m))) s = Some (s\<lparr>pc := Catch i w (Error m)\<rparr>)"
  "pc s = Await i w (DalleErrJson st) \<Longrightarrow> mo = None \<or> mo = Some [] \<Longrightarrow>
     deliver e (Settled (ErrorJson mo)) s
       = Some (s\<lparr>pc := Catch i w (Error (js ''HTTP '' @ showNat st))\<rparr>)"
  "pc s = Await i w (DalleErrJson st) \<Longrightarrow>
     deliver e (Settled (BadShape err)) s = Some (s\<lparr>pc := Catch i w err\<rparr>)"
  by (auto simp: deliver_def replyOf_def resume_def httpMessage_def)

lemma dispatch_throw:
  "pc s = Dispatch i w \<Longrightarrow> switch e t = Throw err \<Longrightarrow> micro e t s = Some (s\<lparr>pc := Catch i w err\<rparr>)"
  by (simp add: micro_def)

lemma switch_missing:
  "toLowerCase (provider t) = js ''stability'' \<Longrightarrow> missing (stability_apiKey (cfg e)) \<Longrightarrow>
     switch e t = Throw (Error (js ''Missing STABILITY_API_KEY''))"
  "toLowerCase (provider t) = js ''dalle3'' \<or> toLowerCase (provider t) = js ''dall-e-3'' \<Longrightarrow>
     missing (dalle3_apiKey (cfg e)) \<Longrightarrow>
     switch e t = Throw (Error (js ''Missing OPENAI_API_KEY''))"
  by (auto simp: switch_def Let_def js_def)

lemma switch_unsupported:
  "toLowerCase (provider t) \<noteq> js ''dalle3'' \<Longrightarrow> toLowerCase (provider t) \<noteq> js ''dall-e-3''
   \<Longrightarrow> toLowerCase (provider t) \<noteq> js ''stability''
   \<Longrightarrow> switch e t = Throw (Error (js ''Unsupported provider: '' @ provider t))"
  by (simp add: switch_def Let_def)

lemma catch_records:
  "pc s = Catch i w err \<Longrightarrow>
   micros e t 2 s = Some (s\<lparr>job := (job s)\<lparr>results := results (job s) @ [failureResult w err],
                                           completedWords := i + 1\<rparr>,
                             pc := LoopTest (i + 1)\<rparr>)"
  by (simp add: numeral_2_eq_2 micro_def)

lemma catch_continues:
  "pc s = Catch i w err \<Longrightarrow> i + 1 < length (wordList t) \<Longrightarrow>
   micros e t 5 s = Some (s\<lparr>job := (job s)\<lparr>results := results (job s) @ [failureResult w err],
                                           completedWords := i + 1, status := Generating,
                                           currentWord := Some (wordList t ! (i + 1))\<rparr>,
                             pc := Dispatch (i + 1) (wordList t ! (i + 1))\<rparr>)"
  by (simp add: eval_nat_numeral micro_def)

lemma catch_finishes:
  "pc s = Catch i w err \<Longrightarrow> \<not> i + 1 < length (wordList t) \<Longrightarrow>
   micros e t 6 s = Some (s\<lparr>job := (job s)\<lparr>results := results (job s) @ [failureResult w err],
                                           completedWords := i + 1, status := Completed,
                                           endTime := Some (endClock t), currentWord := None\<rparr>,
                             pc := Returned\<rparr>)"
  by (simp add: eval_nat_numeral micro_def)

lemma inv_catch:
  "inv e t s \<Longrightarrow> pc s = Catch i w err \<Longrightarrow>
   i < length (wordList t) \<and> w = wordList t ! i \<and> length (results (job s)) = i"
  by (auto simp: inv_def Let_def done_upto_def dest: list_all2_lengthD)

lemma depth_pos: "0 < depth a"
  by (cases a) simp_all

lemma depth_le: "depth a \<le> 5"
  by (cases a) simp_all

lemma todo_continue: "todo n (continue i w out) \<le> 5 * (n - Suc i) + 5"
  by (cases out) (simp_all add: depth_le)

lemma micro_todo:
  "micro e t s = Some s' \<Longrightarrow> todo (length (wordList t)) (pc s') \<le> todo (length (wordList t)) (pc s)"
  by (cases "pc s") (auto simp: micro_def todo_continue split: if_splits)

lemma runToAwait_todo:
  "todo (length (wordList t)) (pc (runToAwait e t s)) \<le> todo (length (wordList t)) (pc s)"
proof (induction e t s rule: runToAwait.induct)
  case (1 e t s)
  show ?case
  proof (cases "micro e t s")
    case None
    then show ?thesis by (simp add: runToAwait.simps[of e t s])
  next
    case (Some s')
    with "1.IH" micro_todo[of e t s s'] show ?thesis
      by (simp add: runToAwait.simps[of e t s])
  qed
qed

lemma resume_depth: "resume e a r = Some (Next a') \<Longrightarrow> depth a' < depth a"
  by (cases a; cases r) (auto simp: resume_def split: if_splits)

lemma deliver_todo:
  "deliver e ev s = Some s' \<Longrightarrow> todo n (pc s') < todo n (pc s)"
proof (cases "pc s")
  case (Await i w a)
  assume "deliver e ev s = Some s'"
  with Await obtain r out where r: "resume e a r = Some out" and s': "s' = s\<lparr>pc := continue i w out\<rparr>"
    by (auto simp: deliver_def split: option.splits)
  show ?thesis
  proof (cases out)
    case (Next a')
    with r have "depth a' < depth a" by (simp add: resume_depth)
    with Next s' Await show ?thesis by simp
  next
    case (Throw err)
    with s' Await show ?thesis by (simp add: depth_pos)
  next
    case Done
    with s' Await show ?thesis by (simp add: depth_pos)
  qed
qed (auto simp: deliver_def)

lemma onEvent_todo:
  "deliver e ev s = Some s' \<Longrightarrow>
   todo (length (wordList t)) (pc (onEvent e t ev s)) < todo (length (wordList t)) (pc s)"
  using runToAwait_todo[of t e s'] deliver_todo[of e ev s s' "length (wordList t)"]
  by (simp add: onEvent_def)

lemma observable_todo_zero: "observable s \<Longrightarrow> todo n (pc s) = 0 \<Longrightarrow> pc s = Returned"
proof (cases "pc s")
  case (Await i w a)
  assume "todo n (pc s) = 0"
  with Await depth_pos[of a] show ?thesis by simp
qed (auto simp: observable_def)

lemma observable_onEvents: "observable s \<Longrightarrow> observable (onEvents e t evs s)"
  by (induction evs arbitrary: s) (auto intro: observable_onEvent)

lemma onEvents_Returned: "pc s = Returned \<Longrightarrow> onEvents e t evs s = s"
  by (induction evs) (simp_all add: onEvent_def deliver_def)

lemma bounded_completion:
  "observable s \<Longrightarrow> responsive e t evs s \<Longrightarrow> todo (length (wordList t)) (pc s) \<le> length evs
   \<Longrightarrow> pc (onEvents e t evs s) = Returned"
proof (induction evs arbitrary: s)
  case Nil
  then have "todo (length (wordList t)) (pc s) = 0" by simp
  with Nil.prems(1) have "pc s = Returned" by (rule observable_todo_zero)
  then show ?case by simp
next
  case (Cons ev evs)
  show ?case
  proof (cases "pc s = Returned")
    case True
    then show ?thesis by (simp only: onEvents_Returned)
  next
    case False
    with Cons.prems(2) obtain s' where d: "deliver e ev s = Some s'" by auto
    from Cons.prems(1) have "observable (onEvent e t ev s)" by (rule observable_onEvent)
    moreover from Cons.prems(2) have "responsive e t evs (onEvent e t ev s)" by simp
    moreover from onEvent_todo[OF d, of t] Cons.prems(3)
    have "todo (length (wordList t)) (pc (onEvent e t ev s)) \<le> length evs" by simp
    ultimately have "pc (onEvents e t evs (onEvent e t ev s)) = Returned" by (rule Cons.IH)
    then show ?thesis by simp
  qed
qed

lemma micro_results_append:
  "micro e t s = Some s' \<Longrightarrow> \<exists>ys. results (job s') = results (job s) @ ys"
  using micro_results[of e t s s'] by auto

lemma runToAwait_results: "\<exists>ys. results (job (runToAwait e t s)) = results (job s) @ ys"
proof (induction e t s rule: runToAwait.induct)
  case (1 e t s)
  show ?case
  proof (cases "micro e t s")
    case None
    then show ?thesis by (simp add: runToAwait.simps[of e t s])
  next
    case (Some s')
    from Some obtain ys where "results (job s') = results (job s) @ ys"
      by (auto dest: micro_results_append)
    moreover from "1.IH"[OF Some] obtain zs
      where "results (job (runToAwait e t s')) = results (job s') @ zs" by blast
    ultimately show ?thesis using Some by (simp add: runToAwait.simps[of e t s])
  qed
qed

lemma onEvent_records:
  assumes r: "reach e t start s" and d: "deliver e ev s = Some s'" and c: "pc s' = Catch i w err"
  shows "i < length (results (job (onEvent e t ev s)))
     \<and> results (job (onEvent e t ev s)) ! i = failureResult w err
     \<and> i < completedWords (job (onEvent e t ev s))"
proof -
  let ?s'' = "s'\<lparr>job := (job s')\<lparr>results := results (job s') @ [failureResult w err]\<rparr>,
                 pc := SetCompletedWords i\<rparr>"
  from r d have "reach e t start s'" by (rule reach_deliver)
  then have "inv e t s'" by (rule reach_inv)
  with c have l: "length (results (job s')) = i" by (auto dest: inv_catch)
  from c have "micro e t s' = Some ?s''" by (simp add: micro_def)
  then have "runToAwait e t s' = runToAwait e t ?s''" by (simp add: runToAwait.simps[of e t s'])
  with d have o: "onEvent e t ev s = runToAwait e t ?s''" by (simp add: onEvent_def)
  from runToAwait_results[of e t ?s''] obtain ys
    where "results (job (runToAwait e t ?s'')) = (results (job s') @ [failureResult w err]) @ ys"
    by auto
  with o have res: "results (job (onEvent e t ev s)) = results (job s') @ failureResult w err # ys"
    by simp
  from r have "reach e t start (onEvent e t ev s)" by (rule reach_onEvent)
  then have "inv e t (onEvent e t ev s)" by (rule reach_inv)
  moreover have "observable (onEvent e t ev s)"
    using d by (simp add: onEvent_def observable_runToAwait)
  ultimately have "completedWords (job (onEvent e t ev s)) = length (results (job (onEvent e t ev s)))"
    by (rule inv_observable(1))
  with res l show ?thesis by (simp add: nth_append)
qed

text \<open>
  Claim C1. Every way the provider call of word \<open>i\<close> can fail ends in the
  \<^verbatim>\<open>catch\<close> clause of the loop body, with the error of that failure:
  \<^item> at the \<^verbatim>\<open>switch\<close>, a missing credential
    (\<^verbatim>\<open>Missing STABILITY_API_KEY\<close>, \<^verbatim>\<open>Missing OPENAI_API_KEY\<close>) or a provider
    that is not known (\<^verbatim>\<open>Unsupported provider: \<close> and its name);
  \<^item> a rejected promise at any \<^verbatim>\<open>await\<close>: the rejection itself; in the Stability
    branch the time-out error in place of a rejection named \<^verbatim>\<open>AbortError\<close>; and
    \<^verbatim>\<open>HTTP \<close> with the status when the error body of a refused DALL-E request
    cannot be read;
  \<^item> the abort timer: it is armed at the Stability request only, for 90 seconds, and
    the request then fails like a rejection with the runtime's abort error;
  \<^item> a DALL-E response whose status is not 2xx: the runner reads the error body, and
    fails with the message of the body, or with \<^verbatim>\<open>HTTP \<close> and the status when the
    body has none (or with the TypeError of a body that is \<^verbatim>\<open>null\<close>);
  \<^item> a download whose status is not 2xx: \<^verbatim>\<open>Download failed\<close>;
  \<^item> a Stability response whose status is not 200:
    \<^verbatim>\<open>Stability API error \<close>, the status and the body.

  An event never takes the runner out of the loop iteration: it goes to the next
  \<^verbatim>\<open>await\<close>, to the push of the success entry, or to the \<^verbatim>\<open>catch\<close> clause,
  and the record is untouched. From the \<^verbatim>\<open>catch\<close> clause the runner appends the
  failure entry of word \<open>i\<close>, whose \<^verbatim>\<open>alt\<close> ends with the message of the error,
  as entry \<open>i\<close>, sets \<^verbatim>\<open>completedWords\<close> to \<open>i + 1\<close> and goes on: to the
  \<^verbatim>\<open>switch\<close> for word \<open>i + 1\<close> if there is one, to the end of the job otherwise.
  So when the turn of the event loop in which a failure arrives is over, entry \<open>i\<close> of
  \<^verbatim>\<open>results\<close> is the failure entry of that error and \<^verbatim>\<open>completedWords\<close> is
  beyond \<open>i\<close>. And whatever the events are, failures or not, as long as each resumes
  the runner, the runner has returned after at most five events per remaining word.
\<close>

theorem failure_isolation:
  "(pc s = Dispatch i w \<and> switch e t = Throw err \<longrightarrow>
        micro e t s = Some (s\<lparr>pc := Catch i w err\<rparr>))
   \<and> (toLowerCase (provider t) = js ''stability'' \<and> missing (stability_apiKey (cfg e)) \<longrightarrow>
        switch e t = Throw (Error (js ''Missing STABILITY_API_KEY'')))
   \<and> ((toLowerCase (provider t) = js ''dalle3'' \<or> toLowerCase (provider t) = js ''dall-e-3'')
        \<and> missing (dalle3_apiKey (cfg e)) \<longrightarrow>
        switch e t = Throw (Error (js ''Missing OPENAI_API_KEY'')))
   \<and> (toLowerCase (provider t) \<noteq> js ''dalle3'' \<and> toLowerCase (provider t) \<noteq> js ''dall-e-3''
        \<and> toLowerCase (provider t) \<noteq> js ''stability'' \<longrightarrow>
        switch e t = Throw (Error (js ''Unsupported provider: '' @ provider t)))
   \<and> (pc s = Await i w a \<longrightarrow>
        deliver e (Settled (Rejected err)) s =
          Some (s\<lparr>pc := Catch i w
            (case a of
               DalleErrJson st \<Rightarrow> Error (js ''HTTP '' @ showNat st)
             | StabPostForm \<Rightarrow>
                 (if err_name err = js ''AbortError''
                  then Error (js ''Stability API request timed out after 90 seconds'') else err)
             | StabWriteFile b \<Rightarrow>
                 (if err_name err = js ''AbortError''
                  then Error (js ''Stability API request timed out after 90 seconds'') else err)
             | _ \<Rightarrow> err)\<rparr>))
   \<and> (pc s = Await i w a \<and> armed a = Some ms \<longrightarrow>
        a = StabPostForm \<and> ms = 90000
      \<and> deliver e TimerFired s =
          Some (s\<lparr>pc := Catch i w
            (if err_name (abortError e) = js ''AbortError''
             then Error (js ''Stability API request timed out after 90 seconds'')
             else abortError e)\<rparr>))
   \<and> (pc s = Await i w DalleFetch \<and> (st < 200 \<or> 299 < st) \<longrightarrow>
        deliver e (Settled (Response st)) s = Some (s\<lparr>pc := Await i w (DalleErrJson st)\<rparr>))
   \<and> (pc s = Await i w (DalleErrJson st) \<and> m \<noteq> [] \<longrightarrow>
        deliver e (Settled (ErrorJson (Some m))) s = Some (s\<lparr>pc := Catch i w (Error m)\<rparr>))
   \<and> (pc s = Await i w (DalleErrJson st) \<and> (mo = None \<or> mo = Some []) \<longrightarrow>
        deliver e (Settled (ErrorJson mo)) s
          = Some (s\<lparr>pc := Catch i w (Error (js ''HTTP '' @ showNat st))\<rparr>))
   \<and> (pc s = Await i w (DalleErrJson st) \<longrightarrow>
        deliver e (Settled (BadShape err)) s = Some (s\<lparr>pc := Catch i w err\<rparr>))
   \<and> (pc s = Await i w (DalleDownload u) \<and> (st < 200 \<or> 299 < st) \<longrightarrow>
        deliver e (Settled (Response st)) s = Some (s\<lparr>pc := Catch i w (Error (js ''Download failed''))\<rparr>))
   \<and> (pc s = Await i w StabPostForm \<and> st \<noteq> 200 \<longrightarrow>
        deliver e (Settled (AxiosResponse st b)) s =
          Some (s\<lparr>pc := Catch i w (Error (js ''Stability API error '' @ showNat st @ js '': ''
                                        @ bufferToString e b))\<rparr>))
   \<and> (pc s = Await i w a \<and> deliver e ev s = Some s' \<longrightarrow>
        job s' = job s
      \<and> ((\<exists>a'. pc s' = Await i w a') \<or> pc s' = PushSuccess i w \<or> (\<exists>err'. pc s' = Catch i w err')))
   \<and> (reach e t start s \<and> pc s = Catch i w err \<longrightarrow>
        i < length (wordList t) \<and> w = wordList t ! i \<and> length (results (job s)) = i
      \<and> micros e t 2 s = Some (s\<lparr>job := (job s)\<lparr>results := results (job s) @ [failureResult w err],
                                                completedWords := i + 1\<rparr>,
                                  pc := LoopTest (i + 1)\<rparr>)
      \<and> word (failureResult w err) = w \<and> url (failureResult w err) = []
      \<and> alt (failureResult w err) = js ''Failed to generate image for '' @ w @ js '': '' @ err_message err
      \<and> (if i + 1 < length (wordList t)
          then micros e t 5 s =
                 Some (s\<lparr>job := (job s)\<lparr>results := results (job s) @ [failureResult w err],
                                        completedWords := i + 1, status := Generating,
                                        currentWord := Some (wordList t ! (i + 1))\<rparr>,
                          pc := Dispatch (i + 1) (wordList t ! (i + 1))\<rparr>)
          else micros e t 6 s =
                 Some (s\<lparr>job := (job s)\<lparr>results := results (job s) @ [failureResult w err],
                                        completedWords := i + 1, status := Completed,
                                        endTime := Some (endClock t), currentWord := None\<rparr>,
                          pc := Returned\<rparr>)))
   \<and> (reach e t start s \<and> deliver e ev s = Some s' \<and> pc s' = Catch i w err \<longrightarrow>
        i < length (results (job (onEvent e t ev s)))
      \<and> results (job (onEvent e t ev s)) ! i = failureResult w err
      \<and> i < completedWords (job (onEvent e t ev s)))
   \<and> (observable s \<and> responsive e t evs s \<and> todo (length (wordList t)) (pc s) \<le> length evs \<longrightarrow>
        pc (onEvents e t evs s) = Returned)"
proof -
  have k1: "pc s = Dispatch i w \<and> switch e t = Throw err \<longrightarrow>
          micro e t s = Some (s\<lparr>pc := Catch i w err\<rparr>)"
    using dispatch_throw[of s i w e t err] by simp
  have k2: "toLowerCase (provider t) = js ''stability'' \<and> missing (stability_apiKey (cfg e)) \<longrightarrow>
          switch e t = Throw (Error (js ''Missing STABILITY_API_KEY''))"
    using switch_missing(1)[of t e] by simp
  have k3: "(toLowerCase (provider t) = js ''dalle3'' \<or> toLowerCase (provider t) = js ''dall-e-3'')
          \<and> missing (dalle3_apiKey (cfg e)) \<longrightarrow>
          switch e t = Throw (Error (js ''Missing OPENAI_API_KEY''))"
    using switch_missing(2)[of t e] by simp
  have k4: "toLowerCase (provider t) \<noteq> js ''dalle3'' \<and> toLowerCase (provider t) \<noteq> js ''dall-e-3''
          \<and> toLowerCase (provider t) \<noteq> js ''stability'' \<longrightarrow>
          switch e t = Throw (Error (js ''Unsupported provider: '' @ provider t))"
    using switch_unsupported[of t e] by simp
  have k5: "pc s = Await i w a \<longrightarrow>
          deliver e (Settled (Rejected err)) s =
            Some (s\<lparr>pc := Catch i w
              (case a of
                 DalleErrJson st \<Rightarrow> Error (js ''HTTP '' @ showNat st)
               | StabPostForm \<Rightarrow>
                   (if err_name err = js ''AbortError''
                    then Error (js ''Stability API request timed out after 90 seconds'') else err)
               | StabWriteFile b \<Rightarrow>
                   (if err_name err = js ''AbortError''
                    then Error (js ''Stability API request timed out after 90 seconds'') else err)
               | _ \<Rightarrow> err)\<rparr>)"
    using deliver_rejected[of s i w a e err] by simp
  have k6: "pc s = Await i w a \<and> armed a = Some ms \<longrightarrow>
          a = StabPostForm \<and> ms = 90000
        \<and> deliver e TimerFired s =
            Some (s\<lparr>pc := Catch i w
              (if err_name (abortError e) = js ''AbortError''
               then Error (js ''Stability API request timed out after 90 seconds'')
               else abortError e)\<rparr>)"
    using deliver_timer[of s i w a ms e] by simp
  have k7: "pc s = Await i w DalleFetch \<and> (st < 200 \<or> 299 < st) \<longrightarrow>
          deliver e (Settled (Response st)) s = Some (s\<lparr>pc := Await i w (DalleErrJson st)\<rparr>)"
    using deliver_not_ok(1)[of s i w st e] by simp
  have k8: "pc s = Await i w (DalleErrJson st) \<and> m \<noteq> [] \<longrightarrow>
          deliver e (Settled (ErrorJson (Some m))) s = Some (s\<lparr>pc := Catch i w (Error m)\<rparr>)"
    using deliver_error_body(1)[of s i w st m e] by simp
  have k9: "pc s = Await i w (DalleErrJson st) \<and> (mo = None \<or> mo = Some []) \<longrightarrow>
          deliver e (Settled (ErrorJson mo)) s
            = Some (s\<lparr>pc := Catch i w (Error (js ''HTTP '' @ showNat st))\<rparr>)"
    using deliver_error_body(2)[of s i w st mo e] by simp
  have k10: "pc s = Await i w (DalleErrJson st) \<longrightarrow>
          deliver e (Settled (BadShape err)) s = Some (s\<lparr>pc := Catch i w err\<rparr>)"
    using deliver_error_body(3)[of s i w st e err] by simp
  have k11: "pc s = Await i w (DalleDownload u) \<and> (st < 200 \<or> 299 < st) \<longrightarrow>
          deliver e (Settled (Response st)) s = Some (s\<lparr>pc := Catch i w (Error (js ''Download failed''))\<rparr>)"
    using deliver_not_ok(2)[of s i w u st e] by simp
  have k12: "pc s = Await i w StabPostForm \<and> st \<noteq> 200 \<longrightarrow>
          deliver e (Settled (AxiosResponse st b)) s =
            Some (s\<lparr>pc := Catch i w (Error (js ''Stability API error '' @ showNat st @ js '': ''
                                          @ bufferToString e b))\<rparr>)"
    using deliver_not_ok(3)[of s i w st e b] by simp
  have k13: "pc s = Await i w a \<and> deliver e ev s = Some s' \<longrightarrow>
          job s' = job s
        \<and> ((\<exists>a'. pc s' = Await i w a') \<or> pc s' = PushSuccess i w \<or> (\<exists>err'. pc s' = Catch i w err'))"
    using deliver_contained[of s i w a e ev s'] by simp
  have c: "i < length (wordList t) \<and> w = wordList t ! i \<and> length (results (job s)) = i"
    if "reach e t start s" "pc s = Catch i w err"
    using that by (auto dest: reach_inv inv_catch)
  have f: "word (failureResult w err) = w \<and> url (failureResult w err) = []
      \<and> alt (failureResult w err) = js ''Failed to generate image for '' @ w @ js '': '' @ err_message err"
    by (simp add: failureResult_def)
  have k14: "reach e t start s \<and> pc s = Catch i w err \<longrightarrow>
          i < length (wordList t) \<and> w = wordList t ! i \<and> length (results (job s)) = i
        \<and> micros e t 2 s = Some (s\<lparr>job := (job s)\<lparr>results := results (job s) @ [failureResult w err],
                                                  completedWords := i + 1\<rparr>,
                                    pc := LoopTest (i + 1)\<rparr>)
        \<and> word (failureResult w err) = w \<and> url (failureResult w err) = []
        \<and> alt (failureResult w err) = js ''Failed to generate image for '' @ w @ js '': '' @ err_message err
        \<and> (if i + 1 < length (wordList t)
            then micros e t 5 s =
                   Some (s\<lparr>job := (job s)\<lparr>results := results (job s) @ [failureResult w err],
                                          completedWords := i + 1, status := Generating,
                                          currentWord := Some (wordList t ! (i + 1))\<rparr>,
                            pc := Dispatch (i + 1) (wordList t ! (i + 1))\<rparr>)
            else micros e t 6 s =
                   Some (s\<lparr>job := (job s)\<lparr>results := results (job s) @ [failureResult w err],
                                          completedWords := i + 1, status := Completed,
                                          endTime := Some (endClock t), currentWord := None\<rparr>,
                            pc := Returned\<rparr>))"
    using c f catch_records[of s i w err e t] catch_continues[of s i w err t e]
      catch_finishes[of s i w err t e]
    by simp
  have k15: "reach e t start s \<and> deliver e ev s = Some s' \<and> pc s' = Catch i w err \<longrightarrow>
          i < length (results (job (onEvent e t ev s)))
        \<and> results (job (onEvent e t ev s)) ! i = failureResult w err
        \<and> i < completedWords (job (onEvent e t ev s))"
    using onEvent_records[of e t start s ev s' i w err] by simp
  have k16: "observable s \<and> responsive e t evs s \<and> todo (length (wordList t)) (pc s) \<le> length evs \<longrightarrow>
          pc (onEvents e t evs s) = Returned"
    using bounded_completion[of s e t evs] by simp
  show ?thesis
    by (intro conjI k1 k2 k3 k4 k5 k6 k7 k8 k9 k10 k11 k12 k13 k14 k15 k16)
qed

section \<open>Properties of the tools\<close>

lemma trim_Nil_iff: "trim s = [] \<longleftrightarrow> (\<forall>c\<in>set s. isWhiteSpace c)"
proof
  assume "trim s = []"
  then have "dropWhile isWhiteSpace (rev (dropWhile isWhiteSpace s)) = []"
    by (simp add: trim_def)
  then have a: "\<forall>c\<in>set (dropWhile isWhiteSpace s). isWhiteSpace c"
    by (simp add: dropWhile_eq_Nil_conv)
  have "dropWhile isWhiteSpace s = []"
  proof (rule ccontr)
    assume n: "dropWhile isWhiteSpace s \<noteq> []"
    then have "\<not> isWhiteSpace (hd (dropWhile isWhiteSpace s))" by (rule hd_dropWhile)
    moreover from n have "hd (dropWhile isWhiteSpace s) \<in> set (dropWhile isWhiteSpace s)" by simp
    ultimately show False using a by blast
  qed
  then show "\<forall>c\<in>set s. isWhiteSpace c" by (simp add: dropWhile_eq_Nil_conv)
next
  assume "\<forall>c\<in>set s. isWhiteSpace c"
  then show "trim s = []" by (auto simp: trim_def dest: set_dropWhileD)
qed

lemma split_on_not_Nil: "split_on sep s \<noteq> []"
  by (induction s) auto

lemma split_on_all:
  "(\<forall>p\<in>set (split_on sep s). \<forall>c\<in>set p. Q c) \<longleftrightarrow> (\<forall>c\<in>set s. c = sep \<or> Q c)"
proof (induction s)
  case Nil
  then show ?case by simp
next
  case (Cons x xs)
  obtain p ps where ps: "split_on sep xs = p # ps"
    using split_on_not_Nil[of sep xs] by (cases "split_on sep xs") auto
  with Cons show ?case by auto
qed

lemma makeWordList_Nil_iff:
  "makeWordList ws = [] \<longleftrightarrow> (\<forall>c\<in>set ws. c = 0x2C \<or> isWhiteSpace c)"
proof -
  have "makeWordList ws = [] \<longleftrightarrow> (\<forall>p\<in>set (split_on 0x2C ws). trim p = [])"
    by (auto simp: makeWordList_def filter_empty_conv)
  also have "\<dots> \<longleftrightarrow> (\<forall>p\<in>set (split_on 0x2C ws). \<forall>c\<in>set p. isWhiteSpace c)"
    by (simp add: trim_Nil_iff)
  also have "\<dots> \<longleftrightarrow> (\<forall>c\<in>set ws. c = 0x2C \<or> isWhiteSpace c)"
    by (rule split_on_all)
  finally show ?thesis .
qed

lemma schemaParse_accepts:
  "(\<exists>p. schemaParse e inp = Inr p) \<longleftrightarrow>
     (\<exists>a. inp = Object a \<and> (\<exists>x. in_words a = StringArg x)
        \<and> (\<forall>v\<in>{in_provider a, in_style a, in_background a, in_size a, in_quality a}.
              v = Absent \<or> (\<exists>x. v = StringArg x))
        \<and> (in_async a = Absent \<or> (\<exists>x. in_async a = BooleanArg x)))"
proof (cases inp)
  case NotObject
  then show ?thesis by (simp add: schemaParse_def)
next
  case (Object a)
  have s: "(\<exists>x. zString v = Some x) \<longleftrightarrow> (\<exists>x. v = StringArg x)" for v
    by (cases v) (simp_all add: zString_def)
  have d: "(\<exists>x. zStringDefault k v = Some x) \<longleftrightarrow> v = Absent \<or> (\<exists>x. v = StringArg x)" for k v
    by (cases v) (simp_all add: zStringDefault_def zString_def)
  have b: "(\<exists>x. zBooleanDefault k v = Some x) \<longleftrightarrow> v = Absent \<or> (\<exists>x. v = BooleanArg x)" for k v
    by (cases v) (simp_all add: zBooleanDefault_def)
  have "(\<exists>p. schemaParse e (Object a) = Inr p) \<longleftrightarrow>
      (\<exists>x. zString (in_words a) = Some x)
    \<and> (\<exists>x. zStringDefault (js ''dalle3'') (in_provider a) = Some x)
    \<and> (\<exists>x. zStringDefault (js ''realistic'') (in_style a) = Some x)
    \<and> (\<exists>x. zStringDefault (js ''white'') (in_background a) = Some x)
    \<and> (\<exists>x. zStringDefault (js ''1024x1024'') (in_size a) = Some x)
    \<and> (\<exists>x. zStringDefault (js ''standard'') (in_quality a) = Some x)
    \<and> (\<exists>x. zBooleanDefault True (in_async a) = Some x)"
    by (auto simp: schemaParse_def split: option.splits)
  with Object show ?thesis by (simp add: s d b)
qed

lemma schemaParse_fields:
  "schemaParse e (Object a) = Inr p \<Longrightarrow>
   in_words a = StringArg (words p)
   \<and> (in_provider a = Absent \<longrightarrow> provider p = js ''dalle3'')
   \<and> (in_provider a = StringArg x \<longrightarrow> provider p = x)
   \<and> (in_async a = Absent \<longrightarrow> async p)
   \<and> (in_async a = BooleanArg y \<longrightarrow> async p = y)"
  by (auto simp: schemaParse_def zString_def zStringDefault_def zBooleanDefault_def
      split: option.splits jsarg.splits)

lemma schemaParse_error: "schemaParse e inp = Inl err \<Longrightarrow> err = ZodError e inp"
  by (auto simp: schemaParse_def split: tool_input.splits option.splits)

lemma ZodError_name: "err_name (ZodError e inp) = js ''ZodError'' \<and> ZodError e inp \<noteq> noValidWords"
  by (simp add: ZodError_def noValidWords_def Error_def js_def)

lemma generateImages_rejected:
  assumes "schemaParse e inp = Inl err"
  shows "generateImages e c inp evs w = (Some (Inl err), w)
     \<and> generateImagesAsync e c inp w = (Inl err, w)
     \<and> generateImagesSync e c inp evs = Some (Inl err)"
  using assms by (simp add: generateImages_def generateImagesAsync_def generateImagesSync_def)

lemma generateImagesAsync_empty:
  "schemaParse e inp = Inr p \<Longrightarrow> makeWordList (words p) = []
   \<Longrightarrow> generateImagesAsync e c inp w = (Inl noValidWords, w)"
  by (simp add: generateImagesAsync_def)

lemma generateImagesSync_empty:
  "schemaParse e inp = Inr p \<Longrightarrow> makeWordList (words p) = []
   \<Longrightarrow> generateImagesSync e c inp evs = Some (Inl noValidWords)"
  by (simp add: generateImagesSync_def)

lemma generateImages_empty:
  "schemaParse e inp = Inr p \<Longrightarrow> makeWordList (words p) = []
   \<Longrightarrow> generateImages e c inp evs w = (Some (Inl noValidWords), w)"
  by (simp add: generateImages_def generateImagesAsync_empty generateImagesSync_empty)

lemma generateImagesAsync_throws:
  "fst (generateImagesAsync e c inp w) = Inl err \<Longrightarrow> snd (generateImagesAsync e c inp w) = w"
  by (auto simp: generateImagesAsync_def Let_def split: sum.splits option.splits if_splits)

lemma generateImagesAsync_errors:
  "schemaParse e inp = Inr p \<Longrightarrow> makeWordList (words p) \<noteq> []
   \<Longrightarrow> fst (generateImagesAsync e c inp w) = Inl err
   \<Longrightarrow> mkdirImageDir c = Some err \<or> mkdirJobsDir c = Some err"
  by (auto simp: generateImagesAsync_def Let_def ensureDirectory_def split: option.splits if_splits)

lemma generateImagesSync_errors:
  "schemaParse e inp = Inr p \<Longrightarrow> makeWordList (words p) \<noteq> []
   \<Longrightarrow> generateImagesSync e c inp evs = Some (Inl err)
   \<Longrightarrow> mkdirImageDir c = Some err"
  by (auto simp: generateImagesSync_def Let_def ensureDirectory_def split: option.splits if_splits)

lemma generateImages_errors:
  assumes p: "schemaParse e inp = Inr p" and ne: "makeWordList (words p) \<noteq> []"
    and a: "fst (generateImages e c inp evs w) = Some (Inl err)"
  shows "mkdirImageDir c = Some err \<or> mkdirJobsDir c = Some err"
proof (cases "async p")
  case True
  with a p have "fst (generateImagesAsync e c inp w) = Inl err"
    by (auto simp: generateImages_def split: prod.splits sum.splits)
  with p ne show ?thesis by (rule generateImagesAsync_errors)
next
  case False
  with a p have "generateImagesSync e c inp evs = Some (Inl err)"
    by (auto simp: generateImages_def split: option.splits sum.splits)
  with p ne show ?thesis by (auto dest: generateImagesSync_errors)
qed

lemma generateImages_accessible:
  assumes p: "schemaParse e inp = Inr p" and ne: "makeWordList (words p) \<noteq> []"
    and acc: "accessImageDir c = None" "accessJobsDir c = None"
  shows "fst (generateImages e c inp evs w) \<noteq> Some (Inl err)"
  using assms
  by (auto simp: generateImages_def generateImagesAsync_def generateImagesSync_def Let_def
      ensureDirectory_def split: option.splits sum.splits prod.splits)

text \<open>
  Claim C9, amended. The word list of a string is empty exactly when every code unit
  of the string is a comma or white space. The schema accepts an input exactly when it
  is an object whose \<^verbatim>\<open>words\<close> is a string and whose other declared properties
  are absent or of their declared type; \<^verbatim>\<open>words\<close> is then that string. For an
  input the schema accepts: when the word list is empty, \<^verbatim>\<open>generateImages\<close>
  throws \<^verbatim>\<open>Error("No valid words provided.")\<close> to its caller, on the asynchronous
  and on the synchronous path; when a word remains, the only errors it throws are the
  rejections of \<^verbatim>\<open>fs.mkdir\<close>, and none at all when the directories are
  accessible. For an input the schema rejects, \<^verbatim>\<open>generateImages\<close> throws the
  schema's ZodError to its caller, on both paths, whatever \<^verbatim>\<open>words\<close> holds; that
  error is not the one of the empty word list.
\<close>

theorem validation_error:
  "(makeWordList ws = [] \<longleftrightarrow> (\<forall>ch\<in>set ws. ch = 0x2C \<or> isWhiteSpace ch))
   \<and> ((\<exists>p'. schemaParse e inp = Inr p') \<longleftrightarrow>
        (\<exists>a. inp = Object a \<and> (\<exists>x. in_words a = StringArg x)
           \<and> (\<forall>v\<in>{in_provider a, in_style a, in_background a, in_size a, in_quality a}.
                 v = Absent \<or> (\<exists>x. v = StringArg x))
           \<and> (in_async a = Absent \<or> (\<exists>x. in_async a = BooleanArg x))))
   \<and> (schemaParse e (Object a) = Inr p \<longrightarrow>
        in_words a = StringArg (words p)
      \<and> (in_provider a = Absent \<longrightarrow> provider p = js ''dalle3'')
      \<and> (in_provider a = StringArg x \<longrightarrow> provider p = x)
      \<and> (in_async a = Absent \<longrightarrow> async p)
      \<and> (in_async a = BooleanArg y \<longrightarrow> async p = y))
   \<and> (schemaParse e inp = Inr p \<and> makeWordList (words p) = [] \<longrightarrow>
        generateImages e c inp evs w = (Some (Inl noValidWords), w)
      \<and> generateImagesAsync e c inp w = (Inl noValidWords, w)
      \<and> generateImagesSync e c inp evs = Some (Inl noValidWords))
   \<and> (schemaParse e inp = Inr p \<and> makeWordList (words p) \<noteq> []
        \<and> fst (generateImages e c inp evs w) = Some (Inl err) \<longrightarrow>
        mkdirImageDir c = Some err \<or> mkdirJobsDir c = Some err)
   \<and> (schemaParse e inp = Inr p \<and> makeWordList (words p) \<noteq> []
        \<and> accessImageDir c = None \<and> accessJobsDir c = None \<longrightarrow>
        (\<forall>err'. fst (generateImages e c inp evs w) \<noteq> Some (Inl err')))
   \<and> (schemaParse e inp = Inl err \<longrightarrow>
        err = ZodError e inp \<and> err_name err = js ''ZodError'' \<and> err \<noteq> noValidWords
      \<and> generateImages e c inp evs w = (Some (Inl err), w)
      \<and> generateImagesAsync e c inp w = (Inl err, w)
      \<and> generateImagesSync e c inp evs = Some (Inl err))"
proof -
  have k1: "makeWordList ws = [] \<longleftrightarrow> (\<forall>ch\<in>set ws. ch = 0x2C \<or> isWhiteSpace ch)"
    by (rule makeWordList_Nil_iff)
  note k2 = schemaParse_accepts[of e inp]
  have k3: "schemaParse e (Object a) = Inr p \<longrightarrow>
        in_words a = StringArg (words p)
      \<and> (in_provider a = Absent \<longrightarrow> provider p = js ''dalle3'')
      \<and> (in_provider a = StringArg x \<longrightarrow> provider p = x)
      \<and> (in_async a = Absent \<longrightarrow> async p)
      \<and> (in_async a = BooleanArg y \<longrightarrow> async p = y)"
    using schemaParse_fields[of e a p x y] by blast
  have k4: "schemaParse e inp = Inr p \<and> makeWordList (words p) = [] \<longrightarrow>
        generateImages e c inp evs w = (Some (Inl noValidWords), w)
      \<and> generateImagesAsync e c inp w = (Inl noValidWords, w)
      \<and> generateImagesSync e c inp evs = Some (Inl noValidWords)"
    using generateImages_empty[of e inp p c evs w] generateImagesAsync_empty[of e inp p c w]
      generateImagesSync_empty[of e inp p c evs]
    by blast
  have k5: "schemaParse e inp = Inr p \<and> makeWordList (words p) \<noteq> []
        \<and> fst (generateImages e c inp evs w) = Some (Inl err) \<longrightarrow>
        mkdirImageDir c = Some err \<or> mkdirJobsDir c = Some err"
    using generateImages_errors[of e inp p c evs w err] by blast
  have k6: "schemaParse e inp = Inr p \<and> makeWordList (words p) \<noteq> []
        \<and> accessImageDir c = None \<and> accessJobsDir c = None \<longrightarrow>
        (\<forall>err'. fst (generateImages e c inp evs w) \<noteq> Some (Inl err'))"
    using generateImages_accessible[of e inp p c evs w] by blast
  have k7: "schemaParse e inp = Inl err \<longrightarrow>
        err = ZodError e inp \<and> err_name err = js ''ZodError'' \<and> err \<noteq> noValidWords
      \<and> generateImages e c inp evs w = (Some (Inl err), w)
      \<and> generateImagesAsync e c inp w = (Inl err, w)
      \<and> generateImagesSync e c inp evs = Some (Inl err)"
  proof
    assume r: "schemaParse e inp = Inl err"
    then have "err = ZodError e inp" by (rule schemaParse_error)
    with ZodError_name[of e inp] generateImages_rejected[OF r, of c evs w]
    show "err = ZodError e inp \<and> err_name err = js ''ZodError'' \<and> err \<noteq> noValidWords
      \<and> generateImages e c inp evs w = (Some (Inl err), w)
      \<and> generateImagesAsync e c inp w = (Inl err, w)
      \<and> generateImagesSync e c inp evs = Some (Inl err)"
      by simp
  qed
  show ?thesis by (intro conjI k1 k2 k3 k4 k5 k6 k7)
qed

text \<open>
  Claim C10. When the schema accepts the input and the word list is empty,
  \<^verbatim>\<open>generateImagesAsync\<close> throws the validation error and the registry, with the
  runners of its jobs, is exactly as before; so it is whenever
  \<^verbatim>\<open>generateImagesAsync\<close> throws, for any input, and whenever
  \<^verbatim>\<open>generateImages\<close> throws. Only a call that returns a job identifier adds an
  entry, under that identifier.
\<close>

theorem validation_is_atomic:
  "(schemaParse e inp = Inr p \<and> makeWordList (words p) = [] \<longrightarrow>
        generateImagesAsync e c inp w = (Inl noValidWords, w)
      \<and> (async p \<longrightarrow> generateImages e c inp evs w = (Some (Inl noValidWords), w)))
   \<and> (fst (generateImagesAsync e c inp w) = Inl err \<longrightarrow> snd (generateImagesAsync e c inp w) = w)
   \<and> (fst (generateImages e c inp evs w) = Some (Inl err) \<longrightarrow> snd (generateImages e c inp evs w) = w)
   \<and> (fst (generateImagesAsync e c inp w) = Inr resp \<longrightarrow>
        (\<exists>t r. snd (generateImagesAsync e c inp w) = w\<lparr>activeJobs := (activeJobs w)(resp_jobId resp \<mapsto> (t, r))\<rparr>))"
proof -
  have k1: "schemaParse e inp = Inr p \<and> makeWordList (words p) = [] \<longrightarrow>
        generateImagesAsync e c inp w = (Inl noValidWords, w)
      \<and> (async p \<longrightarrow> generateImages e c inp evs w = (Some (Inl noValidWords), w))"
    using generateImages_empty[of e inp p c evs w] generateImagesAsync_empty[of e inp p c w]
    by blast
  have k2: "fst (generateImagesAsync e c inp w) = Inl err \<longrightarrow> snd (generateImagesAsync e c inp w) = w"
    using generateImagesAsync_throws[of e c inp w err] by blast
  have k3: "fst (generateImages e c inp evs w) = Some (Inl err) \<longrightarrow> snd (generateImages e c inp evs w) = w"
  proof
    assume a: "fst (generateImages e c inp evs w) = Some (Inl err)"
    show "snd (generateImages e c inp evs w) = w"
    proof (cases "schemaParse e inp")
      case (Inl x)
      then show ?thesis by (simp add: generateImages_def)
    next
      case (Inr opts)
      show ?thesis
      proof (cases "async opts")
        case True
        with a Inr have "fst (generateImagesAsync e c inp w) = Inl err"
          by (auto simp: generateImages_def split: prod.splits sum.splits)
        then have "snd (generateImagesAsync e c inp w) = w" by (rule generateImagesAsync_throws)
        with True Inr show ?thesis
          by (auto simp: generateImages_def split: prod.splits sum.splits)
      next
        case False
        with Inr show ?thesis
          by (auto simp: generateImages_def split: option.splits sum.splits)
      qed
    qed
  qed
  have k4: "fst (generateImagesAsync e c inp w) = Inr resp \<longrightarrow>
        (\<exists>t r. snd (generateImagesAsync e c inp w) = w\<lparr>activeJobs := (activeJobs w)(resp_jobId resp \<mapsto> (t, r))\<rparr>)"
  proof
    assume a: "fst (generateImagesAsync e c inp w) = Inr resp"
    then obtain opts where o: "schemaParse e inp = Inr opts"
      by (cases "schemaParse e inp") (auto simp: generateImagesAsync_def)
    let ?t = "makeTask e c opts (makeWordList (words opts))"
    from a o have "resp_jobId resp = jobId ?t
      \<and> snd (generateImagesAsync e c inp w)
          = w\<lparr>activeJobs := (activeJobs w)(jobId ?t \<mapsto> (?t, runToAwait e ?t (initial ?t (isoStart c))))\<rparr>"
      by (auto simp: generateImagesAsync_def Let_def split: option.splits if_splits)
    then show "\<exists>t r. snd (generateImagesAsync e c inp w) = w\<lparr>activeJobs := (activeJobs w)(resp_jobId resp \<mapsto> (t, r))\<rparr>"
      by metis
  qed
  show ?thesis by (intro conjI k1 k2 k3 k4)
qed

text \<open>
  Claim C8. \<^verbatim>\<open>checkStatus\<close> throws (\<^verbatim>\<open>Job not found\<close>) exactly when the
  identifier is not in the registry, and leaves the registry as it is. For a registered
  job the response projects the record; the results, the success count (entries with a
  non-empty \<^verbatim>\<open>url\<close>) and the failure count (the other entries) are in it exactly
  when \<^verbatim>\<open>status\<close> is Completed.
\<close>

theorem checkStatus_projection:
  "(isl (fst (checkStatus jid w)) \<longleftrightarrow> activeJobs w jid = None)
   \<and> (activeJobs w jid = None \<longrightarrow>
        fst (checkStatus jid w) = Inl (Error (js ''Job not found: '' @ jid)))
   \<and> snd (checkStatus jid w) = w
   \<and> (activeJobs w jid = Some (t, r) \<longrightarrow>
        fst (checkStatus jid w) = Inr (statusView (job r))
      \<and> view_jobId (statusView (job r)) = id' (job r)
      \<and> view_status (statusView (job r)) = status (job r)
      \<and> view_totalWords (statusView (job r)) = totalWords (job r)
      \<and> view_completedWords (statusView (job r)) = completedWords (job r)
      \<and> view_startTime (statusView (job r)) = startTime (job r)
      \<and> (if status (job r) = Completed
          then view_results (statusView (job r)) = Some (results (job r))
             \<and> view_successCount (statusView (job r))
                 = Some (length (filter (\<lambda>x. url x \<noteq> []) (results (job r))))
             \<and> view_failureCount (statusView (job r))
                 = Some (length (results (job r)) - length (filter (\<lambda>x. url x \<noteq> []) (results (job r))))
          else view_results (statusView (job r)) = None
             \<and> view_successCount (statusView (job r)) = None
             \<and> view_failureCount (statusView (job r)) = None))"
proof -
  have "length (filter (\<lambda>x. \<not> url x \<noteq> []) xs) = length xs - length (filter (\<lambda>x. url x \<noteq> []) xs)"
    for xs :: "item_result list"
    using sum_length_filter_compl[of "\<lambda>x. url x \<noteq> []" xs] by simp
  then show ?thesis
    by (auto simp: checkStatus_def statusView_def split: option.splits)
qed

lemma styles_ghibli: "map_of styles (js ''ghibli'') = None"
  by (simp add: styles_def js_def)

text \<open>
  Claim C6, on the code: the fallback key \<^verbatim>\<open>ghibli\<close> is not in the style table. For
  a style that is neither in the table nor a member of \<^verbatim>\<open>Object.prototype\<close> the
  style descriptor is \<^verbatim>\<open>undefined\<close>, and the prompt holds the text
  \<^verbatim>\<open>undefined\<close> in its place.
\<close>

theorem unknown_style_prompt:
  "map_of styles (js ''ghibli'') = None
   \<and> (map_of styles st = None \<and> proto' st = None \<and> proto' (js ''ghibli'') = None \<longrightarrow>
        stylePrompt proto' st = Undefined
      \<and> buildPrompt proto' wd st bg = bg @ js '' background, undefined, '' @ wd)"
proof -
  have u: "stylePrompt proto' st = Undefined"
    if "map_of styles st = None" "proto' st = None" "proto' (js ''ghibli'') = None"
    using that styles_ghibli by (simp add: stylePrompt_def getProperty_def truthy_def)
  have "buildPrompt proto' wd st bg = bg @ js '' background, undefined, '' @ wd"
    if "stylePrompt proto' st = Undefined"
    using that by (simp add: buildPrompt_def toString_def js_def)
  with u styles_ghibli show ?thesis by blast
qed

lemma onEvents_ignored:
  "deliver e ev s = None \<Longrightarrow> onEvents e t (replicate k ev) s = s"
  by (induction k) (simp_all add: onEvent_def)

lemma filenameOf_same_batch:
  "filenameOf t w1 = filenameOf t w2 \<longleftrightarrow> sanitizeFilename w1 = sanitizeFilename w2"
  by (simp add: filenameOf_def)

lemma filenameOf_same_word:
  "filenameOf t1 w = filenameOf t2 w \<longleftrightarrow> timestamp t1 = timestamp t2"
  by (simp add: filenameOf_def)

lemma inv_entry:
  "inv e t s \<Longrightarrow> k < length (results (job s)) \<Longrightarrow> entryOk e t (results (job s) ! k) (wordList t ! k)"
proof -
  assume i: "inv e t s" and k: "k < length (results (job s))"
  from i obtain m c where d: "done_upto e t (job s) m c" by (auto dest: inv_done_upto)
  then have l: "list_all2 (entryOk e t) (results (job s)) (take m (wordList t))"
    and m: "length (results (job s)) = m"
    by (auto simp: done_upto_def dest: list_all2_lengthD)
  from l k have "entryOk e t (results (job s) ! k) (take m (wordList t) ! k)"
    by (rule list_all2_nthD)
  with k m show ?thesis by simp
qed

text \<open>
  Claim C5, amended. The file name of an item is its sanitized word, an underscore, the
  timestamp of the batch and \<^verbatim>\<open>.png\<close>. Within one batch two items have the same
  file name exactly when their sanitized words are equal; the same word has the same
  file name in two batches exactly when the two batch timestamps are equal. Every
  success entry of a job carries the file name of its word, and its \<^verbatim>\<open>url\<close> is
  that file in the image directory.
\<close>

theorem filename_scheme:
  "filenameOf t w = sanitizeFilename w @ js ''_'' @ timestamp t @ js ''.png''
   \<and> (filenameOf t w1 = filenameOf t w2 \<longleftrightarrow> sanitizeFilename w1 = sanitizeFilename w2)
   \<and> (filenameOf t w = filenameOf t2 w \<longleftrightarrow> timestamp t = timestamp t2)
   \<and> (reach e t start s \<and> k < length (results (job s)) \<and> url (results (job s) ! k) \<noteq> [] \<longrightarrow>
        filename (results (job s) ! k) = filenameOf t (wordList t ! k)
      \<and> url (results (job s) ! k) = js ''file://'' @ imageDir (cfg e) @ js ''/'' @ filenameOf t (wordList t ! k))"
proof -
  have "filename (results (job s) ! k) = filenameOf t (wordList t ! k)
      \<and> url (results (job s) ! k) = js ''file://'' @ imageDir (cfg e) @ js ''/'' @ filenameOf t (wordList t ! k)"
    if "reach e t start s" "k < length (results (job s))" "url (results (job s) ! k) \<noteq> []"
  proof -
    from that(1,2) have "entryOk e t (results (job s) ! k) (wordList t ! k)"
      by (auto dest: reach_inv inv_entry)
    with that(3) have "results (job s) ! k = successResult e t (wordList t ! k)"
      by (auto simp: entryOk_def failureResult_def)
    then show ?thesis by (simp add: successResult_def filepathOf_def)
  qed
  then show ?thesis
    using filenameOf_same_batch[of t w1 w2] filenameOf_same_word[of t w t2]
    by (simp add: filenameOf_def)
qed

text \<open>
  The size string and the synchronous Stability branch: \<^verbatim>\<open>width\<close> is always a
  number; \<^verbatim>\<open>height\<close> is \<^verbatim>\<open>undefined\<close> exactly when the size string holds
  no \<^verbatim>\<open>x\<close>, and then each item of a synchronous Stability batch fails with the
  TypeError of \<^verbatim>\<open>height.toString()\<close> before any request is made.
\<close>

lemma split_on_length: "length (split_on sep s) = Suc (length (filter (\<lambda>c. c = sep) s))"
proof (induction s)
  case Nil
  then show ?case by simp
next
  case (Cons x xs)
  obtain p ps where "split_on sep xs = p # ps"
    using split_on_not_Nil[of sep xs] by (cases "split_on sep xs") auto
  with Cons show ?case by auto
qed

lemma parseDims_width: "fst (parseDims e sz) \<noteq> None"
  by (simp add: parseDims_def element_def Let_def split_on_not_Nil)

lemma parseDims_height: "snd (parseDims e sz) = None \<longleftrightarrow> 0x78 \<notin> set sz"
  by (auto simp: parseDims_def element_def Let_def split_on_length filter_empty_conv)

lemma sync_stability_size:
  "toLowerCase (provider opts) = js ''stability'' \<Longrightarrow> \<not> missing (stability_apiKey (cfg e))
   \<Longrightarrow> 0x78 \<notin> set (size' opts)
   \<Longrightarrow> syncSwitch e (makeBatch e c opts) = SyncThrow (TypeError (toStringOfUndefined e))"
  by (simp add: syncSwitch_def makeBatch_def Let_def parseDims_height js_def)

section \<open>The example run, evaluated\<close>

lemma example_switch: "switch exampleEnv exampleTask = Next StabPostForm"
  by (simp add: switch_def exampleTask_def toLowerCase_def lowerChar_def js_def exampleEnv_def missing_def)

lemma example_wordList: "wordList exampleTask = [js ''cat'', js ''dog'']"
  by (simp add: exampleTask_def)

lemma example_first:
  "exampleFirst =
     \<lparr>job = (newJob exampleTask exampleStart)\<lparr>status := Generating, currentWord := Some (js ''cat'')\<rparr>,
      pc = Await 0 (js ''cat'') StabPostForm\<rparr>"
  by (simp add: exampleFirst_def runToAwait.simps micro_def initial_def example_switch example_wordList)

lemma example_second:
  "exampleSecond =
     \<lparr>job = (newJob exampleTask exampleStart)\<lparr>status := Generating, currentWord := Some (js ''dog''),
              results := [failureResult (js ''cat'') networkError], completedWords := 1\<rparr>,
      pc = Await 1 (js ''dog'') StabPostForm\<rparr>"
  by (simp add: exampleSecond_def example_first onEvent_def deliver_def replyOf_def resume_def
      stabilityCatch_def networkError_def js_def
      runToAwait.simps micro_def example_switch example_wordList newJob_def)

lemma example_last:
  "exampleLast =
     \<lparr>job = (newJob exampleTask exampleStart)\<lparr>status := Completed, currentWord := None,
              results := [failureResult (js ''cat'') networkError, successResult exampleEnv exampleTask (js ''dog'')],
              completedWords := 2, endTime := Some (js ''2026-01-01T00:01:00.000Z'')\<rparr>,
      pc = Returned\<rparr>"
  by (simp add: exampleLast_def example_second onEvent_def deliver_def replyOf_def resume_def
      runToAwait.simps micro_def example_switch example_wordList newJob_def exampleTask_def)

lemmas example_eval = onEvent_def deliver_def replyOf_def resume_def runToAwait.simps micro_def
  example_switch example_wordList

lemma example_parse: "schemaParse exampleEnv exampleInput = Inr exampleParsed"
  by (simp add: schemaParse_def exampleInput_def exampleArguments_def exampleParsed_def
      zString_def zStringDefault_def zBooleanDefault_def)

lemma example_makeWordList: "makeWordList (words exampleParsed) = [js ''cat'', js ''dog'']"
  by (simp add: makeWordList_def exampleParsed_def js_def trim_def isWhiteSpace_def)

lemma example_dims:
  "parseDims exampleEnv (size' exampleParsed) = (Some (Integer 1024), Some (Integer 1024))"
  by (simp add: parseDims_def element_def exampleEnv_def exampleParsed_def js_def)

lemma example_makeTask:
  "makeTask exampleEnv exampleCall exampleParsed [js ''cat'', js ''dog''] = exampleTask"
  by (simp add: makeTask_def example_dims)
    (simp add: exampleTask_def exampleCall_def exampleParsed_def makeTimestamp_def showNat.simps js_def)

lemma example_call:
  "ensureDirectory (accessImageDir exampleCall) (mkdirImageDir exampleCall) = None"
  "ensureDirectory (accessJobsDir exampleCall) (mkdirJobsDir exampleCall) = None"
  "isoStart exampleCall = exampleStart"
  "async exampleParsed"
  by (simp_all add: exampleCall_def ensureDirectory_def exampleStart_def exampleParsed_def)

lemma example_async:
  "generateImagesAsync exampleEnv exampleCall exampleInput \<lparr>activeJobs = Map.empty\<rparr>
     = (Inr exampleResponse, \<lparr>activeJobs = [jobId exampleTask \<mapsto> (exampleTask, exampleFirst)]\<rparr>)"
proof -
  show ?thesis
    by (simp add: generateImagesAsync_def example_parse example_makeWordList example_makeTask
        example_call exampleFirst_def Let_def)
      (simp add: exampleResponse_def exampleTask_def exampleParsed_def showNat.simps js_def)
qed

lemma example_world:
  "exampleWorld = \<lparr>activeJobs = [jobId exampleTask \<mapsto> (exampleTask, exampleFirst)]\<rparr>"
  by (simp add: exampleWorld_def generateImages_def example_parse example_call example_async)

lemma example_reach_first: "reach exampleEnv exampleTask exampleStart exampleFirst"
  unfolding exampleFirst_def by (intro reach_runToAwait reach_initial)

lemma example_reach_second: "reach exampleEnv exampleTask exampleStart exampleSecond"
  unfolding exampleSecond_def by (intro reach_onEvent example_reach_first)

theorem completedWords_tracks_results_witness:
  "reach exampleEnv exampleTask exampleStart exampleSecond \<and> observable exampleSecond
   \<and> completedWords (job exampleSecond) = 1 \<and> length (results (job exampleSecond)) = 1
   \<and> totalWords (job exampleSecond) = 2
   \<and> move exampleEnv exampleTask exampleSecond (exampleSecond\<lparr>pc := Catch 1 (js ''dog'') networkError\<rparr>)
   \<and> completedWords (job exampleSecond)
       \<le> completedWords (job (exampleSecond\<lparr>pc := Catch 1 (js ''dog'') networkError\<rparr>))
   \<and> serverReach exampleEnv exampleWorld
   \<and> activeJobs exampleWorld (jobId exampleTask) = Some (exampleTask, exampleFirst)
   \<and> completedWords (job exampleFirst) = 0
   \<and> completedWords (job (onEvent exampleEnv exampleTask (Settled (Rejected networkError)) exampleFirst)) = 1"
proof -
  have obs: "observable exampleSecond" by (simp add: example_second observable_def)
  have mv: "move exampleEnv exampleTask exampleSecond (exampleSecond\<lparr>pc := Catch 1 (js ''dog'') networkError\<rparr>)"
    unfolding move_def
    by (rule disjI2, rule exI[of _ "Settled (Rejected networkError)"])
      (simp add: example_second deliver_def replyOf_def resume_def stabilityCatch_def networkError_def js_def)
  have srv: "serverReach exampleEnv exampleWorld"
    unfolding exampleWorld_def by (intro server_generate server_start)
  have reg: "activeJobs exampleWorld (jobId exampleTask) = Some (exampleTask, exampleFirst)"
    by (simp add: example_world)
  have vals: "completedWords (job exampleSecond) = 1" "totalWords (job exampleSecond) = 2"
    "length (results (job exampleSecond)) = 1" "completedWords (job exampleFirst) = 0"
    by (simp_all add: example_second example_first newJob_def example_wordList)
  have ev: "onEvent exampleEnv exampleTask (Settled (Rejected networkError)) exampleFirst = exampleSecond"
    by (simp add: exampleSecond_def)
  from completedWords_tracks_results[of exampleEnv exampleTask exampleStart exampleSecond
      "exampleSecond\<lparr>pc := Catch 1 (js ''dog'') networkError\<rparr>" exampleWorld "jobId exampleTask"
      exampleFirst "Settled (Rejected networkError)"]
    example_reach_second obs mv srv reg vals ev
  show ?thesis by simp
qed

text \<open>
  The statements of the example run after the second image is written, up to the
  assignment of Completed.
\<close>

lemma example_third:
  "onEvent exampleEnv exampleTask (Settled (AxiosResponse 200 [0x89, 0x50])) exampleSecond
     = exampleSecond\<lparr>pc := Await 1 (js ''dog'') (StabWriteFile [0x89, 0x50])\<rparr>"
  by (simp add: example_second example_eval)

lemma example_closing_reach: "reach exampleEnv exampleTask exampleStart exampleClosing"
proof -
  have "reach exampleEnv exampleTask exampleStart
      (exampleSecond\<lparr>pc := Await 1 (js ''dog'') (StabWriteFile [0x89, 0x50])\<rparr>)"
    using reach_onEvent[OF example_reach_second, of "Settled (AxiosResponse 200 [0x89, 0x50])"]
    by (simp add: example_third)
  moreover have "deliver exampleEnv (Settled Written)
      (exampleSecond\<lparr>pc := Await 1 (js ''dog'') (StabWriteFile [0x89, 0x50])\<rparr>)
      = Some (exampleSecond\<lparr>pc := PushSuccess 1 (js ''dog'')\<rparr>)"
    by (simp add: deliver_def replyOf_def resume_def)
  ultimately have "reach exampleEnv exampleTask exampleStart (exampleSecond\<lparr>pc := PushSuccess 1 (js ''dog'')\<rparr>)"
    by (rule reach_deliver)
  moreover have "micros exampleEnv exampleTask 3 (exampleSecond\<lparr>pc := PushSuccess 1 (js ''dog'')\<rparr>)
      = Some exampleClosing"
    by (simp add: numeral_3_eq_3 micro_def example_second example_wordList exampleClosing_def)
  ultimately show ?thesis by (rule reach_micros)
qed

lemma example_last_reach: "reach exampleEnv exampleTask exampleStart exampleLast"
proof -
  have "reach exampleEnv exampleTask exampleStart
      (onEvents exampleEnv exampleTask [Settled (AxiosResponse 200 [0x89, 0x50]), Settled Written] exampleSecond)"
    by (simp add: reach_onEvent example_reach_second)
  then show ?thesis by (simp add: exampleLast_def)
qed

lemma server_events_single:
  "serverReach e \<lparr>activeJobs = [jid \<mapsto> (t, r)]\<rparr>
   \<Longrightarrow> serverReach e \<lparr>activeJobs = [jid \<mapsto> (t, onEvents e t evs r)]\<rparr>"
proof (induction evs arbitrary: r)
  case Nil
  then show ?case by simp
next
  case (Cons ev evs)
  have p: "activeJobs \<lparr>activeJobs = [jid \<mapsto> (t, r)]\<rparr> jid = Some (t, r)" by simp
  have q: "\<lparr>activeJobs = [jid \<mapsto> (t, r)]\<rparr>
      \<lparr>activeJobs := (activeJobs \<lparr>activeJobs = [jid \<mapsto> (t, r)]\<rparr>)(jid \<mapsto> (t, onEvent e t ev r))\<rparr>
      = \<lparr>activeJobs = [jid \<mapsto> (t, onEvent e t ev r)]\<rparr>" by simp
  from server_event[OF Cons.prems p, of ev]
  have "serverReach e \<lparr>activeJobs = [jid \<mapsto> (t, onEvent e t ev r)]\<rparr>" by (simp only: q)
  then have "serverReach e \<lparr>activeJobs = [jid \<mapsto> (t, onEvents e t evs (onEvent e t ev r))]\<rparr>"
    by (rule Cons.IH)
  then show ?case by (simp only: onEvents.simps)
qed

lemma example_server: "serverReach exampleEnv exampleWorld"
  unfolding exampleWorld_def by (intro server_generate server_start)

lemma example_completed_server: "serverReach exampleEnv completedWorld"
proof -
  have "serverReach exampleEnv \<lparr>activeJobs = [jobId exampleTask \<mapsto> (exampleTask, exampleFirst)]\<rparr>"
    using example_server by (simp add: example_world)
  then have "serverReach exampleEnv \<lparr>activeJobs = [jobId exampleTask \<mapsto> (exampleTask,
      onEvents exampleEnv exampleTask
        [Settled (Rejected networkError), Settled (AxiosResponse 200 [0x89, 0x50]), Settled Written]
        exampleFirst)]\<rparr>"
    by (rule server_events_single)
  then show ?thesis by (simp add: completedWorld_def exampleLast_def exampleSecond_def)
qed

text \<open>
  Between two \<^verbatim>\<open>await\<close>s the counter lags behind: after the push of the failure
  entry and before the assignment of \<^verbatim>\<open>completedWords\<close> the record has one entry
  and the counter is 0. No other code runs in that state.
\<close>

lemma example_counter_lags:
  "reach exampleEnv exampleTask exampleStart
     (exampleFirst\<lparr>job := (job exampleFirst)\<lparr>results := [failureResult (js ''cat'') networkError]\<rparr>,
                   pc := SetCompletedWords 0\<rparr>)
   \<and> \<not> observable (exampleFirst\<lparr>job := (job exampleFirst)\<lparr>results := [failureResult (js ''cat'') networkError]\<rparr>,
                   pc := SetCompletedWords 0\<rparr>)
   \<and> completedWords (job (exampleFirst\<lparr>job := (job exampleFirst)\<lparr>results := [failureResult (js ''cat'') networkError]\<rparr>,
                   pc := SetCompletedWords 0\<rparr>)) = 0
   \<and> length (results (job (exampleFirst\<lparr>job := (job exampleFirst)\<lparr>results := [failureResult (js ''cat'') networkError]\<rparr>,
                   pc := SetCompletedWords 0\<rparr>))) = 1"
proof -
  have d: "deliver exampleEnv (Settled (Rejected networkError)) exampleFirst
      = Some (exampleFirst\<lparr>pc := Catch 0 (js ''cat'') networkError\<rparr>)"
    by (simp add: example_first deliver_def replyOf_def resume_def stabilityCatch_def networkError_def js_def)
  have m: "micro exampleEnv exampleTask (exampleFirst\<lparr>pc := Catch 0 (js ''cat'') networkError\<rparr>)
      = Some (exampleFirst\<lparr>job := (job exampleFirst)\<lparr>results := [failureResult (js ''cat'') networkError]\<rparr>,
                   pc := SetCompletedWords 0\<rparr>)"
    by (simp add: micro_def example_first newJob_def)
  from reach_micro[OF reach_deliver[OF example_reach_first d] m]
  show ?thesis by (simp add: observable_def example_first newJob_def)
qed

theorem status_lifecycle_witness:
  "reach exampleEnv exampleTask exampleStart exampleClosing \<and> wordList exampleTask \<noteq> []
   \<and> pc exampleClosing = SetStatusCompleted
   \<and> move exampleEnv exampleTask exampleClosing
        (exampleClosing\<lparr>job := (job exampleClosing)\<lparr>status := Completed\<rparr>, pc := SetEndTime\<rparr>)
   \<and> status (job exampleClosing) = Generating
   \<and> micros exampleEnv exampleTask 3 exampleClosing = Some exampleLast
   \<and> reach exampleEnv exampleTask exampleStart exampleLast \<and> observable exampleLast
   \<and> status (job exampleLast) = Completed
   \<and> completedWords (job exampleLast) = totalWords (job exampleLast)
   \<and> endTime (job exampleLast) = Some (endClock exampleTask)
   \<and> currentWord (job exampleLast) = None
   \<and> reach exampleEnv exampleTask exampleStart exampleSecond \<and> observable exampleSecond
   \<and> status (job exampleSecond) = Generating
   \<and> completedWords (job exampleSecond) \<noteq> totalWords (job exampleSecond)
   \<and> endTime (job exampleSecond) = None
   \<and> serverReach exampleEnv completedWorld
   \<and> activeJobs completedWorld (jobId exampleTask) = Some (exampleTask, exampleLast)
   \<and> onEvent exampleEnv exampleTask TimerFired exampleLast = exampleLast"
proof -
  have ne: "wordList exampleTask \<noteq> []" by (simp add: example_wordList)
  have mv: "move exampleEnv exampleTask exampleClosing
        (exampleClosing\<lparr>job := (job exampleClosing)\<lparr>status := Completed\<rparr>, pc := SetEndTime\<rparr>)"
    by (simp add: move_def micro_def exampleClosing_def)
  have last: "exampleClosing\<lparr>job := (job exampleClosing)\<lparr>status := Completed,
        endTime := Some (endClock exampleTask), currentWord := None\<rparr>, pc := Returned\<rparr> = exampleLast"
    by (simp add: exampleClosing_def example_last example_second newJob_def exampleTask_def)
  have vals: "pc exampleClosing = SetStatusCompleted" "status (job exampleClosing) = Generating"
    "observable exampleLast" "status (job exampleLast) = Completed"
    "observable exampleSecond" "status (job exampleSecond) = Generating"
    "completedWords (job exampleSecond) \<noteq> totalWords (job exampleSecond)"
    "endTime (job exampleSecond) = None"
    by (simp_all add: exampleClosing_def example_second example_last observable_def newJob_def
        example_wordList)
  have et: "endTime (job exampleLast) = Some (endClock exampleTask)"
    by (simp add: example_last exampleTask_def)
  note srv = example_completed_server
  have reg: "activeJobs completedWorld (jobId exampleTask) = Some (exampleTask, exampleLast)"
    by (simp add: completedWorld_def)
  note a = status_lifecycle[where e=exampleEnv and t=exampleTask and start=exampleStart
      and s=exampleClosing
      and s'="exampleClosing\<lparr>job := (job exampleClosing)\<lparr>status := Completed\<rparr>, pc := SetEndTime\<rparr>"]
  note b = status_lifecycle[where e=exampleEnv and t=exampleTask and start=exampleStart
      and s=exampleLast]
  note c = status_lifecycle[where e=exampleEnv and t=exampleTask and start=exampleStart
      and s=exampleSecond]
  note d = status_lifecycle[where e=exampleEnv and t=exampleTask and w=completedWorld
      and jid="jobId exampleTask" and r=exampleLast and ev=TimerFired]
  have w4: "micros exampleEnv exampleTask 3 exampleClosing = Some exampleLast"
    using a[THEN conjunct2, THEN conjunct2, THEN conjunct2, THEN conjunct1] vals(1) last by simp
  have w2: "completedWords (job exampleLast) = totalWords (job exampleLast)
      \<and> currentWord (job exampleLast) = None"
    using b[THEN conjunct2, THEN conjunct1] example_last_reach ne vals by simp
  have w5: "onEvent exampleEnv exampleTask TimerFired exampleLast = exampleLast"
    using d[THEN conjunct2, THEN conjunct2, THEN conjunct2, THEN conjunct2] srv reg vals by simp
  from w4 w2 w5 et example_closing_reach example_last_reach example_reach_second ne mv vals srv reg
  show ?thesis by simp
qed

theorem one_result_per_word_witness:
  "reach exampleEnv exampleTask exampleStart exampleLast \<and> status (job exampleLast) = Completed
   \<and> length (results (job exampleLast)) = 2
   \<and> map word (results (job exampleLast)) = [js ''cat'', js ''dog'']
   \<and> word (results (job exampleLast) ! 0) = wordList exampleTask ! 0
   \<and> word (results (job exampleLast) ! 1) = wordList exampleTask ! 1
   \<and> reach exampleEnv exampleTask exampleStart (exampleFirst\<lparr>pc := Catch 0 (js ''cat'') networkError\<rparr>)
   \<and> move exampleEnv exampleTask (exampleFirst\<lparr>pc := Catch 0 (js ''cat'') networkError\<rparr>)
        (exampleFirst\<lparr>job := (job exampleFirst)\<lparr>results := [failureResult (js ''cat'') networkError]\<rparr>,
                      pc := SetCompletedWords 0\<rparr>)
   \<and> serverReach exampleEnv completedWorld
   \<and> activeJobs completedWorld (jobId exampleTask) = Some (exampleTask, exampleLast)
   \<and> length (results (job exampleLast)) = totalWords (job exampleLast)"
proof -
  have st: "status (job exampleLast) = Completed" by (simp add: example_last)
  have reg: "activeJobs completedWorld (jobId exampleTask) = Some (exampleTask, exampleLast)"
    by (simp add: completedWorld_def)
  have d: "deliver exampleEnv (Settled (Rejected networkError)) exampleFirst
      = Some (exampleFirst\<lparr>pc := Catch 0 (js ''cat'') networkError\<rparr>)"
    by (simp add: example_first deliver_def replyOf_def resume_def stabilityCatch_def networkError_def js_def)
  have r: "reach exampleEnv exampleTask exampleStart (exampleFirst\<lparr>pc := Catch 0 (js ''cat'') networkError\<rparr>)"
    using example_reach_first d by (rule reach_deliver)
  have mv: "move exampleEnv exampleTask (exampleFirst\<lparr>pc := Catch 0 (js ''cat'') networkError\<rparr>)
        (exampleFirst\<lparr>job := (job exampleFirst)\<lparr>results := [failureResult (js ''cat'') networkError]\<rparr>,
                      pc := SetCompletedWords 0\<rparr>)"
    by (simp add: move_def micro_def example_first newJob_def)
  note a = one_result_per_word[where e=exampleEnv and t=exampleTask and start=exampleStart
      and s=exampleLast, THEN conjunct1]
  note b = one_result_per_word[where e=exampleEnv and t=exampleTask and start=exampleStart
      and s="exampleFirst\<lparr>pc := Catch 0 (js ''cat'') networkError\<rparr>"
      and s'="exampleFirst\<lparr>job := (job exampleFirst)\<lparr>results := [failureResult (js ''cat'') networkError]\<rparr>,
                      pc := SetCompletedWords 0\<rparr>", THEN conjunct1]
  have w1: "length (results (job exampleLast)) = length (wordList exampleTask)
      \<and> word (results (job exampleLast) ! 0) = wordList exampleTask ! 0
      \<and> word (results (job exampleLast) ! 1) = wordList exampleTask ! 1"
    using a example_last_reach st by (simp add: example_wordList)
  have w2: "map word (results (job exampleLast)) = [js ''cat'', js ''dog'']"
    using a example_last_reach w1 by (simp add: example_wordList)
  have w3: "length (results (job exampleLast)) = totalWords (job exampleLast)"
    using one_result_per_word[where e=exampleEnv and t=exampleTask and w=completedWorld
        and jid="jobId exampleTask" and r=exampleLast, THEN conjunct2]
      example_completed_server reg st by simp
  from w1 w2 w3 example_last_reach st r mv example_completed_server reg
  show ?thesis by (simp add: example_wordList)
qed

lemma dalle_switch: "switch exampleEnv dalleTask = Throw (Error (js ''Missing OPENAI_API_KEY''))"
  by (simp add: switch_def dalleTask_def exampleTask_def toLowerCase_def lowerChar_def js_def
      exampleEnv_def missing_def)

lemma example_script_run:
  "onEvents exampleEnv exampleTask exampleScript exampleFirst = exampleLast"
  "responsive exampleEnv exampleTask exampleScript exampleFirst"
proof -
  have a: "deliver exampleEnv (Settled (Rejected networkError)) exampleFirst \<noteq> None"
    by (simp add: example_first deliver_def replyOf_def resume_def)
  have b: "deliver exampleEnv (Settled (AxiosResponse 200 [0x89, 0x50])) exampleSecond \<noteq> None"
    by (simp add: example_second deliver_def replyOf_def resume_def)
  have c: "deliver exampleEnv (Settled Written)
      (exampleSecond\<lparr>pc := Await 1 (js ''dog'') (StabWriteFile [0x89, 0x50])\<rparr>) \<noteq> None"
    by (simp add: deliver_def replyOf_def resume_def)
  have l: "onEvent exampleEnv exampleTask (Settled Written)
      (exampleSecond\<lparr>pc := Await 1 (js ''dog'') (StabWriteFile [0x89, 0x50])\<rparr>) = exampleLast"
    using example_third by (simp add: exampleLast_def)
  have r: "pc exampleLast = Returned" by (simp add: example_last)
  have k: "onEvent exampleEnv exampleTask TimerFired exampleLast = exampleLast"
    by (simp add: onEvent_def deliver_def r)
  have f: "onEvent exampleEnv exampleTask (Settled (Rejected networkError)) exampleFirst = exampleSecond"
    by (simp add: exampleSecond_def)
  show "onEvents exampleEnv exampleTask exampleScript exampleFirst = exampleLast"
    by (simp only: exampleScript_def onEvents.simps f example_third l k)
  show "responsive exampleEnv exampleTask exampleScript exampleFirst"
    using a b c r by (simp only: exampleScript_def responsive.simps f example_third l k) simp
qed

lemma dalle_first:
  "dalleFirst =
     \<lparr>job = (newJob dalleTask exampleStart)\<lparr>status := Generating, currentWord := Some (js ''cat'')\<rparr>,
      pc = Await 0 (js ''cat'') DalleFetch\<rparr>"
proof -
  have sw: "switch dalleEnv dalleTask = Next DalleFetch"
    by (simp add: switch_def dalleTask_def exampleTask_def toLowerCase_def lowerChar_def js_def
        dalleEnv_def exampleEnv_def missing_def)
  have wl: "wordList dalleTask = [js ''cat'', js ''dog'']"
    by (simp add: dalleTask_def exampleTask_def)
  show ?thesis
    by (simp add: dalleFirst_def runToAwait.simps micro_def initial_def sw wl)
qed

lemma example_providers:
  "toLowerCase (provider exampleTask) = js ''stability''"
  "toLowerCase (provider dalleTask) = js ''dalle3''"
  "toLowerCase (provider otherTask) \<noteq> js ''dalle3''"
  "toLowerCase (provider otherTask) \<noteq> js ''dall-e-3''"
  "toLowerCase (provider otherTask) \<noteq> js ''stability''"
  "provider otherTask = js ''Midjourney''"
  by (simp_all add: exampleTask_def dalleTask_def otherTask_def toLowerCase_def lowerChar_def js_def)

lemma example_keys:
  "missing (stability_apiKey (cfg bareEnv))"
  "missing (dalle3_apiKey (cfg exampleEnv))"
  by (simp_all add: bareEnv_def exampleEnv_def missing_def)

lemma example_errors:
  "err_name networkError \<noteq> js ''AbortError''"
  "err_name (abortError exampleEnv) \<noteq> js ''AbortError''"
  "err_name (abortError abortEnv) = js ''AbortError''"
  "abortError exampleEnv = JsError (js ''CanceledError'') (js ''canceled'')"
  "quotaMessage \<noteq> []"
  by (simp_all add: networkError_def exampleEnv_def abortEnv_def quotaMessage_def js_def)

lemma example_messages:
  "js ''HTTP '' @ showNat 404 = js ''HTTP 404''"
  "js ''Stability API error '' @ showNat 500 @ js '': '' @ bufferToString exampleEnv []
     = js ''Stability API error 500: ''"
  "js ''Unsupported provider: '' @ js ''Midjourney'' = js ''Unsupported provider: Midjourney''"
  "js ''Failed to generate image for '' @ js ''cat'' @ js '': '' @ err_message networkError
     = js ''Failed to generate image for cat: socket hang up''"
  by (simp_all add: showNat.simps exampleEnv_def networkError_def js_def)

theorem failure_isolation_witness:
  "micro exampleEnv dalleTask (exampleFirst\<lparr>pc := Dispatch 0 (js ''cat'')\<rparr>)
        = Some (exampleFirst\<lparr>pc := Catch 0 (js ''cat'') (Error (js ''Missing OPENAI_API_KEY''))\<rparr>)
   \<and> switch bareEnv exampleTask = Throw (Error (js ''Missing STABILITY_API_KEY''))
   \<and> switch exampleEnv dalleTask = Throw (Error (js ''Missing OPENAI_API_KEY''))
   \<and> switch exampleEnv otherTask = Throw (Error (js ''Unsupported provider: Midjourney''))
   \<and> pc exampleFirst = Await 0 (js ''cat'') StabPostForm
   \<and> deliver exampleEnv (Settled (Rejected networkError)) exampleFirst
        = Some (exampleFirst\<lparr>pc := Catch 0 (js ''cat'') networkError\<rparr>)
   \<and> pc dalleFirst = Await 0 (js ''cat'') DalleFetch
   \<and> deliver dalleEnv (Settled (Rejected networkError)) dalleFirst
        = Some (dalleFirst\<lparr>pc := Catch 0 (js ''cat'') networkError\<rparr>)
   \<and> deliver dalleEnv (Settled (Rejected networkError))
          (dalleFirst\<lparr>pc := Await 0 (js ''cat'') (DalleErrJson 404)\<rparr>)
        = Some (dalleFirst\<lparr>pc := Catch 0 (js ''cat'') (Error (js ''HTTP 404''))\<rparr>)
   \<and> armed StabPostForm = Some 90000
   \<and> deliver exampleEnv TimerFired exampleFirst
        = Some (exampleFirst\<lparr>pc := Catch 0 (js ''cat'') (JsError (js ''CanceledError'') (js ''canceled''))\<rparr>)
   \<and> deliver abortEnv TimerFired exampleFirst
        = Some (exampleFirst\<lparr>pc := Catch 0 (js ''cat'')
                  (Error (js ''Stability API request timed out after 90 seconds''))\<rparr>)
   \<and> deliver dalleEnv (Settled (Response 404)) dalleFirst
        = Some (dalleFirst\<lparr>pc := Await 0 (js ''cat'') (DalleErrJson 404)\<rparr>)
   \<and> deliver dalleEnv (Settled (ErrorJson (Some quotaMessage)))
          (dalleFirst\<lparr>pc := Await 0 (js ''cat'') (DalleErrJson 404)\<rparr>)
        = Some (dalleFirst\<lparr>pc := Catch 0 (js ''cat'') (Error quotaMessage)\<rparr>)
   \<and> deliver dalleEnv (Settled (ErrorJson None))
          (dalleFirst\<lparr>pc := Await 0 (js ''cat'') (DalleErrJson 404)\<rparr>)
        = Some (dalleFirst\<lparr>pc := Catch 0 (js ''cat'') (Error (js ''HTTP 404''))\<rparr>)
   \<and> deliver dalleEnv (Settled (BadShape nullBodyError))
          (dalleFirst\<lparr>pc := Await 0 (js ''cat'') (DalleErrJson 404)\<rparr>)
        = Some (dalleFirst\<lparr>pc := Catch 0 (js ''cat'') nullBodyError\<rparr>)
   \<and> deliver dalleEnv (Settled (Response 403))
          (dalleFirst\<lparr>pc := Await 0 (js ''cat'') (DalleDownload (js ''https://cdn.example/cat.png''))\<rparr>)
        = Some (dalleFirst\<lparr>pc := Catch 0 (js ''cat'') (Error (js ''Download failed''))\<rparr>)
   \<and> deliver exampleEnv (Settled (AxiosResponse 500 [])) exampleFirst
        = Some (exampleFirst\<lparr>pc := Catch 0 (js ''cat'') (Error (js ''Stability API error 500: ''))\<rparr>)
   \<and> job (exampleFirst\<lparr>pc := Catch 0 (js ''cat'') networkError\<rparr>) = job exampleFirst
   \<and> reach exampleEnv exampleTask exampleStart (exampleFirst\<lparr>pc := Catch 0 (js ''cat'') networkError\<rparr>)
   \<and> micros exampleEnv exampleTask 5 (exampleFirst\<lparr>pc := Catch 0 (js ''cat'') networkError\<rparr>)
        = Some (exampleSecond\<lparr>pc := Dispatch 1 (js ''dog'')\<rparr>)
   \<and> alt (failureResult (js ''cat'') networkError) = js ''Failed to generate image for cat: socket hang up''
   \<and> reach exampleEnv exampleTask exampleStart exampleFirst
   \<and> onEvent exampleEnv exampleTask (Settled (Rejected networkError)) exampleFirst = exampleSecond
   \<and> results (job exampleSecond) ! 0 = failureResult (js ''cat'') networkError
   \<and> 0 < completedWords (job exampleSecond)
   \<and> observable exampleFirst \<and> responsive exampleEnv exampleTask exampleScript exampleFirst
   \<and> todo (length (wordList exampleTask)) (pc exampleFirst) \<le> length exampleScript
   \<and> pc (onEvents exampleEnv exampleTask exampleScript exampleFirst) = Returned
   \<and> map url (results (job (onEvents exampleEnv exampleTask exampleScript exampleFirst)))
        = [[], js ''file:///srv/generated-images/dog_2026-01-01T00-00-00-001Z.png'']"
proof -
  have p: "pc exampleFirst = Await 0 (js ''cat'') StabPostForm" by (simp add: example_first)
  have q: "pc dalleFirst = Await 0 (js ''cat'') DalleFetch" by (simp add: dalle_first)
  have w3: "switch exampleEnv dalleTask = Throw (Error (js ''Missing OPENAI_API_KEY''))"
    using failure_isolation[where t=dalleTask and e=exampleEnv,
        THEN conjunct2, THEN conjunct2, THEN conjunct1] example_providers example_keys
    by simp
  have w1: "micro exampleEnv dalleTask (exampleFirst\<lparr>pc := Dispatch 0 (js ''cat'')\<rparr>)
        = Some (exampleFirst\<lparr>pc := Catch 0 (js ''cat'') (Error (js ''Missing OPENAI_API_KEY''))\<rparr>)"
    using failure_isolation[where s="exampleFirst\<lparr>pc := Dispatch 0 (js ''cat'')\<rparr>"
        and i=0 and w="js ''cat''" and e=exampleEnv and t=dalleTask
        and err="Error (js ''Missing OPENAI_API_KEY'')",
        THEN conjunct1] w3
    by simp
  have w2: "switch bareEnv exampleTask = Throw (Error (js ''Missing STABILITY_API_KEY''))"
    using failure_isolation[where t=exampleTask and e=bareEnv,
        THEN conjunct2, THEN conjunct1] example_providers example_keys
    by simp
  have w4: "switch exampleEnv otherTask = Throw (Error (js ''Unsupported provider: Midjourney''))"
    using failure_isolation[where t=otherTask and e=exampleEnv,
        THEN conjunct2, THEN conjunct2, THEN conjunct2, THEN conjunct1] example_providers
    by (simp add: example_messages)
  have w5a: "deliver exampleEnv (Settled (Rejected networkError)) exampleFirst
        = Some (exampleFirst\<lparr>pc := Catch 0 (js ''cat'') networkError\<rparr>)"
    using failure_isolation[where s=exampleFirst and i=0 and w="js ''cat''" and a=StabPostForm
        and e=exampleEnv and err=networkError,
        THEN conjunct2, THEN conjunct2, THEN conjunct2, THEN conjunct2, THEN conjunct1] p example_errors
    by simp
  have w5b: "deliver dalleEnv (Settled (Rejected networkError)) dalleFirst
        = Some (dalleFirst\<lparr>pc := Catch 0 (js ''cat'') networkError\<rparr>)"
    using failure_isolation[where s=dalleFirst and i=0 and w="js ''cat''" and a=DalleFetch
        and e=dalleEnv and err=networkError,
        THEN conjunct2, THEN conjunct2, THEN conjunct2, THEN conjunct2, THEN conjunct1] q
    by simp
  have w5c: "deliver dalleEnv (Settled (Rejected networkError))
          (dalleFirst\<lparr>pc := Await 0 (js ''cat'') (DalleErrJson 404)\<rparr>)
        = Some (dalleFirst\<lparr>pc := Catch 0 (js ''cat'') (Error (js ''HTTP 404''))\<rparr>)"
    using failure_isolation[where s="dalleFirst\<lparr>pc := Await 0 (js ''cat'') (DalleErrJson 404)\<rparr>"
        and i=0 and w="js ''cat''" and a="DalleErrJson 404" and e=dalleEnv and err=networkError,
        THEN conjunct2, THEN conjunct2, THEN conjunct2, THEN conjunct2, THEN conjunct1]
    by (simp add: example_messages)
  have w6a: "armed StabPostForm = Some 90000
      \<and> deliver exampleEnv TimerFired exampleFirst
        = Some (exampleFirst\<lparr>pc := Catch 0 (js ''cat'') (JsError (js ''CanceledError'') (js ''canceled''))\<rparr>)"
    using failure_isolation[where s=exampleFirst and i=0 and w="js ''cat''" and a=StabPostForm
        and ms=90000 and e=exampleEnv,
        THEN conjunct2, THEN conjunct2, THEN conjunct2, THEN conjunct2, THEN conjunct2, THEN conjunct1] p example_errors
    by simp
  have w6b: "deliver abortEnv TimerFired exampleFirst
        = Some (exampleFirst\<lparr>pc := Catch 0 (js ''cat'')
                  (Error (js ''Stability API request timed out after 90 seconds''))\<rparr>)"
    using failure_isolation[where s=exampleFirst and i=0 and w="js ''cat''" and a=StabPostForm
        and ms=90000 and e=abortEnv,
        THEN conjunct2, THEN conjunct2, THEN conjunct2, THEN conjunct2, THEN conjunct2, THEN conjunct1] p example_errors
    by simp
  have w7: "deliver dalleEnv (Settled (Response 404)) dalleFirst
        = Some (dalleFirst\<lparr>pc := Await 0 (js ''cat'') (DalleErrJson 404)\<rparr>)"
    using failure_isolation[where s=dalleFirst and i=0 and w="js ''cat''" and st=404 and e=dalleEnv,
        THEN conjunct2, THEN conjunct2, THEN conjunct2, THEN conjunct2, THEN conjunct2, THEN conjunct2, THEN conjunct1] q
    by simp
  have w8: "deliver dalleEnv (Settled (ErrorJson (Some quotaMessage)))
          (dalleFirst\<lparr>pc := Await 0 (js ''cat'') (DalleErrJson 404)\<rparr>)
        = Some (dalleFirst\<lparr>pc := Catch 0 (js ''cat'') (Error quotaMessage)\<rparr>)"
    using failure_isolation[where s="dalleFirst\<lparr>pc := Await 0 (js ''cat'') (DalleErrJson 404)\<rparr>"
        and i=0 and w="js ''cat''" and st=404 and m=quotaMessage and e=dalleEnv,
        THEN conjunct2, THEN conjunct2, THEN conjunct2, THEN conjunct2, THEN conjunct2, THEN conjunct2, THEN conjunct2, THEN conjunct1] example_errors
    by simp
  have w9: "deliver dalleEnv (Settled (ErrorJson None))
          (dalleFirst\<lparr>pc := Await 0 (js ''cat'') (DalleErrJson 404)\<rparr>)
        = Some (dalleFirst\<lparr>pc := Catch 0 (js ''cat'') (Error (js ''HTTP 404''))\<rparr>)"
    using failure_isolation[where s="dalleFirst\<lparr>pc := Await 0 (js ''cat'') (DalleErrJson 404)\<rparr>"
        and i=0 and w="js ''cat''" and st=404 and mo=None and e=dalleEnv,
        THEN conjunct2, THEN conjunct2, THEN conjunct2, THEN conjunct2, THEN conjunct2, THEN conjunct2, THEN conjunct2, THEN conjunct2, THEN conjunct1]
    by (simp add: example_messages)
  have w10: "deliver dalleEnv (Settled (BadShape nullBodyError))
          (dalleFirst\<lparr>pc := Await 0 (js ''cat'') (DalleErrJson 404)\<rparr>)
        = Some (dalleFirst\<lparr>pc := Catch 0 (js ''cat'') nullBodyError\<rparr>)"
    using failure_isolation[where s="dalleFirst\<lparr>pc := Await 0 (js ''cat'') (DalleErrJson 404)\<rparr>"
        and i=0 and w="js ''cat''" and st=404 and err=nullBodyError and e=dalleEnv,
        THEN conjunct2, THEN conjunct2, THEN conjunct2, THEN conjunct2, THEN conjunct2, THEN conjunct2, THEN conjunct2, THEN conjunct2, THEN conjunct2, THEN conjunct1]
    by simp
  have w11: "deliver dalleEnv (Settled (Response 403))
          (dalleFirst\<lparr>pc := Await 0 (js ''cat'') (DalleDownload (js ''https://cdn.example/cat.png''))\<rparr>)
        = Some (dalleFirst\<lparr>pc := Catch 0 (js ''cat'') (Error (js ''Download failed''))\<rparr>)"
    using failure_isolation[where s="dalleFirst\<lparr>pc := Await 0 (js ''cat'') (DalleDownload (js ''https://cdn.example/cat.png''))\<rparr>"
        and i=0 and w="js ''cat''" and st=403 and u="js ''https://cdn.example/cat.png''" and e=dalleEnv,
        THEN conjunct2, THEN conjunct2, THEN conjunct2, THEN conjunct2, THEN conjunct2, THEN conjunct2, THEN conjunct2, THEN conjunct2, THEN conjunct2, THEN conjunct2, THEN conjunct1]
    by simp
  have w12: "deliver exampleEnv (Settled (AxiosResponse 500 [])) exampleFirst
        = Some (exampleFirst\<lparr>pc := Catch 0 (js ''cat'') (Error (js ''Stability API error 500: ''))\<rparr>)"
    using failure_isolation[where s=exampleFirst and i=0 and w="js ''cat''" and st=500 and b="[]"
        and e=exampleEnv,
        THEN conjunct2, THEN conjunct2, THEN conjunct2, THEN conjunct2, THEN conjunct2, THEN conjunct2, THEN conjunct2, THEN conjunct2, THEN conjunct2, THEN conjunct2, THEN conjunct2, THEN conjunct1] p
    by (simp add: example_messages)
  have w13: "job (exampleFirst\<lparr>pc := Catch 0 (js ''cat'') networkError\<rparr>) = job exampleFirst"
    using failure_isolation[where s=exampleFirst and i=0 and w="js ''cat''" and a=StabPostForm
        and e=exampleEnv and ev="Settled (Rejected networkError)"
        and s'="exampleFirst\<lparr>pc := Catch 0 (js ''cat'') networkError\<rparr>",
        THEN conjunct2, THEN conjunct2, THEN conjunct2, THEN conjunct2, THEN conjunct2, THEN conjunct2, THEN conjunct2, THEN conjunct2, THEN conjunct2, THEN conjunct2, THEN conjunct2, THEN conjunct2, THEN conjunct1] p w5a
    by simp
  have r: "reach exampleEnv exampleTask exampleStart (exampleFirst\<lparr>pc := Catch 0 (js ''cat'') networkError\<rparr>)"
    using example_reach_first w5a by (rule reach_deliver)
  have nxt: "exampleFirst\<lparr>job := (job exampleFirst)\<lparr>results := results (job exampleFirst) @ [failureResult (js ''cat'') networkError],
                                        completedWords := 0 + 1, status := Generating,
                                        currentWord := Some (wordList exampleTask ! (0 + 1))\<rparr>,
                          pc := Dispatch (0 + 1) (wordList exampleTask ! (0 + 1))\<rparr>
      = exampleSecond\<lparr>pc := Dispatch 1 (js ''dog'')\<rparr>"
    by (simp add: example_first example_second example_wordList newJob_def)
  note c = failure_isolation[where s="exampleFirst\<lparr>pc := Catch 0 (js ''cat'') networkError\<rparr>" and i=0
      and w="js ''cat''" and e=exampleEnv and t=exampleTask and err=networkError
      and start=exampleStart,
        THEN conjunct2, THEN conjunct2, THEN conjunct2, THEN conjunct2, THEN conjunct2, THEN conjunct2, THEN conjunct2, THEN conjunct2, THEN conjunct2, THEN conjunct2, THEN conjunct2, THEN conjunct2, THEN conjunct2, THEN conjunct1]
  have w14: "micros exampleEnv exampleTask 5 (exampleFirst\<lparr>pc := Catch 0 (js ''cat'') networkError\<rparr>)
        = Some (exampleSecond\<lparr>pc := Dispatch 1 (js ''dog'')\<rparr>)"
    using c r nxt by (simp add: example_wordList)
  have w14': "alt (failureResult (js ''cat'') networkError)
        = js ''Failed to generate image for cat: socket hang up''"
    using c r by (simp add: example_messages example_wordList)
  have ev: "onEvent exampleEnv exampleTask (Settled (Rejected networkError)) exampleFirst = exampleSecond"
    by (simp add: exampleSecond_def)
  have w15: "results (job exampleSecond) ! 0 = failureResult (js ''cat'') networkError
      \<and> 0 < completedWords (job exampleSecond)"
    using failure_isolation[where e=exampleEnv and t=exampleTask and start=exampleStart
        and s=exampleFirst and ev="Settled (Rejected networkError)"
        and s'="exampleFirst\<lparr>pc := Catch 0 (js ''cat'') networkError\<rparr>"
        and i=0 and w="js ''cat''" and err=networkError,
        THEN conjunct2, THEN conjunct2, THEN conjunct2, THEN conjunct2, THEN conjunct2, THEN conjunct2, THEN conjunct2, THEN conjunct2, THEN conjunct2, THEN conjunct2, THEN conjunct2, THEN conjunct2, THEN conjunct2, THEN conjunct2, THEN conjunct1] example_reach_first w5a ev
    by simp
  have o: "observable exampleFirst" by (simp add: example_first observable_def)
  have td: "todo (length (wordList exampleTask)) (pc exampleFirst) \<le> length exampleScript"
    by (simp add: example_first example_wordList exampleScript_def)
  have w16: "pc (onEvents exampleEnv exampleTask exampleScript exampleFirst) = Returned"
    using failure_isolation[where s=exampleFirst and e=exampleEnv and t=exampleTask and evs=exampleScript,
        THEN conjunct2, THEN conjunct2, THEN conjunct2, THEN conjunct2, THEN conjunct2, THEN conjunct2, THEN conjunct2, THEN conjunct2, THEN conjunct2, THEN conjunct2, THEN conjunct2, THEN conjunct2, THEN conjunct2, THEN conjunct2, THEN conjunct2]
      o td example_script_run(2) by simp
  have urls: "map url (results (job exampleLast))
        = [[], js ''file:///srv/generated-images/dog_2026-01-01T00-00-00-001Z.png'']"
    by (simp add: example_last failureResult_def successResult_def filepathOf_def filenameOf_def
        sanitizeFilename_def toLowerCase_def lowerChar_def isAlnum_def trim_def isWhiteSpace_def
        exampleEnv_def exampleTask_def js_def)
  show ?thesis
    by (intro conjI w1 w2 w3 w4 p w5a q w5b w5c w6a[THEN conjunct1] w6a[THEN conjunct2] w6b w7
        w8 w9 w10 w11 w12 w13 r w14 w14' example_reach_first ev w15[THEN conjunct1]
        w15[THEN conjunct2] o example_script_run(2) td w16)
      (simp add: example_script_run(1) urls)
qed

lemma blank_parse:
  "schemaParse exampleEnv blankInput = Inr (exampleParsed\<lparr>words := js '' , ,''\<rparr>)"
  by (simp add: schemaParse_def blankInput_def exampleArguments_def exampleParsed_def
      zString_def zStringDefault_def zBooleanDefault_def)

lemma blank_makeWordList: "makeWordList (js '' , ,'') = []"
  by (simp add: makeWordList_def js_def trim_def isWhiteSpace_def)

lemma number_provider_parse:
  "schemaParse exampleEnv numberProviderInput = Inl (ZodError exampleEnv numberProviderInput)"
  "schemaParse exampleEnv blankNumberProviderInput = Inl (ZodError exampleEnv blankNumberProviderInput)"
  by (simp_all add: schemaParse_def numberProviderInput_def blankNumberProviderInput_def
      zString_def zStringDefault_def zBooleanDefault_def)

lemma example_zod:
  "ZodError exampleEnv inp = JsError (js ''ZodError'') (js ''invalid input'')"
  by (simp add: ZodError_def exampleEnv_def)

text \<open>
  Claim C9 as stated fails, because whether \<^verbatim>\<open>generateImages\<close> reports a
  validation failure does not depend on \<^verbatim>\<open>words\<close> alone. The input with
  \<^verbatim>\<open>words: "cat"\<close> and \<^verbatim>\<open>provider: 5\<close> has a word, the directories are
  accessible, and still \<^verbatim>\<open>generateImages\<close> throws to its caller, on both paths:
  the ZodError of the malformed input. And the input with \<^verbatim>\<open>words: " , ,"\<close>
  and \<^verbatim>\<open>provider: 5\<close> has no word, and the error thrown is that ZodError, not
  \<^verbatim>\<open>Error("No valid words provided.")\<close>.
\<close>

theorem ill_typed_input_rejected:
  "makeWordList (js ''cat'') = [js ''cat'']
   \<and> accessImageDir exampleCall = None \<and> accessJobsDir exampleCall = None
   \<and> generateImages exampleEnv exampleCall numberProviderInput [] \<lparr>activeJobs = Map.empty\<rparr>
        = (Some (Inl (JsError (js ''ZodError'') (js ''invalid input''))), \<lparr>activeJobs = Map.empty\<rparr>)
   \<and> generateImagesAsync exampleEnv exampleCall numberProviderInput \<lparr>activeJobs = Map.empty\<rparr>
        = (Inl (JsError (js ''ZodError'') (js ''invalid input'')), \<lparr>activeJobs = Map.empty\<rparr>)
   \<and> generateImagesSync exampleEnv exampleCall numberProviderInput []
        = Some (Inl (JsError (js ''ZodError'') (js ''invalid input'')))
   \<and> makeWordList (js '' , ,'') = []
   \<and> generateImages exampleEnv exampleCall blankNumberProviderInput [] \<lparr>activeJobs = Map.empty\<rparr>
        = (Some (Inl (JsError (js ''ZodError'') (js ''invalid input''))), \<lparr>activeJobs = Map.empty\<rparr>)
   \<and> generateImagesSync exampleEnv exampleCall blankNumberProviderInput []
        = Some (Inl (JsError (js ''ZodError'') (js ''invalid input'')))
   \<and> JsError (js ''ZodError'') (js ''invalid input'') \<noteq> noValidWords"
proof -
  have a: "makeWordList (js ''cat'') = [js ''cat'']"
    by (simp add: makeWordList_def js_def trim_def isWhiteSpace_def)
  have b: "accessImageDir exampleCall = None" "accessJobsDir exampleCall = None"
    by (simp_all add: exampleCall_def)
  have n: "JsError (js ''ZodError'') (js ''invalid input'') \<noteq> noValidWords"
    by (simp add: noValidWords_def Error_def js_def)
  show ?thesis
    by (intro conjI a b blank_makeWordList n)
      (simp_all add: generateImages_def generateImagesAsync_def generateImagesSync_def
        number_provider_parse example_zod)
qed

theorem validation_error_witness:
  "makeWordList (js '' , ,'') = []
   \<and> schemaParse exampleEnv exampleInput = Inr exampleParsed
   \<and> in_words exampleArguments = StringArg (words exampleParsed)
   \<and> in_provider exampleArguments = StringArg (js ''stability'')
   \<and> provider exampleParsed = js ''stability''
   \<and> in_async exampleArguments = Absent \<and> async exampleParsed
   \<and> schemaParse exampleEnv blankInput = Inr (exampleParsed\<lparr>words := js '' , ,''\<rparr>)
   \<and> generateImages exampleEnv exampleCall blankInput [] exampleWorld = (Some (Inl noValidWords), exampleWorld)
   \<and> generateImagesAsync exampleEnv exampleCall blankInput exampleWorld = (Inl noValidWords, exampleWorld)
   \<and> generateImagesSync exampleEnv exampleCall blankInput [] = Some (Inl noValidWords)
   \<and> makeWordList (words exampleParsed) \<noteq> []
   \<and> fst (generateImages exampleEnv failingCall exampleInput [] \<lparr>activeJobs = Map.empty\<rparr>)
        = Some (Inl (JsError (js ''Error'') (js ''EACCES: permission denied'')))
   \<and> mkdirImageDir failingCall = Some (JsError (js ''Error'') (js ''EACCES: permission denied''))
   \<and> accessImageDir exampleCall = None \<and> accessJobsDir exampleCall = None
   \<and> (\<forall>err'. fst (generateImages exampleEnv exampleCall exampleInput [] \<lparr>activeJobs = Map.empty\<rparr>)
        \<noteq> Some (Inl err'))
   \<and> schemaParse exampleEnv numberProviderInput = Inl (ZodError exampleEnv numberProviderInput)
   \<and> err_name (ZodError exampleEnv numberProviderInput) = js ''ZodError''
   \<and> generateImages exampleEnv exampleCall numberProviderInput [] exampleWorld
        = (Some (Inl (ZodError exampleEnv numberProviderInput)), exampleWorld)
   \<and> generateImagesAsync exampleEnv exampleCall numberProviderInput exampleWorld
        = (Inl (ZodError exampleEnv numberProviderInput), exampleWorld)
   \<and> generateImagesSync exampleEnv exampleCall numberProviderInput []
        = Some (Inl (ZodError exampleEnv numberProviderInput))"
proof -
  have ch: "\<forall>ch\<in>set (js '' , ,''). ch = 0x2C \<or> isWhiteSpace ch"
    by (simp add: js_def isWhiteSpace_def)
  have w1: "makeWordList (js '' , ,'') = []"
    using validation_error[where ws="js '' , ,''",
        THEN conjunct1] ch by simp
  have acc: "\<exists>a. exampleInput = Object a \<and> (\<exists>x. in_words a = StringArg x)
           \<and> (\<forall>v\<in>{in_provider a, in_style a, in_background a, in_size a, in_quality a}.
                 v = Absent \<or> (\<exists>x. v = StringArg x))
           \<and> (in_async a = Absent \<or> (\<exists>x. in_async a = BooleanArg x))"
    by (rule exI[of _ exampleArguments]) (simp add: exampleInput_def exampleArguments_def)
  have w2: "\<exists>p'. schemaParse exampleEnv exampleInput = Inr p'"
    using validation_error[where e=exampleEnv and inp=exampleInput,
        THEN conjunct2, THEN conjunct1] acc by simp
  have pe: "schemaParse exampleEnv (Object exampleArguments) = Inr exampleParsed"
    using example_parse by (simp add: exampleInput_def)
  have fl: "in_provider exampleArguments = StringArg (js ''stability'')"
    "in_async exampleArguments = Absent"
    by (simp_all add: exampleArguments_def)
  have w3: "in_words exampleArguments = StringArg (words exampleParsed)
      \<and> provider exampleParsed = js ''stability'' \<and> async exampleParsed"
    using validation_error[where e=exampleEnv and a=exampleArguments and p=exampleParsed
        and x="js ''stability''",
        THEN conjunct2, THEN conjunct2, THEN conjunct1] pe fl
    by simp
  have bw: "makeWordList (words (exampleParsed\<lparr>words := js '' , ,''\<rparr>)) = []"
    by (simp add: blank_makeWordList)
  have w4: "generateImages exampleEnv exampleCall blankInput [] exampleWorld = (Some (Inl noValidWords), exampleWorld)
      \<and> generateImagesAsync exampleEnv exampleCall blankInput exampleWorld = (Inl noValidWords, exampleWorld)
      \<and> generateImagesSync exampleEnv exampleCall blankInput [] = Some (Inl noValidWords)"
    using validation_error[where e=exampleEnv and inp=blankInput
        and p="exampleParsed\<lparr>words := js '' , ,''\<rparr>" and c=exampleCall and evs="[]" and w=exampleWorld,
        THEN conjunct2, THEN conjunct2, THEN conjunct2, THEN conjunct1]
      blank_parse bw
    by simp
  have ne: "makeWordList (words exampleParsed) \<noteq> []" by (simp add: example_makeWordList)
  have fc: "fst (generateImages exampleEnv failingCall exampleInput [] \<lparr>activeJobs = Map.empty\<rparr>)
        = Some (Inl (JsError (js ''Error'') (js ''EACCES: permission denied'')))"
    by (simp add: generateImages_def generateImagesAsync_def example_parse example_call ne
        ensureDirectory_def failingCall_def)
  have w5: "mkdirImageDir failingCall = Some (JsError (js ''Error'') (js ''EACCES: permission denied''))"
    using validation_error[where e=exampleEnv and inp=exampleInput and p=exampleParsed
        and c=failingCall and evs="[]" and w="\<lparr>activeJobs = Map.empty\<rparr>"
        and err="JsError (js ''Error'') (js ''EACCES: permission denied'')",
        THEN conjunct2, THEN conjunct2, THEN conjunct2, THEN conjunct2, THEN conjunct1] example_parse ne fc
    by (simp add: failingCall_def exampleCall_def)
  have ac: "accessImageDir exampleCall = None" "accessJobsDir exampleCall = None"
    by (simp_all add: exampleCall_def)
  have w6: "\<forall>err'. fst (generateImages exampleEnv exampleCall exampleInput [] \<lparr>activeJobs = Map.empty\<rparr>)
        \<noteq> Some (Inl err')"
    using validation_error[where e=exampleEnv and inp=exampleInput and p=exampleParsed
        and c=exampleCall and evs="[]" and w="\<lparr>activeJobs = Map.empty\<rparr>",
        THEN conjunct2, THEN conjunct2, THEN conjunct2, THEN conjunct2, THEN conjunct2, THEN conjunct1] example_parse ne ac
    by simp
  have w7: "err_name (ZodError exampleEnv numberProviderInput) = js ''ZodError''
      \<and> generateImages exampleEnv exampleCall numberProviderInput [] exampleWorld
        = (Some (Inl (ZodError exampleEnv numberProviderInput)), exampleWorld)
      \<and> generateImagesAsync exampleEnv exampleCall numberProviderInput exampleWorld
        = (Inl (ZodError exampleEnv numberProviderInput), exampleWorld)
      \<and> generateImagesSync exampleEnv exampleCall numberProviderInput []
        = Some (Inl (ZodError exampleEnv numberProviderInput))"
    using validation_error[where e=exampleEnv and inp=numberProviderInput
        and err="ZodError exampleEnv numberProviderInput" and c=exampleCall and evs="[]"
        and w=exampleWorld,
        THEN conjunct2, THEN conjunct2, THEN conjunct2, THEN conjunct2, THEN conjunct2, THEN conjunct2] number_provider_parse(1)
    by simp
  show ?thesis
    by (intro conjI w1 example_parse w3[THEN conjunct1] fl w3[THEN conjunct2, THEN conjunct1]
        w3[THEN conjunct2, THEN conjunct2] blank_parse w4[THEN conjunct1]
        w4[THEN conjunct2, THEN conjunct1] w4[THEN conjunct2, THEN conjunct2] ne fc w5 ac w6
        number_provider_parse(1) w7[THEN conjunct1] w7[THEN conjunct2, THEN conjunct1]
        w7[THEN conjunct2, THEN conjunct2, THEN conjunct1] w7[THEN conjunct2, THEN conjunct2, THEN conjunct2])
qed

theorem validation_is_atomic_witness:
  "schemaParse exampleEnv blankInput = Inr (exampleParsed\<lparr>words := js '' , ,''\<rparr>)
   \<and> makeWordList (js '' , ,'') = [] \<and> async exampleParsed
   \<and> generateImagesAsync exampleEnv exampleCall blankInput exampleWorld = (Inl noValidWords, exampleWorld)
   \<and> generateImages exampleEnv exampleCall blankInput [] exampleWorld = (Some (Inl noValidWords), exampleWorld)
   \<and> fst (generateImagesAsync exampleEnv failingCall exampleInput exampleWorld)
        = Inl (JsError (js ''Error'') (js ''EACCES: permission denied''))
   \<and> snd (generateImagesAsync exampleEnv failingCall exampleInput exampleWorld) = exampleWorld
   \<and> fst (generateImages exampleEnv exampleCall numberProviderInput [] exampleWorld)
        = Some (Inl (ZodError exampleEnv numberProviderInput))
   \<and> snd (generateImages exampleEnv exampleCall numberProviderInput [] exampleWorld) = exampleWorld
   \<and> activeJobs exampleWorld (jobId exampleTask) = Some (exampleTask, exampleFirst)
   \<and> fst (generateImagesAsync exampleEnv exampleCall exampleInput \<lparr>activeJobs = Map.empty\<rparr>)
        = Inr exampleResponse
   \<and> (\<exists>t r. snd (generateImagesAsync exampleEnv exampleCall exampleInput \<lparr>activeJobs = Map.empty\<rparr>)
          = \<lparr>activeJobs = [resp_jobId exampleResponse \<mapsto> (t, r)]\<rparr>)"
proof -
  have bw: "makeWordList (words (exampleParsed\<lparr>words := js '' , ,''\<rparr>)) = []"
    by (simp add: blank_makeWordList)
  have pa: "async (exampleParsed\<lparr>words := js '' , ,''\<rparr>)" by (simp add: exampleParsed_def)
  have w1: "generateImagesAsync exampleEnv exampleCall blankInput exampleWorld = (Inl noValidWords, exampleWorld)
      \<and> generateImages exampleEnv exampleCall blankInput [] exampleWorld = (Some (Inl noValidWords), exampleWorld)"
    using validation_is_atomic[where e=exampleEnv and inp=blankInput
        and p="exampleParsed\<lparr>words := js '' , ,''\<rparr>" and c=exampleCall and evs="[]" and w=exampleWorld,
        THEN conjunct1]
      blank_parse bw pa
    by simp
  have ne: "makeWordList (words exampleParsed) \<noteq> []" by (simp add: example_makeWordList)
  have fc: "fst (generateImagesAsync exampleEnv failingCall exampleInput exampleWorld)
        = Inl (JsError (js ''Error'') (js ''EACCES: permission denied''))"
    by (simp add: generateImagesAsync_def example_parse ne ensureDirectory_def failingCall_def)
  have w2: "snd (generateImagesAsync exampleEnv failingCall exampleInput exampleWorld) = exampleWorld"
    using validation_is_atomic[where e=exampleEnv and c=failingCall and inp=exampleInput
        and w=exampleWorld and err="JsError (js ''Error'') (js ''EACCES: permission denied'')",
        THEN conjunct2, THEN conjunct1] fc
    by simp
  have zf: "fst (generateImages exampleEnv exampleCall numberProviderInput [] exampleWorld)
        = Some (Inl (ZodError exampleEnv numberProviderInput))"
    by (simp add: generateImages_def number_provider_parse)
  have w3: "snd (generateImages exampleEnv exampleCall numberProviderInput [] exampleWorld) = exampleWorld"
    using validation_is_atomic[where e=exampleEnv and c=exampleCall and inp=numberProviderInput
        and evs="[]" and w=exampleWorld and err="ZodError exampleEnv numberProviderInput",
        THEN conjunct2, THEN conjunct2, THEN conjunct1] zf
    by simp
  have rf: "fst (generateImagesAsync exampleEnv exampleCall exampleInput \<lparr>activeJobs = Map.empty\<rparr>)
        = Inr exampleResponse"
    by (simp add: example_async)
  have w4: "\<exists>t r. snd (generateImagesAsync exampleEnv exampleCall exampleInput \<lparr>activeJobs = Map.empty\<rparr>)
          = \<lparr>activeJobs = [resp_jobId exampleResponse \<mapsto> (t, r)]\<rparr>"
    using validation_is_atomic[where e=exampleEnv and c=exampleCall and inp=exampleInput
        and w="\<lparr>activeJobs = Map.empty\<rparr>" and resp=exampleResponse,
        THEN conjunct2, THEN conjunct2, THEN conjunct2] rf
    by simp
  have reg: "activeJobs exampleWorld (jobId exampleTask) = Some (exampleTask, exampleFirst)"
    by (simp add: example_world)
  show ?thesis
    by (intro conjI blank_parse blank_makeWordList example_call(4) w1[THEN conjunct1]
        w1[THEN conjunct2] fc w2 zf w3 reg rf w4)
qed

theorem checkStatus_projection_witness:
  "activeJobs exampleWorld (js ''job_0_none'') = None
   \<and> checkStatus (js ''job_0_none'') exampleWorld
        = (Inl (Error (js ''Job not found: job_0_none'')), exampleWorld)
   \<and> activeJobs exampleWorld (jobId exampleTask) = Some (exampleTask, exampleFirst)
   \<and> fst (checkStatus (jobId exampleTask) exampleWorld) = Inr (statusView (job exampleFirst))
   \<and> view_status (statusView (job exampleFirst)) = Generating
   \<and> view_results (statusView (job exampleFirst)) = None
   \<and> view_successCount (statusView (job exampleFirst)) = None
   \<and> activeJobs completedWorld (jobId exampleTask) = Some (exampleTask, exampleLast)
   \<and> status (job exampleLast) = Completed
   \<and> checkStatus (jobId exampleTask) completedWorld = (Inr (statusView (job exampleLast)), completedWorld)
   \<and> view_results (statusView (job exampleLast)) = Some (results (job exampleLast))
   \<and> view_successCount (statusView (job exampleLast)) = Some 1
   \<and> view_failureCount (statusView (job exampleLast)) = Some 1"
proof -
  have n: "activeJobs exampleWorld (js ''job_0_none'') = None"
    by (simp add: example_world exampleTask_def js_def)
  have r: "activeJobs exampleWorld (jobId exampleTask) = Some (exampleTask, exampleFirst)"
    "activeJobs completedWorld (jobId exampleTask) = Some (exampleTask, exampleLast)"
    by (simp_all add: example_world completedWorld_def)
  have st: "status (job exampleLast) = Completed" "status (job exampleFirst) = Generating"
    by (simp_all add: example_last example_first)
  have cnt: "length (filter (\<lambda>x. url x \<noteq> []) (results (job exampleLast))) = 1"
    "length (results (job exampleLast)) = 2"
    by (simp_all add: example_last failureResult_def successResult_def js_def)
  note a = checkStatus_projection[where jid="js ''job_0_none''" and w=exampleWorld]
  note b = checkStatus_projection[where jid="jobId exampleTask" and w=exampleWorld
      and t=exampleTask and r=exampleFirst]
  note c = checkStatus_projection[where jid="jobId exampleTask" and w=completedWorld
      and t=exampleTask and r=exampleLast]
  have a': "checkStatus (js ''job_0_none'') exampleWorld
        = (Inl (Error (js ''Job not found: job_0_none'')), exampleWorld)"
    using a[THEN conjunct2, THEN conjunct1] a[THEN conjunct2, THEN conjunct2, THEN conjunct1] n
    by (simp add: prod_eq_iff js_def)
  have b': "fst (checkStatus (jobId exampleTask) exampleWorld) = Inr (statusView (job exampleFirst))
      \<and> view_status (statusView (job exampleFirst)) = Generating
      \<and> view_results (statusView (job exampleFirst)) = None
      \<and> view_successCount (statusView (job exampleFirst)) = None"
    using b[THEN conjunct2, THEN conjunct2, THEN conjunct2] r(1) st(2) by simp
  have c': "checkStatus (jobId exampleTask) completedWorld = (Inr (statusView (job exampleLast)), completedWorld)
      \<and> view_results (statusView (job exampleLast)) = Some (results (job exampleLast))
      \<and> view_successCount (statusView (job exampleLast)) = Some 1
      \<and> view_failureCount (statusView (job exampleLast)) = Some 1"
    using c[THEN conjunct2, THEN conjunct2, THEN conjunct2]
      c[THEN conjunct2, THEN conjunct2, THEN conjunct1] r(2) st(1) cnt
    by (simp add: prod_eq_iff)
  from n a' r b' st c' show ?thesis by simp
qed

theorem unknown_style_prompt_witness:
  "map_of styles (js ''watercolor'') = None
   \<and> Map.empty (js ''watercolor'') = (None :: jsstring option)
   \<and> Map.empty (js ''ghibli'') = (None :: jsstring option)
   \<and> stylePrompt Map.empty (js ''watercolor'') = Undefined
   \<and> buildPrompt Map.empty (js ''cat'') (js ''watercolor'') (js ''white'')
        = js ''white background, undefined, cat''"
proof -
  have w: "map_of styles (js ''watercolor'') = None" by (simp add: styles_def js_def)
  from unknown_style_prompt[where st="js ''watercolor''" and proto'=Map.empty and wd="js ''cat''"
      and bg="js ''white''", THEN conjunct2] w
  show ?thesis by (simp add: js_def)
qed

lemma dalle_first_await:
  "runToAwait dalleEnv dalleTask (initial dalleTask exampleStart)
     = \<lparr>job = (newJob dalleTask exampleStart)\<lparr>status := Generating, currentWord := Some (js ''cat'')\<rparr>,
        pc = Await 0 (js ''cat'') DalleFetch\<rparr>"
proof -
  have sw: "switch dalleEnv dalleTask = Next DalleFetch"
    by (simp add: switch_def dalleTask_def exampleTask_def toLowerCase_def lowerChar_def js_def
        dalleEnv_def exampleEnv_def missing_def)
  have wl: "wordList dalleTask = [js ''cat'', js ''dog'']"
    by (simp add: dalleTask_def exampleTask_def)
  show ?thesis
    by (simp add: runToAwait.simps micro_def initial_def sw wl)
qed

text \<open>
  Claim C7, on the code: at no \<^verbatim>\<open>await\<close> of the DALL-E branch of the background
  runner is a timer armed, while the Stability branch arms 90 seconds and the
  synchronous DALL-E branch 60 seconds. A job for the DALL-E provider with its key set
  suspends at the \<^verbatim>\<open>fetch\<close>; no timer event resumes it, and as long as the provider
  does not answer no entry is appended.
\<close>

theorem dalle_background_timer:
  "armed DalleFetch = None \<and> armed (DalleErrJson st) = None \<and> armed DalleJson = None
   \<and> armed (DalleDownload u) = None \<and> armed DalleArrayBuffer = None \<and> armed (DalleWriteFile b) = None
   \<and> armed StabPostForm = Some 90000
   \<and> syncArmed SyncDalleFetch = Some 60000 \<and> syncArmed SyncStabFetch = Some 90000
   \<and> pc (runToAwait dalleEnv dalleTask (initial dalleTask exampleStart)) = Await 0 (js ''cat'') DalleFetch
   \<and> deliver dalleEnv TimerFired (runToAwait dalleEnv dalleTask (initial dalleTask exampleStart)) = None
   \<and> onEvents dalleEnv dalleTask (replicate k TimerFired)
        (runToAwait dalleEnv dalleTask (initial dalleTask exampleStart))
        = runToAwait dalleEnv dalleTask (initial dalleTask exampleStart)
   \<and> results (job (onEvents dalleEnv dalleTask (replicate k TimerFired)
        (runToAwait dalleEnv dalleTask (initial dalleTask exampleStart)))) = []"
proof -
  have d: "deliver dalleEnv TimerFired (runToAwait dalleEnv dalleTask (initial dalleTask exampleStart)) = None"
    by (simp add: dalle_first_await deliver_def replyOf_def)
  from d have "onEvents dalleEnv dalleTask (replicate k TimerFired)
        (runToAwait dalleEnv dalleTask (initial dalleTask exampleStart))
        = runToAwait dalleEnv dalleTask (initial dalleTask exampleStart)"
    by (rule onEvents_ignored)
  with d show ?thesis by (simp add: dalle_first_await newJob_def)
qed

lemma cat_last:
  "catLast =
     \<lparr>job = (newJob catTask exampleStart)\<lparr>status := Completed, currentWord := None,
              results := [successResult exampleEnv catTask (js ''cat''),
                          successResult exampleEnv catTask (js ''cat'')],
              completedWords := 2, endTime := Some (endClock catTask)\<rparr>,
      pc = Returned\<rparr>"
proof -
  have sw: "switch exampleEnv catTask = Next StabPostForm"
    by (simp add: switch_def catTask_def exampleTask_def toLowerCase_def lowerChar_def js_def
        exampleEnv_def missing_def)
  have wl: "wordList catTask = [js ''cat'', js ''cat'']" by (simp add: catTask_def)
  show ?thesis
    by (simp add: catLast_def onEvent_def deliver_def replyOf_def resume_def runToAwait.simps
        micro_def initial_def sw wl newJob_def)
qed

lemma cat_filename:
  "filenameOf catTask (js ''cat'') = js ''cat_2026-01-01T00-00-00-001Z.png''"
  by (simp add: filenameOf_def sanitizeFilename_def toLowerCase_def lowerChar_def isAlnum_def
      trim_def isWhiteSpace_def catTask_def exampleTask_def js_def)

text \<open>
  Claim C5 as stated fails: for the words \<^verbatim>\<open>"cat, cat"\<close> both images are generated,
  both entries carry the same file name, and both are written to the same path.
\<close>

theorem repeated_word_collides:
  "makeWordList (js ''cat, cat'') = [js ''cat'', js ''cat'']
   \<and> wordList catTask = [js ''cat'', js ''cat'']
   \<and> pc catLast = Returned \<and> status (job catLast) = Completed
   \<and> map filename (results (job catLast))
        = [js ''cat_2026-01-01T00-00-00-001Z.png'', js ''cat_2026-01-01T00-00-00-001Z.png'']
   \<and> request exampleEnv catTask (wordList catTask ! 0) (StabWriteFile [1])
        = WriteFile (js ''/srv/generated-images/cat_2026-01-01T00-00-00-001Z.png'') [1]
   \<and> request exampleEnv catTask (wordList catTask ! 1) (StabWriteFile [2])
        = WriteFile (js ''/srv/generated-images/cat_2026-01-01T00-00-00-001Z.png'') [2]"
proof -
  have a: "makeWordList (js ''cat, cat'') = [js ''cat'', js ''cat'']"
    by (simp add: makeWordList_def js_def trim_def isWhiteSpace_def)
  have wl: "wordList catTask = [js ''cat'', js ''cat'']" by (simp add: catTask_def)
  have f: "map filename (results (job catLast))
        = [js ''cat_2026-01-01T00-00-00-001Z.png'', js ''cat_2026-01-01T00-00-00-001Z.png'']"
    by (simp add: cat_last successResult_def cat_filename)
  have p: "filepathOf exampleEnv catTask (js ''cat'')
      = js ''/srv/generated-images/cat_2026-01-01T00-00-00-001Z.png''"
    by (simp add: filepathOf_def cat_filename exampleEnv_def) (simp add: js_def)
  have r: "request exampleEnv catTask (js ''cat'') (StabWriteFile b)
      = WriteFile (js ''/srv/generated-images/cat_2026-01-01T00-00-00-001Z.png'') b" for b
    by (simp add: request_def p)
  from a wl f r show ?thesis by (simp add: cat_last)
qed

theorem filename_scheme_witness:
  "reach exampleEnv exampleTask exampleStart exampleLast
   \<and> (1::nat) < length (results (job exampleLast))
   \<and> url (results (job exampleLast) ! 1) \<noteq> []
   \<and> filename (results (job exampleLast) ! 1) = js ''dog_2026-01-01T00-00-00-001Z.png''
   \<and> url (results (job exampleLast) ! 1)
        = js ''file:///srv/generated-images/dog_2026-01-01T00-00-00-001Z.png''"
proof -
  have f: "filenameOf exampleTask (js ''dog'') = js ''dog_2026-01-01T00-00-00-001Z.png''"
    by (simp add: filenameOf_def sanitizeFilename_def toLowerCase_def lowerChar_def isAlnum_def
        trim_def isWhiteSpace_def exampleTask_def js_def)
  have l: "(1::nat) < length (results (job exampleLast))" by (simp add: example_last)
  have u: "url (results (job exampleLast) ! 1) \<noteq> []"
    by (simp add: example_last successResult_def js_def)
  have d: "imageDir (cfg exampleEnv) = js ''/srv/generated-images''" by (simp add: exampleEnv_def)
  from filename_scheme[where e=exampleEnv and t=exampleTask and start=exampleStart
      and s=exampleLast and k=1, THEN conjunct2, THEN conjunct2, THEN conjunct2]
    example_last_reach l u
  have "filename (results (job exampleLast) ! 1) = filenameOf exampleTask (wordList exampleTask ! 1)
      \<and> url (results (job exampleLast) ! 1)
          = js ''file://'' @ imageDir (cfg exampleEnv) @ js ''/'' @ filenameOf exampleTask (wordList exampleTask ! 1)"
    by simp
  then have "filename (results (job exampleLast) ! 1) = js ''dog_2026-01-01T00-00-00-001Z.png''
      \<and> url (results (job exampleLast) ! 1)
          = js ''file:///srv/generated-images/dog_2026-01-01T00-00-00-001Z.png''"
    by (simp add: example_wordList f d) (simp add: js_def)
  with example_last_reach l u show ?thesis by simp
qed

end
